theory Spec2Isabelle
  imports Main
begin

section \<open>Python values\<close>

text \<open>
  The values that \<^verbatim>\<open>json.loads\<close> produces and that the pipeline passes around.
  \<open>JNull\<close> is Python's \<^verbatim>\<open>None\<close>, a \<open>JObj\<close> is a \<^verbatim>\<open>dict\<close> (an association list, keys
  unique, in insertion order), a \<open>JArr\<close> is a \<^verbatim>\<open>list\<close>. Numbers are integers; floating
  point values are outside the model.
\<close>

datatype json =
    JNull
  | JBool bool
  | JNum int
  | JStr string
  | JArr "json list"
  | JObj "(string \<times> json) list"

type_synonym dict = "(string \<times> json) list"

text \<open>Truth value of a Python object, as \<^verbatim>\<open>if x:\<close> and \<^verbatim>\<open>not x\<close> read it.\<close>

fun truthy :: "json \<Rightarrow> bool" where
  "truthy JNull = False"
| "truthy (JBool b) = b"
| "truthy (JNum n) = (n \<noteq> 0)"
| "truthy (JStr s) = (s \<noteq> [])"
| "truthy (JArr xs) = (xs \<noteq> [])"
| "truthy (JObj kvs) = (kvs \<noteq> [])"

text \<open>\<^verbatim>\<open>d.get(k, default)\<close> and \<^verbatim>\<open>k in d\<close>.\<close>

definition dict_get :: "dict \<Rightarrow> string \<Rightarrow> json \<Rightarrow> json" where
  "dict_get d k dflt = (case map_of d k of Some v \<Rightarrow> v | None \<Rightarrow> dflt)"

definition has_key :: "dict \<Rightarrow> string \<Rightarrow> bool" where
  "has_key d k = (map_of d k \<noteq> None)"

text \<open>\<^verbatim>\<open>type(x).__name__\<close>, as it appears in the text of an \<^verbatim>\<open>AttributeError\<close>.\<close>

fun type_name :: "json \<Rightarrow> string" where
  "type_name JNull = ''NoneType''"
| "type_name (JBool b) = ''bool''"
| "type_name (JNum n) = ''int''"
| "type_name (JStr s) = ''str''"
| "type_name (JArr xs) = ''list''"
| "type_name (JObj kvs) = ''dict''"

definition sq :: string where
  "sq = [CHR 0x27]"

definition no_attribute :: "json \<Rightarrow> string \<Rightarrow> string" where
  "no_attribute v attr = sq @ type_name v @ sq @ '' object has no attribute '' @ sq @ attr @ sq"

subsection \<open>Formatting: \<^verbatim>\<open>str\<close> and \<^verbatim>\<open>repr\<close>\<close>

function show_nat :: "nat \<Rightarrow> string" where
  "show_nat n = (if n < 10 then [char_of (48 + n)] else show_nat (n div 10) @ [char_of (48 + n mod 10)])"
  by pat_completeness auto
termination
  by (relation "measure id") auto

declare show_nat.simps [simp del]

definition show_int :: "int \<Rightarrow> string" where
  "show_int i = (if i < 0 then CHR ''-'' # show_nat (nat (- i)) else show_nat (nat i))"

definition hex_digit :: "nat \<Rightarrow> char" where
  "hex_digit n = (if n < 10 then char_of (48 + n) else char_of (87 + n))"

text \<open>
  \<^verbatim>\<open>repr\<close> of a string whose code points are below 256: single quotes unless the
  string holds a single quote and no double quote; the quote and the backslash are
  escaped, tab, line feed and carriage return are written \<^verbatim>\<open>\t \n \r\<close>, every other
  non-printable code point as \<^verbatim>\<open>\xNN\<close>.
\<close>

definition printable :: "char \<Rightarrow> bool" where
  "printable c = (let n = (of_char c :: nat) in (32 \<le> n \<and> n < 127) \<or> (161 \<le> n \<and> n \<noteq> 173))"

definition repr_char :: "char \<Rightarrow> char \<Rightarrow> string" where
  "repr_char q c =
     (if c = q \<or> c = CHR 0x5C then [CHR 0x5C, c]
      else if c = CHR 0x09 then [CHR 0x5C, CHR ''t'']
      else if c = CHR 0x0A then [CHR 0x5C, CHR ''n'']
      else if c = CHR 0x0D then [CHR 0x5C, CHR ''r'']
      else if printable c then [c]
      else [CHR 0x5C, CHR ''x'', hex_digit (of_char c div 16), hex_digit (of_char c mod 16)])"

definition repr_str :: "string \<Rightarrow> string" where
  "repr_str s =
     (let q = (if CHR 0x27 \<in> set s \<and> CHR 0x22 \<notin> set s then CHR 0x22 else CHR 0x27)
      in q # concat (map (repr_char q) s) @ [q])"

fun join :: "string \<Rightarrow> string list \<Rightarrow> string" where
  "join sep [] = []"
| "join sep [x] = x"
| "join sep (x # y # ys) = x @ sep @ join sep (y # ys)"

fun py_repr :: "json \<Rightarrow> string" where
  "py_repr JNull = ''None''"
| "py_repr (JBool b) = (if b then ''True'' else ''False'')"
| "py_repr (JNum n) = show_int n"
| "py_repr (JStr s) = repr_str s"
| "py_repr (JArr xs) = ''['' @ join '', '' (map py_repr xs) @ '']''"
| "py_repr (JObj kvs) =
     ''{'' @ join '', '' (map (\<lambda>(k, v). repr_str k @ '': '' @ py_repr v) kvs) @ ''}''"

text \<open>\<^verbatim>\<open>str(x)\<close>, which an f-string applies to a value: a string is itself.\<close>

definition py_str :: "json \<Rightarrow> string" where
  "py_str v = (case v of JStr s \<Rightarrow> s | _ \<Rightarrow> py_repr v)"

text \<open>
  \<^verbatim>\<open>str.lower\<close>. A string is a list of code points below 256; the capitals among them
  are A to Z (65 to 90) and the capitals of Latin-1 (192 to 222 without the
  multiplication sign 215), each 32 below its small letter. Every other code point below
  256 is its own lower case.
\<close>

definition lower_char :: "char \<Rightarrow> char" where
  "lower_char c =
     (let n = (of_char c :: nat)
      in if (65 \<le> n \<and> n \<le> 90) \<or> (192 \<le> n \<and> n \<le> 222 \<and> n \<noteq> 215)
         then char_of (n + 32) else c)"

definition str_lower :: "string \<Rightarrow> string" where
  "str_lower s = map lower_char s"

section \<open>The response parser (llm\_handler.py)\<close>

subsection \<open>The regular expression of \<^verbatim>\<open>safe_json_parse\<close>\<close>

text \<open>
  \<^verbatim>\<open>re.search(r"```json\s*([\s\S]*?)\s*```|{[\s\S]*}", text)\<close>: the leftmost position at
  which one of the two alternatives matches, the fenced alternative tried first at each
  position. A match is the pair of group 1 (\<open>None\<close> when the brace alternative matched)
  and group 0.
\<close>

text \<open>\<^verbatim>\<open>\s\<close> on code points below 256.\<close>

definition is_space :: "char \<Rightarrow> bool" where
  "is_space c = (let n = (of_char c :: nat) in
     (9 \<le> n \<and> n \<le> 13) \<or> (28 \<le> n \<and> n \<le> 32) \<or> n = 133 \<or> n = 160)"

fun strip_prefix :: "string \<Rightarrow> string \<Rightarrow> string option" where
  "strip_prefix [] s = Some s"
| "strip_prefix (p # ps) [] = None"
| "strip_prefix (p # ps) (c # cs) = (if p = c then strip_prefix ps cs else None)"

definition fence :: string where
  "fence = [CHR 0x60, CHR 0x60, CHR 0x60]"

text \<open>The tail \<^verbatim>\<open>\s*```\<close> at the head of \<open>s\<close>: the text it matches.\<close>

definition fence_close :: "string \<Rightarrow> string option" where
  "fence_close s =
     (case strip_prefix fence (dropWhile is_space s) of
        Some r \<Rightarrow> Some (takeWhile is_space s @ fence)
      | None \<Rightarrow> None)"

text \<open>
  \<^verbatim>\<open>([\s\S]*?)\s*```\<close>: the lazy group grows one character at a time until the tail
  matches; the result is group 1 and the text of the tail.
\<close>

fun lazy_body :: "string \<Rightarrow> (string \<times> string) option" where
  "lazy_body [] = (case fence_close [] of Some t \<Rightarrow> Some ([], t) | None \<Rightarrow> None)"
| "lazy_body (c # cs) =
     (case fence_close (c # cs) of
        Some t \<Rightarrow> Some ([], t)
      | None \<Rightarrow> (case lazy_body cs of Some (b, t) \<Rightarrow> Some (c # b, t) | None \<Rightarrow> None))"

text \<open>
  The first alternative at the head of \<open>s\<close>. The greedy \<^verbatim>\<open>\s*\<close> after the label takes
  the whole run of white space: a shorter run leaves white space before the group, and
  the closing fence cannot start inside that run.
\<close>

definition match_fence :: "string \<Rightarrow> (string option \<times> string) option" where
  "match_fence s =
     (case strip_prefix (fence @ ''json'') s of
        Some r \<Rightarrow>
          (case lazy_body (dropWhile is_space r) of
             Some (b, t) \<Rightarrow> Some (Some b, fence @ ''json'' @ takeWhile is_space r @ b @ t)
           | None \<Rightarrow> None)
      | None \<Rightarrow> None)"

text \<open>The longest prefix of \<open>s\<close> that ends with \<open>c\<close>.\<close>

fun upto_last :: "char \<Rightarrow> string \<Rightarrow> string option" where
  "upto_last c [] = None"
| "upto_last c (x # xs) =
     (case upto_last c xs of
        Some r \<Rightarrow> Some (x # r)
      | None \<Rightarrow> if x = c then Some [x] else None)"

text \<open>The second alternative \<^verbatim>\<open>{[\s\S]*}\<close>: greedy, from a brace to the last closing brace.\<close>

definition match_braces :: "string \<Rightarrow> (string option \<times> string) option" where
  "match_braces s =
     (case s of
        [] \<Rightarrow> None
      | c # cs \<Rightarrow>
          if c = CHR 0x7B then
            (case upto_last (CHR 0x7D) cs of Some m \<Rightarrow> Some (None, c # m) | None \<Rightarrow> None)
          else None)"

definition match_here :: "string \<Rightarrow> (string option \<times> string) option" where
  "match_here s = (case match_fence s of Some m \<Rightarrow> Some m | None \<Rightarrow> match_braces s)"

fun re_search :: "string \<Rightarrow> (string option \<times> string) option" where
  "re_search [] = match_here []"
| "re_search (c # cs) =
     (case match_here (c # cs) of Some m \<Rightarrow> Some m | None \<Rightarrow> re_search cs)"

subsection \<open>\<^verbatim>\<open>str.find\<close>, \<^verbatim>\<open>str.rfind\<close> and slices\<close>

definition py_find :: "char \<Rightarrow> string \<Rightarrow> int" where
  "py_find c t = (if c \<in> set t then int (length (takeWhile (\<lambda>x. x \<noteq> c) t)) else - 1)"

definition py_rfind :: "char \<Rightarrow> string \<Rightarrow> int" where
  "py_rfind c t =
     (if c \<in> set t then int (length t) - 1 - int (length (takeWhile (\<lambda>x. x \<noteq> c) (rev t)))
      else - 1)"

text \<open>\<^verbatim>\<open>t[i:j]\<close> for \<open>0 \<le> i\<close> and \<open>0 \<le> j\<close>.\<close>

definition py_slice :: "string \<Rightarrow> int \<Rightarrow> int \<Rightarrow> string" where
  "py_slice t i j = drop (nat i) (take (nat j) t)"

subsection \<open>\<^verbatim>\<open>safe_json_parse\<close>\<close>

text \<open>
  \<open>loads\<close> is \<^verbatim>\<open>json.loads\<close>: \<open>None\<close> when it raises \<^verbatim>\<open>JSONDecodeError\<close>. The result
  \<open>JNull\<close> is Python's \<^verbatim>\<open>None\<close>.
\<close>

definition regex_attempt :: "(string \<Rightarrow> json option) \<Rightarrow> string \<Rightarrow> json option" where
  "regex_attempt loads text =
     (case re_search text of
        None \<Rightarrow> None
      | Some (g1, g0) \<Rightarrow>
          loads (case g1 of None \<Rightarrow> g0 | Some b \<Rightarrow> if b \<noteq> [] then b else g0))"

definition brace_attempt :: "(string \<Rightarrow> json option) \<Rightarrow> string \<Rightarrow> json option" where
  "brace_attempt loads text =
     (let start = py_find (CHR 0x7B) text; end = py_rfind (CHR 0x7D) text
      in if start \<noteq> - 1 \<and> end \<noteq> - 1 \<and> end > start
         then loads (py_slice text start (end + 1))
         else None)"

definition safe_json_parse :: "(string \<Rightarrow> json option) \<Rightarrow> string \<Rightarrow> json" where
  "safe_json_parse loads text =
     (case regex_attempt loads text of
        Some v \<Rightarrow> v
      | None \<Rightarrow> (case brace_attempt loads text of Some v \<Rightarrow> v | None \<Rightarrow> JNull))"

subsection \<open>\<^verbatim>\<open>parse_llm_response\<close>\<close>

text \<open>
  The result is the tuple \<^verbatim>\<open>(action, description, filter_conditions, error)\<close>; the
  first three components are Python values (\<open>JNull\<close> for \<^verbatim>\<open>None\<close>), the error is a
  message or \<^verbatim>\<open>None\<close>.
\<close>

type_synonym parse_result = "json \<times> json \<times> json \<times> string option"

definition valid_operators :: "json list" where
  "valid_operators = [JStr ''=='', JStr ''>='', JStr ''<='', JStr ''>'', JStr ''<'']"

text \<open>The loop over the filter conditions: the message of the first return, if any.\<close>

fun check_conditions :: "json list \<Rightarrow> string option" where
  "check_conditions [] = None"
| "check_conditions (condition # rest) =
     (case condition of
        JObj d \<Rightarrow>
          if \<not> has_key d ''column'' \<or> \<not> has_key d ''value''
          then Some (''Filter condition missing '' @ sq @ ''column'' @ sq @ '' or '' @ sq
                     @ ''value'' @ sq @ '' parameter.'')
          else (let operator = dict_get d ''operator'' (JStr ''=='')
                in if operator \<notin> set valid_operators
                   then Some (''Invalid filter operator: '' @ py_str operator)
                   else check_conditions rest)
      | _ \<Rightarrow> Some ''Each filter condition must be a dictionary.'')"

definition check_filter :: "json \<Rightarrow> string option" where
  "check_filter filter_conditions =
     (if truthy filter_conditions then
        (case filter_conditions of
           JArr conditions \<Rightarrow> check_conditions conditions
         | _ \<Rightarrow> Some ''Filter must be a list of condition dictionaries.'')
      else None)"

text \<open>
  The chain of \<^verbatim>\<open>if\<close>/\<^verbatim>\<open>elif\<close> on the action type. Each of the first four tests is
  the conjunction "this type and a parameter is missing"; the \<^verbatim>\<open>else\<close> branch is
  reached whenever no test holds.
\<close>

definition check_type :: "string \<Rightarrow> dict \<Rightarrow> string option" where
  "check_type action_type action =
     (if action_type = ''histogram'' \<and> \<not> has_key action ''column''
      then Some (''Histogram action missing '' @ sq @ ''column'' @ sq @ '' parameter.'')
      else if action_type = ''bar'' \<and> \<not> has_key action ''x''
      then Some (''Bar chart action missing '' @ sq @ ''x'' @ sq @ '' parameter.'')
      else if action_type = ''scatter'' \<and> (\<not> has_key action ''x'' \<or> \<not> has_key action ''y'')
      then Some (''Scatter plot action missing '' @ sq @ ''x'' @ sq @ '' or '' @ sq @ ''y'' @ sq
                 @ '' parameter.'')
      else if action_type = ''line'' \<and> (\<not> has_key action ''x'' \<or> \<not> has_key action ''y'')
      then Some (''Line chart action missing '' @ sq @ ''x'' @ sq @ '' or '' @ sq @ ''y'' @ sq
                 @ '' parameter.'')
      else if action_type = ''summarize'' then None
      else Some (''Unknown action type: '' @ action_type))"

definition failure :: "string \<Rightarrow> parse_result" where
  "failure msg = (JNull, JNull, JNull, Some msg)"

text \<open>
  The body of the \<^verbatim>\<open>try\<close> block once \<open>parsed\<close> is a truthy value. An
  \<^verbatim>\<open>AttributeError\<close> (the \<^verbatim>\<open>get\<close> of a value that is no dict, the \<^verbatim>\<open>lower\<close> of a type
  that is no string) is caught by \<^verbatim>\<open>except Exception\<close>.
\<close>

definition interpret_parsed :: "json \<Rightarrow> parse_result" where
  "interpret_parsed parsed =
     (case parsed of
        JObj p \<Rightarrow>
          (let action = dict_get p ''action'' (JObj []);
               description = dict_get p ''description'' (JStr ''No description provided.'')
           in case action of
                JObj a \<Rightarrow>
                  if \<not> has_key a ''type'' then failure ''Invalid action structure in LLM response.''
                  else
                    (case dict_get a ''type'' (JStr []) of
                       JStr ty \<Rightarrow>
                         (let action_type = str_lower ty;
                              filter_conditions = dict_get a ''filter'' JNull
                          in case check_filter filter_conditions of
                               Some msg \<Rightarrow> failure msg
                             | None \<Rightarrow>
                                 (case check_type action_type a of
                                    Some msg \<Rightarrow> failure msg
                                  | None \<Rightarrow> (action, description, filter_conditions, None)))
                     | v \<Rightarrow> failure (''Error parsing LLM response: '' @ no_attribute v ''lower''))
              | _ \<Rightarrow> failure ''Invalid action structure in LLM response.'')
      | v \<Rightarrow> failure (''Error parsing LLM response: '' @ no_attribute v ''get''))"

definition parse_llm_response :: "(string \<Rightarrow> json option) \<Rightarrow> string \<Rightarrow> parse_result" where
  "parse_llm_response loads response_text =
     (if response_text = [] then failure ''No response received from the LLM.''
      else
        (let parsed = safe_json_parse loads response_text
         in if \<not> truthy parsed then failure ''Could not parse LLM response as JSON.''
            else interpret_parsed parsed))"

subsection \<open>The fenced block and the braces of a response\<close>

text \<open>
  The first place of the text at which the fenced alternative of the regular expression
  matches: the text before it, the contents of the fence (group 1) and the whole fenced
  block (group 0).
\<close>

fun first_fence :: "string \<Rightarrow> (string \<times> string \<times> string) option" where
  "first_fence [] = None"
| "first_fence (c # cs) =
     (case match_fence (c # cs) of
        Some (Some b, g0) \<Rightarrow> Some ([], b, g0)
      | _ \<Rightarrow> (case first_fence cs of Some (pre, b, g0) \<Rightarrow> Some (c # pre, b, g0) | None \<Rightarrow> None))"

text \<open>The text has an opening brace and a closing brace somewhere after the first one.\<close>

definition brace_pair :: "string \<Rightarrow> bool" where
  "brace_pair t = (CHR 0x7D \<in> set (dropWhile (\<lambda>c. c \<noteq> CHR 0x7B) t))"

text \<open>The substring from the first opening brace to the last closing brace.\<close>

definition brace_span :: "string \<Rightarrow> string" where
  "brace_span text = py_slice text (py_find (CHR 0x7B) text) (py_rfind (CHR 0x7D) text + 1)"

subsection \<open>The second strategy of the specification\<close>

text \<open>
  The first top-level balanced span in the words of the specification: from an opening
  brace to the brace that closes it, the braces between them paired. \<open>balanced_rest d\<close>
  reads on to the closing brace when \<open>d\<close> further braces are open.
\<close>

fun balanced_rest :: "nat \<Rightarrow> string \<Rightarrow> string option" where
  "balanced_rest d [] = None"
| "balanced_rest d (c # cs) =
     (if c = CHR 0x7D then
        (case d of 0 \<Rightarrow> Some [c] | Suc k \<Rightarrow> map_option ((#) c) (balanced_rest k cs))
      else map_option ((#) c) (balanced_rest (if c = CHR 0x7B then Suc d else d) cs))"

fun spec_balanced_span :: "string \<Rightarrow> string option" where
  "spec_balanced_span [] = None"
| "spec_balanced_span (c # cs) =
     (if c = CHR 0x7B then
        (case balanced_rest 0 cs of Some r \<Rightarrow> Some (c # r) | None \<Rightarrow> spec_balanced_span cs)
      else spec_balanced_span cs)"

section \<open>Datasets\<close>

text \<open>
  A dataframe has an ordered list of named, typed columns and a list of rows; a row holds
  one cell per column, by position. Numbers in cells are integers, \<open>CNaN\<close> is a missing
  value. A dataframe with rows and no columns is a frame whose index is not empty.
\<close>

datatype cell = CNum int | CStr string | CBool bool | CTime int | CNaN

datatype dtype = Int64 | Float64 | Bool | Object | Datetime64

type_synonym series = "dtype \<times> cell list"

record dataframe =
  columns :: "(string \<times> dtype) list"
  rows :: "cell list list"

definition column_names :: "dataframe \<Rightarrow> string list" where
  "column_names df = map fst (columns df)"

text \<open>\<^verbatim>\<open>df.empty\<close>: an axis of length 0. \<^verbatim>\<open>df.shape[1]\<close>: the number of columns.\<close>

definition df_empty :: "dataframe \<Rightarrow> bool" where
  "df_empty df = (rows df = [] \<or> columns df = [])"

definition n_columns :: "dataframe \<Rightarrow> nat" where
  "n_columns df = length (columns df)"

definition is_numeric_dtype :: "dtype \<Rightarrow> bool" where
  "is_numeric_dtype t = (t = Int64 \<or> t = Float64 \<or> t = Bool)"

definition is_datetime64_dtype :: "dtype \<Rightarrow> bool" where
  "is_datetime64_dtype t = (t = Datetime64)"

fun dtype_str :: "dtype \<Rightarrow> string" where
  "dtype_str Int64 = ''int64''"
| "dtype_str Float64 = ''float64''"
| "dtype_str Bool = ''bool''"
| "dtype_str Object = ''object''"
| "dtype_str Datetime64 = ''datetime64[ns]''"

fun index_of :: "'a \<Rightarrow> 'a list \<Rightarrow> nat" where
  "index_of x [] = 0"
| "index_of x (y # ys) = (if x = y then 0 else Suc (index_of x ys))"

definition cell_at :: "cell list \<Rightarrow> nat \<Rightarrow> cell" where
  "cell_at r i = (if i < length r then r ! i else CNaN)"

text \<open>\<^verbatim>\<open>df[name]\<close> for a column of the frame, and the assignment \<^verbatim>\<open>df[name] = s\<close>.\<close>

definition get_series :: "dataframe \<Rightarrow> string \<Rightarrow> series" where
  "get_series df name =
     (let i = index_of name (column_names df)
      in (snd (columns df ! i), map (\<lambda>r. cell_at r i) (rows df)))"

definition set_series :: "dataframe \<Rightarrow> string \<Rightarrow> series \<Rightarrow> dataframe" where
  "set_series df name s =
     (let i = index_of name (column_names df)
      in df\<lparr>columns := (columns df)[i := (name, fst s)],
            rows := map (\<lambda>(r, c). r[i := c]) (zip (rows df) (snd s))\<rparr>)"

text \<open>
  \<^verbatim>\<open>key in df.columns\<close>: \<open>None\<close> when the key is unhashable and the test raises
  \<^verbatim>\<open>TypeError\<close>; a hashable key that is no string is in no frame.
\<close>

fun in_columns :: "json \<Rightarrow> dataframe \<Rightarrow> bool option" where
  "in_columns (JStr s) df = Some (s \<in> set (column_names df))"
| "in_columns (JArr xs) df = None"
| "in_columns (JObj kvs) df = None"
| "in_columns v df = Some False"

definition unhashable :: "json \<Rightarrow> string" where
  "unhashable v = ''unhashable type: '' @ sq @ type_name v @ sq"

text \<open>
  \<^verbatim>\<open>for x in v\<close>: the items, or the text of the \<^verbatim>\<open>TypeError\<close> when \<open>v\<close> is not
  iterable. A string yields its characters, a dict its keys.
\<close>

fun py_iter :: "json \<Rightarrow> string + json list" where
  "py_iter (JArr xs) = Inr xs"
| "py_iter (JStr s) = Inr (map (\<lambda>c. JStr [c]) s)"
| "py_iter (JObj kvs) = Inr (map (\<lambda>(k, v). JStr k) kvs)"
| "py_iter v = Inl (sq @ type_name v @ sq @ '' object is not iterable'')"

subsection \<open>The library\<close>

text \<open>
  What the program asks of pandas is a parameter of the model. \<open>to_numeric\<close> and
  \<open>to_datetime\<close> are the coercions with \<^verbatim>\<open>errors="coerce"\<close> (\<open>None\<close> when the call
  raises); \<open>compare\<close> is the comparison of a column with a scalar, the mask or the text of
  the exception; \<open>parses_as_datetime\<close> is the strict \<^verbatim>\<open>to_datetime\<close> on a sample;
  \<open>numeric_stats\<close>, \<open>count_stats\<close>, \<open>nunique\<close> and \<open>top_stats\<close> are the reductions of the
  summary. \<open>item_is_datetime\<close> is \<^verbatim>\<open>pd.api.types.is_datetime64_dtype(df[key])\<close> for a key
  that is no string, and \<open>sort_values\<close> is \<^verbatim>\<open>df.sort_values(by=key)\<close>, which makes a new
  frame: the result, or the text of the exception.
\<close>

record pandas =
  to_numeric :: "series \<Rightarrow> series option"
  to_datetime :: "series \<Rightarrow> series option"
  compare :: "string \<Rightarrow> series \<Rightarrow> json \<Rightarrow> string + bool list"
  parses_as_datetime :: "cell list \<Rightarrow> bool"
  numeric_stats :: "series \<Rightarrow> dict"
  count_stats :: "series \<Rightarrow> dict"
  nunique :: "series \<Rightarrow> nat"
  top_stats :: "series \<Rightarrow> dict"
  item_is_datetime :: "dataframe \<Rightarrow> json \<Rightarrow> string + bool"
  sort_values :: "dataframe \<Rightarrow> json \<Rightarrow> string + dataframe"

text \<open>
  A call either returns a value or lets an exception escape to its caller.
\<close>

datatype 'a outcome = Raises string | Returns 'a

text \<open>Dataframe objects live in a store; a reference is a position in it.\<close>

type_synonym heap = "dataframe list"
type_synonym ref = nat

definition df_copy :: "heap \<Rightarrow> ref \<Rightarrow> heap \<times> ref" where
  "df_copy h r = (h @ [h ! r], length h)"

section \<open>data\_processor.py\<close>

definition validate_data :: "dataframe option \<Rightarrow> bool \<times> string" where
  "validate_data d =
     (case d of
        None \<Rightarrow> (False, ''No data loaded.'')
      | Some df \<Rightarrow>
          if df_empty df then (False, ''The uploaded file contains no data.'')
          else if n_columns df < 1 then (False, ''The uploaded file contains no columns.'')
          else (True, ''Data validation successful.''))"

definition detect_time_columns :: "pandas \<Rightarrow> dataframe \<Rightarrow> string list" where
  "detect_time_columns pd df =
     filter (\<lambda>col.
        (let s = get_series df col;
             sample = take 10 (filter (\<lambda>c. c \<noteq> CNaN) (snd s))
         in fst s = Object \<and> sample \<noteq> [] \<and> parses_as_datetime pd sample))
       (column_names df)"

text \<open>
  \<^verbatim>\<open>action.get("type", "").lower()\<close>, evaluated outside every \<^verbatim>\<open>try\<close>: an
  \<^verbatim>\<open>AttributeError\<close> escapes when the type is no string.
\<close>

definition get_action_type :: "dict \<Rightarrow> string outcome" where
  "get_action_type action =
     (case dict_get action ''type'' (JStr []) of
        JStr ty \<Rightarrow> Returns (str_lower ty)
      | v \<Rightarrow> Raises (no_attribute v ''lower''))"

definition not_found :: "json \<Rightarrow> string" where
  "not_found column = ''Column '' @ sq @ py_str column @ sq @ '' not found in the dataset.''"

definition not_numeric :: "json \<Rightarrow> string" where
  "not_numeric column =
     ''Column '' @ sq @ py_str column @ sq @ '' is not numeric and could not be converted.''"

definition preparing_error :: "string \<Rightarrow> string" where
  "preparing_error e = ''Error preparing data: '' @ e"

text \<open>
  \<^verbatim>\<open>df[col] = pd.to_numeric(df[col], errors="coerce")\<close> on the object at \<open>r\<close>, when the
  column is not numeric: the new store, or \<open>None\<close> when the coercion raises.
\<close>

definition coerce_numeric :: "pandas \<Rightarrow> heap \<Rightarrow> ref \<Rightarrow> string \<Rightarrow> heap option" where
  "coerce_numeric pd h r col =
     (let s = get_series (h ! r) col
      in if \<not> is_numeric_dtype (fst s) then
           (case to_numeric pd s of
              Some s' \<Rightarrow> Some (h[r := set_series (h ! r) col s'])
            | None \<Rightarrow> None)
         else Some h)"

definition coerce_datetime :: "pandas \<Rightarrow> heap \<Rightarrow> ref \<Rightarrow> string \<Rightarrow> heap option" where
  "coerce_datetime pd h r col =
     (let s = get_series (h ! r) col
      in if \<not> is_datetime64_dtype (fst s) then
           (case to_datetime pd s of
              Some s' \<Rightarrow> Some (h[r := set_series (h ! r) col s'])
            | None \<Rightarrow> None)
         else Some h)"

text \<open>
  The result of a stage is the pair of Python: a value or \<^verbatim>\<open>None\<close>, an error message or
  \<^verbatim>\<open>None\<close>.
\<close>

type_synonym 'a result = "'a option \<times> string option"

text \<open>
  The test \<^verbatim>\<open>x not in df.columns or y not in df.columns\<close> of the scatter and line
  branches with the message built from it: \<open>Inl\<close> the text of a \<^verbatim>\<open>TypeError\<close>, \<open>Inr\<close>
  the message when a column is missing, \<open>Inr None\<close> when both are there.
\<close>

definition missing_xy :: "dataframe \<Rightarrow> json \<Rightarrow> json \<Rightarrow> string + string option" where
  "missing_xy df x y =
     (case in_columns x df of
        None \<Rightarrow> Inl (unhashable x)
      | Some xin \<Rightarrow>
          (case in_columns y df of
             None \<Rightarrow> Inl (unhashable y)
           | Some yin \<Rightarrow>
               if \<not> xin \<or> \<not> yin then
                 (let missing = [if \<not> xin then sq @ py_str x @ sq else [],
                                 if \<not> yin then sq @ py_str y @ sq else []]
                  in Inr (Some (''Columns '' @ join '' and '' (filter (\<lambda>m. m \<noteq> []) missing)
                                @ '' not found in the dataset.'')))
               else Inr None))"

text \<open>The loop of the summarize branch: the first requested column that is missing.\<close>

fun first_missing :: "dataframe \<Rightarrow> json list \<Rightarrow> string + string option" where
  "first_missing df [] = Inr None"
| "first_missing df (col # rest) =
     (case in_columns col df of
        None \<Rightarrow> Inl (unhashable col)
      | Some False \<Rightarrow>
          Inr (Some (''Column '' @ sq @ py_str col @ sq
                     @ '' specified for summary not found in the dataset.''))
      | Some True \<Rightarrow> first_missing df rest)"

definition prepare_histogram :: "pandas \<Rightarrow> heap \<Rightarrow> ref \<Rightarrow> dict \<Rightarrow> heap \<times> ref result" where
  "prepare_histogram pd h r action =
     (let column = dict_get action ''column'' JNull
      in case in_columns column (h ! r) of
           None \<Rightarrow> (h, None, Some (preparing_error (unhashable column)))
         | Some False \<Rightarrow> (h, None, Some (not_found column))
         | Some True \<Rightarrow>
             (case coerce_numeric pd h r (py_str column) of
                Some h' \<Rightarrow> (h', Some r, None)
              | None \<Rightarrow> (h, None, Some (not_numeric column))))"

definition prepare_bar :: "pandas \<Rightarrow> heap \<Rightarrow> ref \<Rightarrow> dict \<Rightarrow> heap \<times> ref result" where
  "prepare_bar pd h r action =
     (let x = dict_get action ''x'' JNull; y = dict_get action ''y'' JNull
      in case in_columns x (h ! r) of
           None \<Rightarrow> (h, None, Some (preparing_error (unhashable x)))
         | Some False \<Rightarrow> (h, None, Some (not_found x))
         | Some True \<Rightarrow>
             if \<not> truthy y then (h, Some r, None)
             else
               (case in_columns y (h ! r) of
                  None \<Rightarrow> (h, None, Some (preparing_error (unhashable y)))
                | Some False \<Rightarrow> (h, None, Some (not_found y))
                | Some True \<Rightarrow>
                    (case coerce_numeric pd h r (py_str y) of
                       Some h' \<Rightarrow> (h', Some r, None)
                     | None \<Rightarrow> (h, None, Some (not_numeric y)))))"

definition prepare_scatter :: "pandas \<Rightarrow> heap \<Rightarrow> ref \<Rightarrow> dict \<Rightarrow> heap \<times> ref result" where
  "prepare_scatter pd h r action =
     (let x = dict_get action ''x'' JNull; y = dict_get action ''y'' JNull
      in case missing_xy (h ! r) x y of
           Inl e \<Rightarrow> (h, None, Some (preparing_error e))
         | Inr (Some msg) \<Rightarrow> (h, None, Some msg)
         | Inr None \<Rightarrow>
             (case coerce_numeric pd h r (py_str x) of
                None \<Rightarrow>
                  (h, None, Some (''x-axis column '' @ sq @ py_str x @ sq
                                  @ '' is not numeric and could not be converted.''))
              | Some h1 \<Rightarrow>
                  (case coerce_numeric pd h1 r (py_str y) of
                     None \<Rightarrow>
                       (h1, None, Some (''y-axis column '' @ sq @ py_str y @ sq
                                        @ '' is not numeric and could not be converted.''))
                   | Some h2 \<Rightarrow> (h2, Some r, None))))"

definition prepare_line :: "pandas \<Rightarrow> heap \<Rightarrow> ref \<Rightarrow> dict \<Rightarrow> heap \<times> ref result" where
  "prepare_line pd h r action =
     (let x = dict_get action ''x'' JNull; y = dict_get action ''y'' JNull
      in case missing_xy (h ! r) x y of
           Inl e \<Rightarrow> (h, None, Some (preparing_error e))
         | Inr (Some msg) \<Rightarrow> (h, None, Some msg)
         | Inr None \<Rightarrow>
             (case coerce_datetime pd h r (py_str x) of
                None \<Rightarrow>
                  (h, None, Some (''Column '' @ sq @ py_str x @ sq
                                  @ '' could not be converted to datetime for time series.''))
              | Some h1 \<Rightarrow>
                  (case coerce_numeric pd h1 r (py_str y) of
                     None \<Rightarrow> (h1, None, Some (not_numeric y))
                   | Some h2 \<Rightarrow> (h2, Some r, None))))"

definition prepare_summarize :: "heap \<Rightarrow> ref \<Rightarrow> dict \<Rightarrow> heap \<times> ref result" where
  "prepare_summarize h r action =
     (case py_iter (dict_get action ''columns'' (JArr (map JStr (column_names (h ! r))))) of
        Inl e \<Rightarrow> (h, None, Some (preparing_error e))
      | Inr cols \<Rightarrow>
          (case first_missing (h ! r) cols of
             Inl e \<Rightarrow> (h, None, Some (preparing_error e))
           | Inr (Some msg) \<Rightarrow> (h, None, Some msg)
           | Inr None \<Rightarrow> (h, Some r, None)))"

text \<open>
  \<^verbatim>\<open>prepare_data_for_visualization(df, action)\<close>, \<open>df\<close> being the object at \<open>r\<close>: the
  store after the call and the pair returned. On success the value returned is the
  argument object itself.
\<close>

definition prepare_data_for_visualization ::
  "pandas \<Rightarrow> heap \<Rightarrow> ref \<Rightarrow> dict \<Rightarrow> heap \<times> ref result outcome" where
  "prepare_data_for_visualization pd h r action =
     (case get_action_type action of
        Raises e \<Rightarrow> (h, Raises e)
      | Returns action_type \<Rightarrow>
          (let (h', res) =
             (if action_type = ''histogram'' then prepare_histogram pd h r action
              else if action_type = ''bar'' then prepare_bar pd h r action
              else if action_type = ''scatter'' then prepare_scatter pd h r action
              else if action_type = ''line'' then prepare_line pd h r action
              else if action_type = ''summarize'' then prepare_summarize h r action
              else (h, None, Some (''Unknown action type: '' @ action_type)))
           in (h', Returns res)))"

section \<open>visualizer.py\<close>

text \<open>
  The calls of the plotting library, with the frame and the columns they receive;
  \<open>PxBarCount df x\<close> is the bar chart of \<^verbatim>\<open>df[x].value_counts()\<close>, and the flag of
  \<open>PxLine\<close> says whether the title reads "over" (a column of times) or "vs". The library
  is a parameter \<open>px\<close>: a figure, or the text of the exception that the call (the
  computation of its arguments and labels included) raises.
\<close>

datatype plot_call =
    PxHistogram "dataframe option" json
  | PxBar "dataframe option" json json
  | PxBarCount "dataframe option" json
  | PxScatter "dataframe option" json json
  | PxLine "dataframe option" json json bool

text \<open>
  \<^verbatim>\<open>pd.api.types.is_datetime64_dtype(df[x])\<close>: the answer, or the text of the exception
  that \<^verbatim>\<open>df[x]\<close> raises. A name that is no column raises \<^verbatim>\<open>KeyError\<close>, whose text is
  the \<^verbatim>\<open>repr\<close> of the name.
\<close>

definition is_datetime64_item :: "pandas \<Rightarrow> dataframe \<Rightarrow> json \<Rightarrow> string + bool" where
  "is_datetime64_item pd df x =
     (case x of
        JStr name \<Rightarrow>
          if name \<in> set (column_names df)
          then Inr (is_datetime64_dtype (fst (get_series df name)))
          else Inl (repr_str name)
      | _ \<Rightarrow> item_is_datetime pd df x)"

text \<open>
  The frame that the line chart receives,
  \<^verbatim>\<open>df.sort_values(by=x) if pd.api.types.is_datetime64_dtype(df[x]) else df\<close>, together
  with the answer of the test, which the title of the chart repeats ("over" or "vs").
\<close>

definition line_frame ::
  "pandas \<Rightarrow> dataframe option \<Rightarrow> json \<Rightarrow> string + (dataframe \<times> bool)" where
  "line_frame pd df x =
     (case df of
        None \<Rightarrow> Inl (sq @ ''NoneType'' @ sq @ '' object is not subscriptable'')
      | Some d \<Rightarrow>
          (case is_datetime64_item pd d x of
             Inl e \<Rightarrow> Inl e
           | Inr True \<Rightarrow>
               (case sort_values pd d x of
                  Inl e \<Rightarrow> Inl e
                | Inr df_sorted \<Rightarrow> Inr (df_sorted, True))
           | Inr False \<Rightarrow> Inr (d, False)))"

definition plot :: "(plot_call \<Rightarrow> string + 'fig) \<Rightarrow> plot_call \<Rightarrow> 'fig result" where
  "plot px call =
     (case px call of
        Inr fig \<Rightarrow> (Some fig, None)
      | Inl e \<Rightarrow> (None, Some (''Error generating visualization: '' @ e)))"

definition generate_visualization ::
  "pandas \<Rightarrow> (plot_call \<Rightarrow> string + 'fig) \<Rightarrow> dataframe option \<Rightarrow> dict \<Rightarrow> json
     \<Rightarrow> 'fig result outcome" where
  "generate_visualization pd px df action description =
     (case get_action_type action of
        Raises e \<Rightarrow> Raises e
      | Returns action_type \<Rightarrow>
          Returns
            (if action_type = ''histogram'' then
               plot px (PxHistogram df (dict_get action ''column'' JNull))
             else if action_type = ''bar'' then
               (let x = dict_get action ''x'' JNull; y = dict_get action ''y'' JNull
                in if truthy y then plot px (PxBar df x y) else plot px (PxBarCount df x))
             else if action_type = ''scatter'' then
               plot px (PxScatter df (dict_get action ''x'' JNull) (dict_get action ''y'' JNull))
             else if action_type = ''line'' then
               (let x = dict_get action ''x'' JNull; y = dict_get action ''y'' JNull
                in case line_frame pd df x of
                     Inl e \<Rightarrow> (None, Some (''Error generating visualization: '' @ e))
                   | Inr (df_sorted, over) \<Rightarrow> plot px (PxLine (Some df_sorted) x y over))
             else (None, Some (''Visualization type '' @ sq @ action_type @ sq
                               @ '' not supported.''))))"

text \<open>One row of the summary: the dict \<^verbatim>\<open>stats\<close> of a column of the frame.\<close>

definition summary_row :: "pandas \<Rightarrow> dataframe \<Rightarrow> string \<Rightarrow> dict" where
  "summary_row pd df col =
     (let s = get_series df col
      in [(''Column'', JStr col), (''Type'', JStr (dtype_str (fst s)))]
         @ (if is_numeric_dtype (fst s) then numeric_stats pd s
            else count_stats pd s @ (if nunique pd s < 50 then top_stats pd s else [])))"

text \<open>
  The loop over the requested columns: a column that is not in the frame is passed over
  by \<^verbatim>\<open>continue\<close>; an unhashable entry raises.
\<close>

fun summary_data :: "pandas \<Rightarrow> dataframe \<Rightarrow> json list \<Rightarrow> string + dict list" where
  "summary_data pd df [] = Inr []"
| "summary_data pd df (col # rest) =
     (case in_columns col df of
        None \<Rightarrow> Inl (unhashable col)
      | Some False \<Rightarrow> summary_data pd df rest
      | Some True \<Rightarrow>
          (case summary_data pd df rest of
             Inl e \<Rightarrow> Inl e
           | Inr rs \<Rightarrow> Inr (summary_row pd df (py_str col) # rs)))"

definition generate_summary_statistics :: "pandas \<Rightarrow> dataframe \<Rightarrow> dict \<Rightarrow> dict list result" where
  "generate_summary_statistics pd df action =
     (case py_iter (dict_get action ''columns'' (JArr (map JStr (column_names df)))) of
        Inl e \<Rightarrow> (None, Some (''Error generating summary statistics: '' @ e))
      | Inr cols \<Rightarrow>
          (case summary_data pd df cols of
             Inl e \<Rightarrow> (None, Some (''Error generating summary statistics: '' @ e))
           | Inr summary \<Rightarrow> (Some summary, None)))"

subsection \<open>The manual action builder\<close>

text \<open>
  The widgets are a parameter: \<open>selectbox\<close> returns the option chosen (\<^verbatim>\<open>None\<close> when
  there is no option), \<open>checkbox\<close> the state of the box, \<open>multiselect\<close> the options
  chosen. The first argument is the label of the widget.
\<close>

record ui =
  selectbox :: "string \<Rightarrow> string list \<Rightarrow> string option"
  checkbox :: "string \<Rightarrow> bool"
  multiselect :: "string \<Rightarrow> string list \<Rightarrow> string list"

definition opt_json :: "string option \<Rightarrow> json" where
  "opt_json v = (case v of None \<Rightarrow> JNull | Some s \<Rightarrow> JStr s)"

definition viz_types :: "string list" where
  "viz_types = [''histogram'', ''bar'', ''scatter'', ''line'', ''summarize'']"

definition numeric_columns :: "dataframe \<Rightarrow> string list" where
  "numeric_columns df = filter (\<lambda>col. is_numeric_dtype (fst (get_series df col))) (column_names df)"

definition create_action_from_ui ::
  "ui \<Rightarrow> pandas \<Rightarrow> dataframe \<Rightarrow> dict option \<times> string option" where
  "create_action_from_ui st pd df =
     (let viz_type = selectbox st ''Visualization Type'' viz_types;
          numeric_cols = numeric_columns df;
          all_cols = column_names df;
          action = [(''type'', opt_json viz_type)]
      in if viz_type = Some ''histogram'' then
           (let column = (if numeric_cols \<noteq> [] then selectbox st ''Select Column'' numeric_cols
                          else selectbox st ''Select Column'' all_cols)
            in (Some (action @ [(''column'', opt_json column)]),
                Some (''Distribution of '' @ py_str (opt_json column))))
         else if viz_type = Some ''bar'' then
           (let x = selectbox st ''Select X (Category) Column'' all_cols;
                use_y = checkbox st ''Use Y Value (instead of count)''
            in if use_y \<and> numeric_cols \<noteq> [] then
                 (let y = selectbox st ''Select Y (Value) Column'' numeric_cols
                  in (Some (action @ [(''x'', opt_json x), (''y'', opt_json y)]),
                      Some (''Bar chart showing '' @ py_str (opt_json y) @ '' by ''
                            @ py_str (opt_json x))))
               else (Some (action @ [(''x'', opt_json x)]),
                     Some (''Bar chart showing count of '' @ py_str (opt_json x))))
         else if viz_type = Some ''scatter'' then
           (if length numeric_cols \<ge> 2 then
              (let x = selectbox st ''Select X Column'' numeric_cols;
                   remaining_cols = filter (\<lambda>col. Some col \<noteq> x) numeric_cols;
                   y = selectbox st ''Select Y Column'' remaining_cols
               in (Some (action @ [(''x'', opt_json x), (''y'', opt_json y)]),
                   Some (''Scatter plot showing relationship between '' @ py_str (opt_json x)
                         @ '' and '' @ py_str (opt_json y))))
            else (None, None))
         else if viz_type = Some ''line'' then
           (let time_cols = detect_time_columns pd df;
                x_options = (if time_cols \<noteq> [] then time_cols else all_cols);
                x = selectbox st ''Select X (Time) Column'' x_options
            in if numeric_cols \<noteq> [] then
                 (let y = selectbox st ''Select Y (Value) Column'' numeric_cols
                  in (Some (action @ [(''x'', opt_json x), (''y'', opt_json y)]),
                      Some (''Line chart showing '' @ py_str (opt_json y) @ '' over ''
                            @ py_str (opt_json x))))
               else (None, None))
         else if viz_type = Some ''summarize'' then
           (let use_all_cols = checkbox st ''Summarize all columns''
            in if \<not> use_all_cols then
                 (let selected_cols =
                        multiselect st ''Select columns to summarize'' all_cols
                  in (Some (action @ [(''columns'', JArr (map JStr selected_cols))]),
                      Some (''Summary statistics for columns: '' @ join '', '' selected_cols)))
               else (Some (action @ [(''columns'', JArr (map JStr all_cols))]),
                     Some ''Summary statistics for all columns''))
         else (Some action, Some []))"

section \<open>app.py: filtering and dispatch\<close>

text \<open>\<^verbatim>\<open>df[mask]\<close>: a new frame with the rows at which the mask is true.\<close>

definition select_rows :: "bool list \<Rightarrow> dataframe \<Rightarrow> dataframe" where
  "select_rows m df = df\<lparr>rows := map fst (filter snd (zip (rows df) m))\<rparr>"

text \<open>
  The body of the \<^verbatim>\<open>try\<close> of the filter loop: the chain of \<^verbatim>\<open>if\<close>/\<^verbatim>\<open>elif\<close> on the
  operator, each branch a comparison and a selection that makes a new object. \<open>Inl\<close> is
  the text of an exception of the comparison.
\<close>

definition filter_operators :: "string list" where
  "filter_operators = [''=='', ''>='', ''<='', ''>'', ''<'']"

definition apply_operator ::
  "pandas \<Rightarrow> heap \<Rightarrow> ref \<Rightarrow> string \<Rightarrow> json \<Rightarrow> json \<Rightarrow> string + heap \<times> ref" where
  "apply_operator pd h r filter_col operator filter_val =
     (case operator of
        JStr op \<Rightarrow>
          if op \<in> set filter_operators then
            (case compare pd op (get_series (h ! r) filter_col) filter_val of
               Inl e \<Rightarrow> Inl e
             | Inr m \<Rightarrow> Inr (h @ [select_rows m (h ! r)], length h))
          else Inr (h, r)
      | _ \<Rightarrow> Inr (h, r))"

text \<open>
  The loop \<^verbatim>\<open>for condition in filter_conditions\<close> of \<^verbatim>\<open>main\<close>. \<open>Returns (Inl msg)\<close>: the
  message is shown by \<^verbatim>\<open>st.error\<close> and \<^verbatim>\<open>main\<close> returns; \<open>Returns (Inr r)\<close>: the loop is
  over and \<^verbatim>\<open>filtered_df\<close> is the object at \<open>r\<close>; \<open>Raises\<close>: a subscript of the condition
  or the membership test raises outside the \<^verbatim>\<open>try\<close>.
\<close>

fun filter_loop :: "pandas \<Rightarrow> heap \<Rightarrow> ref \<Rightarrow> json list \<Rightarrow> heap \<times> (string + ref) outcome" where
  "filter_loop pd h r [] = (h, Returns (Inr r))"
| "filter_loop pd h r (condition # rest) =
     (case condition of
        JObj c \<Rightarrow>
          (case map_of c ''column'' of
             None \<Rightarrow> (h, Raises (''KeyError: '' @ sq @ ''column'' @ sq))
           | Some filter_col \<Rightarrow>
               (case map_of c ''value'' of
                  None \<Rightarrow> (h, Raises (''KeyError: '' @ sq @ ''value'' @ sq))
                | Some filter_val \<Rightarrow>
                    (let operator = dict_get c ''operator'' (JStr ''=='')
                     in case in_columns filter_col (h ! r) of
                          None \<Rightarrow> (h, Raises (''TypeError: '' @ unhashable filter_col))
                        | Some False \<Rightarrow>
                            (h, Returns (Inl (''Filter column '' @ sq @ py_str filter_col @ sq
                                              @ '' not found in dataset.'')))
                        | Some True \<Rightarrow>
                            (case apply_operator pd h r (py_str filter_col) operator filter_val of
                               Inl e \<Rightarrow> (h, Returns (Inl (''Error applying filter: '' @ e)))
                             | Inr (h', r') \<Rightarrow> filter_loop pd h' r' rest))))
      | v \<Rightarrow> (h, Raises (''TypeError: subscript of '' @ type_name v)))"

text \<open>What the page shows at the end of a run.\<close>

datatype 'fig shown =
    ShowError string
  | ShowSummary "dict list option" json
  | ShowChart "'fig option" json

text \<open>\<^verbatim>\<open>if error:\<close> on the second component of a result.\<close>

definition is_error :: "string option \<Rightarrow> bool" where
  "is_error e = (case e of None \<Rightarrow> False | Some m \<Rightarrow> m \<noteq> [])"

definition error_text :: "string option \<Rightarrow> string" where
  "error_text e = (case e of None \<Rightarrow> [] | Some m \<Rightarrow> m)"

text \<open>
  The dispatch of \<^verbatim>\<open>main\<close> on \<^verbatim>\<open>action["type"] == "summarize"\<close>: the summary producer,
  or the preparation of the data and the chart producer.
\<close>

definition dispatch ::
  "pandas \<Rightarrow> (plot_call \<Rightarrow> string + 'fig) \<Rightarrow> heap \<Rightarrow> ref \<Rightarrow> dict \<Rightarrow> json
     \<Rightarrow> heap \<times> 'fig shown outcome" where
  "dispatch pd px h filtered_df action description =
     (case map_of action ''type'' of
        None \<Rightarrow> (h, Raises (''KeyError: '' @ sq @ ''type'' @ sq))
      | Some ty \<Rightarrow>
          if ty = JStr ''summarize'' then
            (let (summary_df, error) = generate_summary_statistics pd (h ! filtered_df) action
             in if is_error error then (h, Returns (ShowError (error_text error)))
                else (h, Returns (ShowSummary summary_df description)))
          else
            (case prepare_data_for_visualization pd h filtered_df action of
               (h', Raises e) \<Rightarrow> (h', Raises e)
             | (h', Returns (prepared_df, error)) \<Rightarrow>
                 if is_error error then (h', Returns (ShowError (error_text error)))
                 else
                   (case generate_visualization pd px (map_option ((!) h') prepared_df) action
                           description of
                      Raises e \<Rightarrow> (h', Raises e)
                    | Returns (fig, error) \<Rightarrow>
                        if is_error error then (h', Returns (ShowError (error_text error)))
                        else (h', Returns (ShowChart fig description)))))"

text \<open>
  Lines 80 to 124 of \<^verbatim>\<open>main\<close>: the working copy, the filter loop, the dispatch. \<open>df\<close> is
  the reference of the dataset of the session.
\<close>

definition run_action ::
  "pandas \<Rightarrow> (plot_call \<Rightarrow> string + 'fig) \<Rightarrow> heap \<Rightarrow> ref \<Rightarrow> dict \<Rightarrow> json \<Rightarrow> json
     \<Rightarrow> heap \<times> 'fig shown outcome" where
  "run_action pd px h df action description filter_conditions =
     (let (h0, filtered_df) = df_copy h df
      in case (if truthy filter_conditions then
                 (case py_iter filter_conditions of
                    Inl e \<Rightarrow> (h0, Raises (''TypeError: '' @ e))
                  | Inr conditions \<Rightarrow> filter_loop pd h0 filtered_df conditions)
               else (h0, Returns (Inr filtered_df))) of
           (h1, Raises e) \<Rightarrow> (h1, Raises e)
         | (h1, Returns (Inl msg)) \<Rightarrow> (h1, Returns (ShowError msg))
         | (h1, Returns (Inr r)) \<Rightarrow> dispatch pd px h1 r action description)"

section \<open>A reader for a subset of JSON\<close>

text \<open>
  The theorems about the parser hold for every \<open>loads\<close>. The examples need one: this
  reader accepts objects, arrays, strings without escapes, integers and the three
  literals, with white space between tokens, and on such texts returns what
  \<^verbatim>\<open>json.loads\<close> returns. A repeated key keeps its first position and its last value.
  The first argument of \<open>read_value\<close> bounds the number of nested calls.
\<close>

definition json_ws :: "char \<Rightarrow> bool" where
  "json_ws c = (c = CHR 0x20 \<or> c = CHR 0x09 \<or> c = CHR 0x0A \<or> c = CHR 0x0D)"

definition skip_ws :: "string \<Rightarrow> string" where
  "skip_ws s = dropWhile json_ws s"

fun read_string :: "string \<Rightarrow> (string \<times> string) option" where
  "read_string [] = None"
| "read_string (c # cs) =
     (if c = CHR 0x22 then Some ([], cs)
      else if c = CHR 0x5C \<or> (of_char c :: nat) < 32 then None
      else (case read_string cs of Some (s, r) \<Rightarrow> Some (c # s, r) | None \<Rightarrow> None))"

definition is_digit :: "char \<Rightarrow> bool" where
  "is_digit c = (48 \<le> (of_char c :: nat) \<and> (of_char c :: nat) \<le> 57)"

definition digits_value :: "string \<Rightarrow> int" where
  "digits_value ds = foldl (\<lambda>n c. 10 * n + (int (of_char c) - 48)) 0 ds"

definition read_digits :: "string \<Rightarrow> (int \<times> string) option" where
  "read_digits s =
     (let ds = takeWhile is_digit s; r = dropWhile is_digit s
      in if ds = [] \<or> (length ds > 1 \<and> hd ds = CHR ''0'') then None
         else if r \<noteq> [] \<and> hd r \<in> set ''.eE'' then None
         else Some (digits_value ds, r))"

definition read_number :: "string \<Rightarrow> (json \<times> string) option" where
  "read_number s =
     (case s of
        [] \<Rightarrow> None
      | c # cs \<Rightarrow>
          if c = CHR ''-'' then map_option (\<lambda>(n, r). (JNum (- n), r)) (read_digits cs)
          else map_option (\<lambda>(n, r). (JNum n, r)) (read_digits s))"

definition dict_set :: "dict \<Rightarrow> string \<Rightarrow> json \<Rightarrow> dict" where
  "dict_set d k v = (if has_key d k then map (\<lambda>(k', v'). if k' = k then (k', v) else (k', v')) d else d @ [(k, v)])"

fun read_value :: "nat \<Rightarrow> string \<Rightarrow> (json \<times> string) option"
and read_items :: "nat \<Rightarrow> json list \<Rightarrow> string \<Rightarrow> (json \<times> string) option"
and read_members :: "nat \<Rightarrow> dict \<Rightarrow> string \<Rightarrow> (json \<times> string) option" where
  "read_value 0 s = None"
| "read_value (Suc n) s =
     (case skip_ws s of
        [] \<Rightarrow> None
      | c # cs \<Rightarrow>
          if c = CHR 0x7B then
            (case skip_ws cs of
               [] \<Rightarrow> None
             | d # ds \<Rightarrow> if d = CHR 0x7D then Some (JObj [], ds) else read_members n [] (d # ds))
          else if c = CHR ''['' then
            (case skip_ws cs of
               [] \<Rightarrow> None
             | d # ds \<Rightarrow> if d = CHR '']'' then Some (JArr [], ds) else read_items n [] (d # ds))
          else if c = CHR 0x22 then map_option (\<lambda>(k, r). (JStr k, r)) (read_string cs)
          else (case strip_prefix ''true'' (c # cs) of
                  Some r \<Rightarrow> Some (JBool True, r)
                | None \<Rightarrow>
              (case strip_prefix ''false'' (c # cs) of
                  Some r \<Rightarrow> Some (JBool False, r)
                | None \<Rightarrow>
              (case strip_prefix ''null'' (c # cs) of
                  Some r \<Rightarrow> Some (JNull, r)
                | None \<Rightarrow> read_number (c # cs)))))"
| "read_items 0 acc s = None"
| "read_items (Suc n) acc s =
     (case read_value n s of
        None \<Rightarrow> None
      | Some (v, r) \<Rightarrow>
          (case skip_ws r of
             [] \<Rightarrow> None
           | c # cs \<Rightarrow>
               if c = CHR '','' then read_items n (acc @ [v]) cs
               else if c = CHR '']'' then Some (JArr (acc @ [v]), cs)
               else None))"
| "read_members 0 acc s = None"
| "read_members (Suc n) acc s =
     (case skip_ws s of
        [] \<Rightarrow> None
      | q # qs \<Rightarrow>
          if q \<noteq> CHR 0x22 then None
          else
            (case read_string qs of
               None \<Rightarrow> None
             | Some (k, r) \<Rightarrow>
                 (case skip_ws r of
                    [] \<Rightarrow> None
                  | c # cs \<Rightarrow>
                      if c \<noteq> CHR '':'' then None
                      else
                        (case read_value n cs of
                           None \<Rightarrow> None
                         | Some (v, r') \<Rightarrow>
                             (case skip_ws r' of
                                [] \<Rightarrow> None
                              | e # es \<Rightarrow>
                                  if e = CHR '','' then read_members n (dict_set acc k v) es
                                  else if e = CHR 0x7D then Some (JObj (dict_set acc k v), es)
                                  else None)))))"

definition json_loads :: "string \<Rightarrow> json option" where
  "json_loads s =
     (case read_value (2 * length s + 2) s of
        Some (v, r) \<Rightarrow> if skip_ws r = [] then Some v else None
      | None \<Rightarrow> None)"

section \<open>Example inputs\<close>

text \<open>A summary action as JSON text, and the value that it reads as.\<close>

definition summarize_json :: string where
  "summarize_json = ''{\"action\": {\"type\": \"summarize\"}}''"

definition summarize_value :: json where
  "summarize_value = JObj [(''action'', JObj [(''type'', JStr ''summarize'')])]"

text \<open>
  Responses: prose around a fenced block; a JSON object before the fenced block; the
  action followed by a second object; a fenced block that holds no JSON, with the action
  after it; no JSON at all.
\<close>

definition prose_then_fence :: string where
  "prose_then_fence =
     ''Sure: '' @ fence @ ''json'' @ [CHR 0x0A] @ ''{\"action\": {\"type\": \"summarize\"}}''
       @ [CHR 0x0A] @ fence @ '' bye''"

definition object_then_fence :: string where
  "object_then_fence =
     ''{\"x\": 1} '' @ fence @ ''json {\"action\": {\"type\": \"summarize\"}} '' @ fence"

definition action_then_object :: string where
  "action_then_object = ''{\"action\": {\"type\": \"summarize\"}} {\"n\": 1}''"

definition fence_then_object :: string where
  "fence_then_object =
     fence @ ''json see below '' @ fence @ '' {\"action\": {\"type\": \"summarize\"}}''"

definition no_braces :: string where
  "no_braces = ''I cannot answer that.''"

text \<open>A frame with two rows and no column.\<close>

definition no_columns_frame :: dataframe where
  "no_columns_frame = \<lparr>columns = [], rows = [[], []]\<rparr>"

text \<open>
  The two shapes of the tuple of \<^verbatim>\<open>parse_llm_response\<close>: an action that is a dict with no
  error, or three \<^verbatim>\<open>None\<close> with a message that is not empty.
\<close>

definition parse_shape :: "parse_result \<Rightarrow> bool" where
  "parse_shape res =
     (case res of (a, d, f, e) \<Rightarrow>
        (e = None \<and> (\<exists>obj. a = JObj obj))
        \<or> (a = JNull \<and> d = JNull \<and> f = JNull \<and> (\<exists>m. e = Some m \<and> m \<noteq> [])))"

subsection \<open>An example library and dataset\<close>

text \<open>
  The theorems hold for every library. The examples need one: \<open>ex_pandas\<close> turns the
  cells of a column into numbers as \<^verbatim>\<open>to_numeric\<close> with \<^verbatim>\<open>errors="coerce"\<close> does (a decimal
  numeral becomes its number, any other text is missing), compares cell by cell (a missing
  cell compares false, an order comparison of a text with a number raises
  \<^verbatim>\<open>TypeError\<close>), counts the present, missing and distinct cells, and sorts a frame by a
  column of times; the floating point entries of the summary are left out, and a key
  that is no string is answered with a \<^verbatim>\<open>KeyError\<close>.
\<close>

definition str_to_num :: "string \<Rightarrow> cell" where
  "str_to_num s = (if s \<noteq> [] \<and> (\<forall>c\<in>set s. is_digit c) then CNum (digits_value s) else CNaN)"

definition numeric_cell :: "cell \<Rightarrow> cell" where
  "numeric_cell c =
     (case c of
        CNum n \<Rightarrow> CNum n
      | CStr s \<Rightarrow> str_to_num s
      | CBool b \<Rightarrow> CNum (if b then 1 else 0)
      | _ \<Rightarrow> CNaN)"

definition ex_to_numeric :: "series \<Rightarrow> series option" where
  "ex_to_numeric s =
     (let cells = map numeric_cell (snd s)
      in Some (if CNaN \<in> set cells then Float64 else Int64, cells))"

definition ex_to_datetime :: "series \<Rightarrow> series option" where
  "ex_to_datetime s = Some (Datetime64, map (\<lambda>c. case c of CTime t \<Rightarrow> CTime t | _ \<Rightarrow> CNaN) (snd s))"

definition compare_int :: "string \<Rightarrow> int \<Rightarrow> int \<Rightarrow> bool" where
  "compare_int op a b =
     (if op = ''=='' then a = b
      else if op = ''>='' then a \<ge> b
      else if op = ''<='' then a \<le> b
      else if op = ''>'' then a > b
      else a < b)"

fun str_less :: "string \<Rightarrow> string \<Rightarrow> bool" where
  "str_less [] [] = False"
| "str_less [] (y # ys) = True"
| "str_less (x # xs) [] = False"
| "str_less (x # xs) (y # ys) =
     ((of_char x :: nat) < of_char y \<or> (x = y \<and> str_less xs ys))"

definition compare_str :: "string \<Rightarrow> string \<Rightarrow> string \<Rightarrow> bool" where
  "compare_str op a b =
     (if op = ''=='' then a = b
      else if op = ''>='' then \<not> str_less a b
      else if op = ''<='' then \<not> str_less b a
      else if op = ''>'' then str_less b a
      else str_less a b)"

definition not_supported :: "string \<Rightarrow> string \<Rightarrow> string \<Rightarrow> string" where
  "not_supported op l r =
     sq @ op @ sq @ '' not supported between instances of '' @ sq @ l @ sq @ '' and '' @ sq @ r @ sq"

fun cell_compare :: "string \<Rightarrow> cell \<Rightarrow> json \<Rightarrow> string + bool" where
  "cell_compare op CNaN v = Inr False"
| "cell_compare op (CNum a) (JNum b) = Inr (compare_int op a b)"
| "cell_compare op (CStr a) (JStr b) = Inr (compare_str op a b)"
| "cell_compare op (CStr a) (JNum b) =
     (if op = ''=='' then Inr False else Inl (not_supported op ''str'' ''int''))"
| "cell_compare op (CNum a) (JStr b) =
     (if op = ''=='' then Inr False else Inl (not_supported op ''int'' ''str''))"
| "cell_compare op c v = (if op = ''=='' then Inr False else Inl ''unsupported comparison'')"

fun collect :: "(string + 'a) list \<Rightarrow> string + 'a list" where
  "collect [] = Inr []"
| "collect (x # xs) =
     (case x of
        Inl e \<Rightarrow> Inl e
      | Inr v \<Rightarrow> (case collect xs of Inl e \<Rightarrow> Inl e | Inr vs \<Rightarrow> Inr (v # vs)))"

definition ex_compare :: "string \<Rightarrow> series \<Rightarrow> json \<Rightarrow> string + bool list" where
  "ex_compare op s v = collect (map (\<lambda>c. cell_compare op c v) (snd s))"

definition is_date :: "cell \<Rightarrow> bool" where
  "is_date c =
     (case c of
        CStr s \<Rightarrow> length s = 10 \<and> s ! 4 = CHR ''-'' \<and> s ! 7 = CHR ''-''
                   \<and> (\<forall>i\<in>{0, 1, 2, 3, 5, 6, 8, 9}. is_digit (s ! i))
      | _ \<Rightarrow> False)"

definition ex_counts :: "series \<Rightarrow> dict" where
  "ex_counts s =
     [(''Count'', JNum (int (length (filter (\<lambda>c. c \<noteq> CNaN) (snd s))))),
      (''Missing'', JNum (int (length (filter (\<lambda>c. c = CNaN) (snd s)))))]"

definition ex_nunique :: "series \<Rightarrow> nat" where
  "ex_nunique s = length (remdups (filter (\<lambda>c. c \<noteq> CNaN) (snd s)))"

text \<open>
  Sorting by a column of times, the rows without a time last; a key that is no column
  raises \<^verbatim>\<open>KeyError\<close>.
\<close>

definition time_of :: "cell \<Rightarrow> int option" where
  "time_of c = (case c of CTime t \<Rightarrow> Some t | _ \<Rightarrow> None)"

definition ex_sort_values :: "dataframe \<Rightarrow> json \<Rightarrow> string + dataframe" where
  "ex_sort_values df by =
     (case in_columns by df of
        Some True \<Rightarrow>
          (let i = index_of (py_str by) (column_names df);
               timed = filter (\<lambda>r. time_of (cell_at r i) \<noteq> None) (rows df);
               others = filter (\<lambda>r. time_of (cell_at r i) = None) (rows df)
           in Inr (df\<lparr>rows := sort_key (\<lambda>r. the (time_of (cell_at r i))) timed @ others\<rparr>))
      | _ \<Rightarrow> Inl (py_repr by))"

definition ex_pandas :: pandas where
  "ex_pandas =
     \<lparr>to_numeric = ex_to_numeric, to_datetime = ex_to_datetime, compare = ex_compare,
      parses_as_datetime = (\<lambda>sample. \<forall>c\<in>set sample. is_date c),
      numeric_stats = ex_counts,
      count_stats = (\<lambda>s. ex_counts s @ [(''Unique Values'', JNum (int (ex_nunique s)))]),
      nunique = ex_nunique,
      top_stats = (\<lambda>s. []),
      item_is_datetime = (\<lambda>df key. Inl (py_repr key)),
      sort_values = ex_sort_values\<rparr>"

text \<open>A dataset of four people; the scores are text.\<close>

definition people :: dataframe where
  "people =
     \<lparr>columns = [(''sex'', Object), (''age'', Int64), (''score'', Object)],
      rows = [[CStr ''male'', CNum 30, CStr ''7''],
              [CStr ''female'', CNum 25, CStr ''x''],
              [CStr ''male'', CNum 12, CStr ''9''],
              [CStr ''male'', CNum 18, CNaN]]\<rparr>"

text \<open>A plotting library that returns the call as the figure.\<close>

definition ex_px :: "plot_call \<Rightarrow> string + plot_call" where
  "ex_px call = Inr call"

text \<open>
  The two shapes of the pair of the other stages: a result with no error, or \<^verbatim>\<open>None\<close>
  with a message that is not empty.
\<close>

definition result_shape :: "'a result \<Rightarrow> bool" where
  "result_shape res =
     ((\<exists>v. res = (Some v, None)) \<or> (\<exists>m. res = (None, Some m) \<and> m \<noteq> []))"

text \<open>An action of the parser's shape on the dataset.\<close>

definition histogram_of_score :: dict where
  "histogram_of_score = [(''type'', JStr ''histogram''), (''column'', JStr ''score'')]"

subsection \<open>Filter conditions\<close>

text \<open>
  A filter condition that passes the structural check of the parser, and the operator
  that the parser and the filter loop read from a condition.
\<close>

definition well_formed_condition :: "json \<Rightarrow> bool" where
  "well_formed_condition c =
     (case c of JObj d \<Rightarrow> has_key d ''column'' \<and> has_key d ''value'' | _ \<Rightarrow> False)"

definition condition_operator :: "json \<Rightarrow> json" where
  "condition_operator c =
     (case c of JObj d \<Rightarrow> dict_get d ''operator'' (JStr ''=='') | _ \<Rightarrow> JNull)"

text \<open>
  A response is read as the object \<open>p\<close> with the action \<open>a\<close>: the parse gives a dict whose
  action is a dict with a type that is a string.
\<close>

definition reads_as :: "(string \<Rightarrow> json option) \<Rightarrow> string \<Rightarrow> dict \<Rightarrow> dict \<Rightarrow> string \<Rightarrow> bool" where
  "reads_as loads resp p a ty =
     (safe_json_parse loads resp = JObj p \<and> dict_get p ''action'' (JObj []) = JObj a
      \<and> has_key a ''type'' \<and> dict_get a ''type'' (JStr []) = JStr ty)"

text \<open>Two conditions, the second with the operator \<^verbatim>\<open>!=\<close>; and a condition with \<^verbatim>\<open>!=\<close> and no value.\<close>

definition bad_operator_response :: string where
  "bad_operator_response =
     ''{\"action\": {\"type\": \"summarize\", \"filter\": [{\"column\": \"sex\", \"value\": \"male\"}, ''
     @ ''{\"column\": \"age\", \"operator\": \"!=\", \"value\": 18}]}}''"

definition no_value_response :: string where
  "no_value_response =
     ''{\"action\": {\"type\": \"summarize\", \"filter\": [{\"column\": \"age\", \"operator\": \"!=\"}]}}''"

definition sex_is_male :: json where
  "sex_is_male = JObj [(''column'', JStr ''sex''), (''value'', JStr ''male'')]"

definition age_differs :: json where
  "age_differs = JObj [(''column'', JStr ''age''), (''operator'', JStr ''!=''), (''value'', JNum 18)]"

definition age_differs_no_value :: json where
  "age_differs_no_value = JObj [(''column'', JStr ''age''), (''operator'', JStr ''!='')]"

definition summarize_with :: "json list \<Rightarrow> dict" where
  "summarize_with conds = [(''type'', JStr ''summarize''), (''filter'', JArr conds)]"

subsection \<open>Summaries\<close>

text \<open>A response whose action has the type \<^verbatim>\<open>Summarize\<close>, and the action read from it.\<close>

definition mixed_case_response :: string where
  "mixed_case_response = ''ok '' @ fence @ ''json {\"action\": {\"type\": \"Summarize\"}} '' @ fence"

definition mixed_case_action :: dict where
  "mixed_case_action = [(''type'', JStr ''Summarize'')]"

text \<open>A summary of three columns, one of which is not in the dataset.\<close>

definition summary_of_three :: dict where
  "summary_of_three =
     [(''type'', JStr ''summarize''), (''columns'', JArr (map JStr [''age'', ''height'', ''sex'']))]"

definition not_supported_summarize :: string where
  "not_supported_summarize = ''Visualization type '' @ sq @ ''summarize'' @ sq @ '' not supported.''"

subsection \<open>Chart actions and their columns\<close>

text \<open>
  A well-formed chart action: its type is one of the four chart types and its required
  parameters are column names, that is strings; the \<^verbatim>\<open>y\<close> of a bar chart may be left out.
\<close>

definition is_name :: "dict \<Rightarrow> string \<Rightarrow> bool" where
  "is_name action k = (case map_of action k of Some (JStr s) \<Rightarrow> True | _ \<Rightarrow> False)"

definition name_of :: "dict \<Rightarrow> string \<Rightarrow> string" where
  "name_of action k = py_str (dict_get action k JNull)"

definition well_formed_chart_action :: "dict \<Rightarrow> bool" where
  "well_formed_chart_action action =
     (case get_action_type action of
        Raises e \<Rightarrow> False
      | Returns t \<Rightarrow>
          if t = ''histogram'' then is_name action ''column''
          else if t = ''bar'' then
            is_name action ''x'' \<and> (has_key action ''y'' \<longrightarrow> is_name action ''y'')
          else if t = ''scatter'' \<or> t = ''line'' then is_name action ''x'' \<and> is_name action ''y''
          else False)"

text \<open>
  The columns that a chart action references. The \<^verbatim>\<open>y\<close> of a bar chart counts when it is
  given and not empty: the program reads an empty \<^verbatim>\<open>y\<close> as no \<^verbatim>\<open>y\<close>, here and in the chart
  producer.
\<close>

definition referenced_columns :: "dict \<Rightarrow> string list" where
  "referenced_columns action =
     (case get_action_type action of
        Raises e \<Rightarrow> []
      | Returns t \<Rightarrow>
          if t = ''histogram'' then [name_of action ''column'']
          else if t = ''bar'' then
            name_of action ''x''
              # (if truthy (dict_get action ''y'' JNull) then [name_of action ''y''] else [])
          else if t = ''scatter'' \<or> t = ''line'' then [name_of action ''x'', name_of action ''y'']
          else [])"

text \<open>The message holds the name between single quotes.\<close>

definition names_column :: "string \<Rightarrow> string \<Rightarrow> bool" where
  "names_column m c = (\<exists>u v. m = u @ sq @ c @ sq @ v)"

text \<open>The coercions of the library do not raise, as \<^verbatim>\<open>errors="coerce"\<close> promises.\<close>

definition coercions_total :: "pandas \<Rightarrow> bool" where
  "coercions_total pd = (\<forall>s. to_numeric pd s \<noteq> None \<and> to_datetime pd s \<noteq> None)"

definition prepared :: "pandas \<Rightarrow> heap \<Rightarrow> ref \<Rightarrow> dict \<Rightarrow> ref result outcome" where
  "prepared pd h r action = snd (prepare_data_for_visualization pd h r action)"

definition chart_claim :: "pandas \<Rightarrow> heap \<Rightarrow> ref \<Rightarrow> dict \<Rightarrow> bool" where
  "chart_claim pd h r action =
     (\<exists>p e. prepared pd h r action = Returns (p, e)
        \<and> (e \<noteq> None \<longleftrightarrow> (\<exists>c\<in>set (referenced_columns action). c \<notin> set (column_names (h ! r))))
        \<and> (\<forall>m. e = Some m \<longrightarrow>
              p = None \<and> (\<exists>c\<in>set (referenced_columns action).
                             c \<notin> set (column_names (h ! r)) \<and> names_column m c))
        \<and> (e = None \<longrightarrow> p = Some r))"

text \<open>A scatter plot of a height that the dataset does not have.\<close>

definition scatter_height_age :: dict where
  "scatter_height_age = [(''type'', JStr ''scatter''), (''x'', JStr ''height''), (''y'', JStr ''age'')]"

subsection \<open>The manual builder\<close>

text \<open>
  The required parameters of the data model of the specification: a histogram has a
  column, a bar chart an \<^verbatim>\<open>x\<close>, a scatter plot and a line chart an \<^verbatim>\<open>x\<close> and a \<^verbatim>\<open>y\<close>, a
  summary nothing.
\<close>

definition has_required_parameters :: "dict \<Rightarrow> bool" where
  "has_required_parameters action =
     (case map_of action ''type'' of
        Some (JStr t) \<Rightarrow>
          if t = ''histogram'' then has_key action ''column''
          else if t = ''bar'' then has_key action ''x''
          else if t = ''scatter'' \<or> t = ''line'' then has_key action ''x'' \<and> has_key action ''y''
          else t = ''summarize''
      | _ \<Rightarrow> False)"

text \<open>
  A user who chooses the type \<open>v\<close> and leaves every other widget as it is shown: the
  first option of a box, the boxes ticked as in the source, the first five columns.
\<close>

definition leaves_defaults :: "string \<Rightarrow> ui" where
  "leaves_defaults v =
     \<lparr>selectbox = (\<lambda>label options.
        if label = ''Visualization Type'' then Some v
        else (case options of [] \<Rightarrow> None | x # xs \<Rightarrow> Some x)),
      checkbox = (\<lambda>label. label = ''Summarize all columns''),
      multiselect = (\<lambda>label options. take 5 options)\<rparr>"

subsection \<open>Filtering\<close>

text \<open>
  A filter condition of the data model: a dict with a column that is a name (a string),
  a value, and an operator that is one of the five or is left out. The parser checks the
  keys and the operator; it does not check that the column is a string.
\<close>

definition filter_condition :: "json \<Rightarrow> bool" where
  "filter_condition c =
     (case c of
        JObj d \<Rightarrow> is_name d ''column'' \<and> has_key d ''value''
                   \<and> dict_get d ''operator'' (JStr ''=='') \<in> set valid_operators
      | _ \<Rightarrow> False)"

definition condition_column :: "json \<Rightarrow> string" where
  "condition_column c = (case c of JObj d \<Rightarrow> name_of d ''column'' | _ \<Rightarrow> [])"

definition condition_value :: "json \<Rightarrow> json" where
  "condition_value c = (case c of JObj d \<Rightarrow> dict_get d ''value'' JNull | _ \<Rightarrow> JNull)"

definition operator_name :: "json \<Rightarrow> string" where
  "operator_name c = py_str (condition_operator c)"

text \<open>
  The comparison of the library is cell by cell: when it returns a mask, the entry of a
  row is the predicate \<open>sat\<close> of the operator on the cell of the row and the value.
\<close>

definition elementwise :: "pandas \<Rightarrow> (string \<Rightarrow> cell \<Rightarrow> json \<Rightarrow> bool) \<Rightarrow> bool" where
  "elementwise pd sat =
     (\<forall>op s v m. compare pd op s v = Inr m \<longrightarrow> m = map (\<lambda>c. sat op c v) (snd s))"

text \<open>A row of the frame satisfies a condition.\<close>

definition satisfies ::
  "(string \<Rightarrow> cell \<Rightarrow> json \<Rightarrow> bool) \<Rightarrow> dataframe \<Rightarrow> cell list \<Rightarrow> json \<Rightarrow> bool" where
  "satisfies sat df row c =
     sat (operator_name c) (cell_at row (index_of (condition_column c) (column_names df)))
       (condition_value c)"

definition column_missing :: "string \<Rightarrow> string" where
  "column_missing c = ''Filter column '' @ sq @ c @ sq @ '' not found in dataset.''"

definition applying_error :: "pandas \<Rightarrow> (heap \<times> (string + ref) outcome) \<Rightarrow> bool" where
  "applying_error pd res =
     (\<exists>h' e op s v. res = (h', Returns (Inl (''Error applying filter: '' @ e)))
        \<and> compare pd op s v = Inl e)"

text \<open>The predicate of the example library on a cell.\<close>

definition ex_satisfies :: "string \<Rightarrow> cell \<Rightarrow> json \<Rightarrow> bool" where
  "ex_satisfies op c v = (case cell_compare op c v of Inr b \<Rightarrow> b | Inl e \<Rightarrow> False)"

text \<open>
  Conditions on the dataset: the adults, a height that the dataset does not have, and an
  order comparison of the text column with a number. The frames are the dataset
  narrowed to the adults, and to the adult males.
\<close>

definition adults :: json where
  "adults = JObj [(''column'', JStr ''age''), (''operator'', JStr ''>=''), (''value'', JNum 18)]"

definition tall :: json where
  "tall = JObj [(''column'', JStr ''height''), (''operator'', JStr ''>''), (''value'', JNum 180)]"

definition sex_at_least_18 :: json where
  "sex_at_least_18 = JObj [(''column'', JStr ''sex''), (''operator'', JStr ''>=''), (''value'', JNum 18)]"

definition adult_people :: dataframe where
  "adult_people =
     people\<lparr>rows := [[CStr ''male'', CNum 30, CStr ''7''],
                       [CStr ''female'', CNum 25, CStr ''x''],
                       [CStr ''male'', CNum 18, CNaN]]\<rparr>"

definition adult_males :: dataframe where
  "adult_males =
     people\<lparr>rows := [[CStr ''male'', CNum 30, CStr ''7''], [CStr ''male'', CNum 18, CNaN]]\<rparr>"

subsection \<open>The store\<close>

text \<open>The dataset after the scores have been turned into numbers.\<close>

definition scored_people :: dataframe where
  "scored_people =
     \<lparr>columns = [(''sex'', Object), (''age'', Int64), (''score'', Float64)],
      rows = [[CStr ''male'', CNum 30, CNum 7],
              [CStr ''female'', CNum 25, CNaN],
              [CStr ''male'', CNum 12, CNum 9],
              [CStr ''male'', CNum 18, CNaN]]\<rparr>"

text \<open>
  A call changes the store at most at \<open>r\<close>: the store keeps its length and every other
  object.
\<close>

definition only_changes :: "ref \<Rightarrow> heap \<Rightarrow> heap \<Rightarrow> bool" where
  "only_changes r h h' = (length h' = length h \<and> (\<forall>i. i \<noteq> r \<longrightarrow> h' ! i = h ! i))"

text \<open>A call keeps every object of the store and may add new ones.\<close>

definition extends :: "heap \<Rightarrow> heap \<Rightarrow> bool" where
  "extends h h' = (length h \<le> length h' \<and> (\<forall>i<length h. h' ! i = h ! i))"

section \<open>Properties\<close>

subsection \<open>The regular expression\<close>

lemma strip_prefix_Some: "strip_prefix p s = Some r \<Longrightarrow> s = p @ r"
  by (induction p s rule: strip_prefix.induct) (auto split: if_splits)

lemma fence_close_Some:
  assumes "fence_close s = Some t"
  shows "\<exists>post. s = takeWhile is_space s @ fence @ post \<and> t = takeWhile is_space s @ fence"
proof -
  from assms obtain r where r: "strip_prefix fence (dropWhile is_space s) = Some r"
    and t: "t = takeWhile is_space s @ fence"
    by (auto simp: fence_close_def split: option.splits)
  from r have "dropWhile is_space s = fence @ r" by (rule strip_prefix_Some)
  then have "s = takeWhile is_space s @ fence @ r"
    using takeWhile_dropWhile_id [of is_space s] by simp
  with t show ?thesis by auto
qed

lemma lazy_body_Some:
  "lazy_body s = Some (b, t) \<Longrightarrow>
     \<exists>ws post. s = b @ ws @ fence @ post \<and> t = ws @ fence \<and> (\<forall>c\<in>set ws. is_space c)"
proof (induction s arbitrary: b)
  case Nil
  then show ?case
    by (auto simp: fence_close_def fence_def split: option.splits)
next
  case (Cons c cs)
  show ?case
  proof (cases "fence_close (c # cs)")
    case (Some t')
    with Cons.prems have b: "b = []" and t: "t = t'" by auto
    from fence_close_Some [OF Some] obtain post where
      p: "c # cs = takeWhile is_space (c # cs) @ fence @ post"
         "t' = takeWhile is_space (c # cs) @ fence" by blast
    let ?ws = "takeWhile is_space (c # cs)"
    have "c # cs = b @ ?ws @ fence @ post" unfolding b append_Nil by (rule p(1))
    moreover have "t = ?ws @ fence" unfolding t by (rule p(2))
    moreover have "\<forall>a\<in>set ?ws. is_space a" by (auto dest: set_takeWhileD)
    ultimately show ?thesis by blast
  next
    case None
    with Cons.prems obtain b' where lb: "lazy_body cs = Some (b', t)" and b: "b = c # b'"
      by (auto split: option.splits)
    from Cons.IH [OF lb] show ?thesis using b by auto
  qed
qed

lemma match_fence_Some:
  assumes "match_fence s = Some (g1, g0)"
  shows "\<exists>b ws ws' post. g1 = Some b \<and> g0 = fence @ ''json'' @ ws @ b @ ws' @ fence
           \<and> s = g0 @ post \<and> (\<forall>c\<in>set (ws @ ws'). is_space c)"
proof -
  from assms obtain r b t where r: "strip_prefix (fence @ ''json'') s = Some r"
    and lb: "lazy_body (dropWhile is_space r) = Some (b, t)"
    and g: "g1 = Some b" "g0 = fence @ ''json'' @ takeWhile is_space r @ b @ t"
    by (auto simp: match_fence_def split: option.splits)
  from strip_prefix_Some [OF r] have s: "s = (fence @ ''json'') @ r" .
  from lazy_body_Some [OF lb] obtain ws' post where
    d: "dropWhile is_space r = b @ ws' @ fence @ post" and t: "t = ws' @ fence"
    and sp: "\<forall>c\<in>set ws'. is_space c" by blast
  have "r = takeWhile is_space r @ b @ ws' @ fence @ post"
    using d takeWhile_dropWhile_id [of is_space r] by simp
  with s have "s = (fence @ ''json'' @ takeWhile is_space r @ b @ ws' @ fence) @ post"
    by simp
  moreover have "\<forall>c\<in>set (takeWhile is_space r @ ws'). is_space c"
    using sp by (auto dest: set_takeWhileD)
  ultimately show ?thesis using g t by blast
qed

lemma upto_last_snoc:
  "upto_last c (xs @ [x]) = (if x = c then Some (xs @ [x]) else upto_last c xs)"
  by (induction xs) (auto split: option.splits)

lemma upto_last_None: "upto_last c xs = None \<longleftrightarrow> c \<notin> set xs"
  by (induction xs) (auto split: option.splits)

lemma upto_last_take:
  "c \<in> set xs \<Longrightarrow>
     upto_last c xs = Some (take (length xs - length (takeWhile (\<lambda>x. x \<noteq> c) (rev xs))) xs)"
proof (induction xs rule: rev_induct)
  case Nil
  then show ?case by simp
next
  case (snoc x xs)
  show ?case
  proof (cases "x = c")
    case True
    then show ?thesis by (simp add: upto_last_snoc)
  next
    case False
    with snoc.prems have "c \<in> set xs" by simp
    from snoc.IH [OF this] False show ?thesis
      by (simp add: upto_last_snoc)
  qed
qed

lemma takeWhile_shorter: "\<not> (\<forall>x\<in>set ys. P x) \<Longrightarrow> length (takeWhile P ys) < length ys"
  by (induction ys) auto

lemma takeWhile_rev_bound:
  "c \<in> set xs \<Longrightarrow> length (takeWhile (\<lambda>x. x \<noteq> c) (rev xs)) < length xs"
  using takeWhile_shorter [of "rev xs" "\<lambda>x. x \<noteq> c"] by auto

lemma brace_first:
  assumes "CHR 0x7B \<notin> set pre" and "CHR 0x7D \<in> set rest" and "upto_last (CHR 0x7D) rest = Some m"
  shows "py_find (CHR 0x7B) (pre @ CHR 0x7B # rest) = int (length pre)"
    and "py_rfind (CHR 0x7D) (pre @ CHR 0x7B # rest) > int (length pre)"
    and "brace_span (pre @ CHR 0x7B # rest) = CHR 0x7B # m"
proof -
  let ?t = "pre @ CHR 0x7B # rest"
  let ?k = "length (takeWhile (\<lambda>x. x \<noteq> CHR 0x7D) (rev rest))"
  have tw: "takeWhile (\<lambda>x. x \<noteq> CHR 0x7B) ?t = pre"
    using assms(1) by (subst takeWhile_append2) auto
  show f: "py_find (CHR 0x7B) ?t = int (length pre)"
    by (simp add: py_find_def tw)
  have k: "?k < length rest" using assms(2) by (rule takeWhile_rev_bound)
  have "takeWhile (\<lambda>x. x \<noteq> CHR 0x7D) (rev ?t) = takeWhile (\<lambda>x. x \<noteq> CHR 0x7D) (rev rest)"
    using assms(2) by (subst rev_append, subst takeWhile_append1 [where x = "CHR 0x7D"]) auto
  then have r: "py_rfind (CHR 0x7D) ?t = int (length pre) + int (length rest) - int ?k"
    using assms(2) by (simp add: py_rfind_def)
  show "py_rfind (CHR 0x7D) ?t > int (length pre)"
    using r k by simp
  have m: "m = take (length rest - ?k) rest"
    using upto_last_take [OF assms(2)] assms(3) by simp
  have "nat (py_rfind (CHR 0x7D) ?t + 1) = length pre + 1 + (length rest - ?k)"
    using r k by simp
  then show "brace_span ?t = CHR 0x7B # m"
    using f m by (simp add: brace_span_def py_slice_def)
qed

lemma first_fence_step:
  assumes "first_fence (c # cs) = None"
  shows "match_fence (c # cs) = None" and "first_fence cs = None"
proof -
  show "match_fence (c # cs) = None"
  proof (cases "match_fence (c # cs)")
    case None
    then show ?thesis .
  next
    case (Some m)
    obtain g1 g0 where m: "m = (g1, g0)" by (cases m)
    from match_fence_Some [of "c # cs" g1 g0] Some m obtain b where "g1 = Some b" by auto
    with Some m assms show ?thesis by simp
  qed
  then show "first_fence cs = None"
    using assms by (auto split: option.splits prod.splits)
qed

lemma match_fence_nil: "match_fence [] = None"
  by (simp add: match_fence_def fence_def)

lemma re_search_first_fence:
  "first_fence tx = Some (pre, b, g0) \<Longrightarrow> CHR 0x7B \<notin> set pre
     \<Longrightarrow> re_search tx = Some (Some b, g0)"
proof (induction tx arbitrary: pre)
  case Nil
  then show ?case by simp
next
  case (Cons c cs)
  show ?case
  proof (cases "match_fence (c # cs)")
    case None
    with Cons.prems(1) obtain pre' where f: "first_fence cs = Some (pre', b, g0)"
      and p: "pre = c # pre'"
      by (auto split: option.splits)
    from p Cons.prems(2) have c: "c \<noteq> CHR 0x7B" and p': "CHR 0x7B \<notin> set pre'" by auto
    from c have "match_braces (c # cs) = None" by (simp add: match_braces_def)
    with None have "match_here (c # cs) = None" by (simp add: match_here_def)
    then have "re_search (c # cs) = re_search cs" by simp
    also have "\<dots> = Some (Some b, g0)" using f p' by (rule Cons.IH)
    finally show ?thesis .
  next
    case (Some m)
    obtain g1 g0' where m: "m = (g1, g0')" by (cases m)
    from match_fence_Some [of "c # cs" g1 g0'] Some m obtain b' where g1: "g1 = Some b'" by auto
    from Some m g1 Cons.prems(1) have "b' = b" "g0' = g0" by simp_all
    with Some m g1 have "match_here (c # cs) = Some (Some b, g0)" by (simp add: match_here_def)
    then show ?thesis by simp
  qed
qed

lemma re_search_no_fence:
  assumes "upto_last (CHR 0x7D) rest = Some m"
  shows "first_fence (pre @ CHR 0x7B # rest) = None \<Longrightarrow> CHR 0x7B \<notin> set pre
     \<Longrightarrow> re_search (pre @ CHR 0x7B # rest) = Some (None, CHR 0x7B # m)"
proof (induction pre)
  case Nil
  then have "match_fence (CHR 0x7B # rest) = None" using first_fence_step(1) by simp
  then show ?case using assms by (simp add: match_here_def match_braces_def)
next
  case (Cons c pre)
  from Cons.prems(1) have mf: "match_fence (c # pre @ CHR 0x7B # rest) = None"
    and ff: "first_fence (pre @ CHR 0x7B # rest) = None"
    using first_fence_step [of c "pre @ CHR 0x7B # rest"] by simp_all
  from Cons.prems(2) have c: "c \<noteq> CHR 0x7B" and p: "CHR 0x7B \<notin> set pre" by auto
  from c have "match_braces (c # pre @ CHR 0x7B # rest) = None" by (simp add: match_braces_def)
  with mf have "match_here (c # pre @ CHR 0x7B # rest) = None" by (simp add: match_here_def)
  then have "re_search ((c # pre) @ CHR 0x7B # rest) = re_search (pre @ CHR 0x7B # rest)" by simp
  also have "\<dots> = Some (None, CHR 0x7B # m)" using ff p by (rule Cons.IH)
  finally show ?case .
qed

lemma brace_pair_Cons:
  "brace_pair (c # cs) = (if c = CHR 0x7B then CHR 0x7D \<in> set cs else brace_pair cs)"
  by (simp add: brace_pair_def)

lemma brace_pair_mem: "brace_pair t \<Longrightarrow> CHR 0x7D \<in> set t"
  unfolding brace_pair_def by (auto dest: set_dropWhileD)

lemma brace_pair_split:
  assumes "brace_pair t"
  shows "\<exists>pre rest. t = pre @ CHR 0x7B # rest \<and> CHR 0x7B \<notin> set pre \<and> CHR 0x7D \<in> set rest"
  using assms
proof (induction t)
  case Nil
  then show ?case by (simp add: brace_pair_def)
next
  case (Cons c cs)
  show ?case
  proof (cases "c = CHR 0x7B")
    case True
    with Cons.prems have "CHR 0x7D \<in> set cs" by (simp add: brace_pair_Cons)
    with True have "c # cs = [] @ CHR 0x7B # cs \<and> CHR 0x7B \<notin> set [] \<and> CHR 0x7D \<in> set cs"
      by simp
    then show ?thesis by blast
  next
    case False
    with Cons.prems have "brace_pair cs" by (simp add: brace_pair_Cons)
    from Cons.IH [OF this] obtain pre rest where
      r: "cs = pre @ CHR 0x7B # rest" "CHR 0x7B \<notin> set pre" "CHR 0x7D \<in> set rest" by blast
    with False have "c # cs = (c # pre) @ CHR 0x7B # rest \<and> CHR 0x7B \<notin> set (c # pre)
        \<and> CHR 0x7D \<in> set rest" by simp
    then show ?thesis by blast
  qed
qed

lemma re_search_nothing:
  "first_fence tx = None \<Longrightarrow> \<not> brace_pair tx \<Longrightarrow> re_search tx = None"
proof (induction tx)
  case Nil
  then show ?case by (simp add: match_here_def match_fence_nil match_braces_def)
next
  case (Cons c cs)
  from Cons.prems(1) have mf: "match_fence (c # cs) = None" and ff: "first_fence cs = None"
    using first_fence_step [of c cs] by simp_all
  have nb: "\<not> brace_pair cs"
    using Cons.prems(2) brace_pair_mem [of cs] by (auto simp: brace_pair_Cons split: if_splits)
  have "match_braces (c # cs) = None"
    using Cons.prems(2) upto_last_None [of "CHR 0x7D" cs]
    by (auto simp: match_braces_def brace_pair_Cons split: option.splits)
  with mf have "match_here (c # cs) = None" by (simp add: match_here_def)
  then have "re_search (c # cs) = re_search cs" by simp
  also have "\<dots> = None" using ff nb by (rule Cons.IH)
  finally show ?case .
qed

lemma py_find_none: "c \<notin> set t \<Longrightarrow> py_find c t = - 1"
  by (simp add: py_find_def)

lemma py_rfind_before:
  assumes "c \<notin> set suf"
  shows "py_rfind c (pre @ suf) < int (length pre)"
proof (cases "c \<in> set pre")
  case False
  with assms show ?thesis by (simp add: py_rfind_def)
next
  case True
  have "takeWhile (\<lambda>x. x \<noteq> c) (rev (pre @ suf))
      = rev suf @ takeWhile (\<lambda>x. x \<noteq> c) (rev pre)"
    using assms by (subst rev_append, subst takeWhile_append2) auto
  moreover have "length (takeWhile (\<lambda>x. x \<noteq> c) (rev pre)) < length pre"
    using True by (rule takeWhile_rev_bound)
  ultimately show ?thesis using True by (simp add: py_rfind_def)
qed

lemma brace_attempt_no_pair:
  assumes "\<not> brace_pair t"
  shows "brace_attempt loads t = None"
proof (cases "CHR 0x7B \<in> set t")
  case False
  then show ?thesis by (simp add: brace_attempt_def py_find_none)
next
  case True
  then obtain pre rest where t: "t = pre @ CHR 0x7B # rest" and p: "CHR 0x7B \<notin> set pre"
    using split_list_first [of "CHR 0x7B" t] by blast
  have "brace_pair t = (CHR 0x7D \<in> set rest)"
    unfolding t using p by (induction pre) (auto simp: brace_pair_Cons)
  with assms have "CHR 0x7D \<notin> set (CHR 0x7B # rest)" by simp
  then have r: "py_rfind (CHR 0x7D) t < int (length pre)"
    unfolding t by (rule py_rfind_before)
  have "takeWhile (\<lambda>x. x \<noteq> CHR 0x7B) t = pre"
    unfolding t using p by (subst takeWhile_append2) auto
  then have "py_find (CHR 0x7B) t = int (length pre)"
    using True by (simp add: py_find_def)
  with r show ?thesis by (simp add: brace_attempt_def Let_def)
qed

lemma brace_attempt_pair:
  assumes "brace_pair t"
  shows "brace_attempt loads t = loads (brace_span t)"
proof -
  from brace_pair_split [OF assms] obtain pre rest where
    r: "t = pre @ CHR 0x7B # rest" "CHR 0x7B \<notin> set pre" "CHR 0x7D \<in> set rest" by blast
  then obtain m where m: "upto_last (CHR 0x7D) rest = Some m"
    using upto_last_None [of "CHR 0x7D" rest] by (cases "upto_last (CHR 0x7D) rest") auto
  note bf = brace_first [OF r(2,3) m]
  have "py_find (CHR 0x7B) t \<noteq> - 1" "py_rfind (CHR 0x7D) t \<noteq> - 1"
    "py_rfind (CHR 0x7D) t > py_find (CHR 0x7B) t"
    using bf(1,2) r(1) by simp_all
  then show ?thesis by (simp add: brace_attempt_def brace_span_def Let_def)
qed

lemma regex_attempt_pair:
  assumes "first_fence t = None" and "brace_pair t"
  shows "regex_attempt loads t = loads (brace_span t)"
proof -
  from brace_pair_split [OF assms(2)] obtain pre rest where
    r: "t = pre @ CHR 0x7B # rest" "CHR 0x7B \<notin> set pre" "CHR 0x7D \<in> set rest" by blast
  then obtain m where m: "upto_last (CHR 0x7D) rest = Some m"
    using upto_last_None [of "CHR 0x7D" rest] by (cases "upto_last (CHR 0x7D) rest") auto
  have "re_search t = Some (None, CHR 0x7B # m)"
    using re_search_no_fence [OF m, of pre] assms(1) r(1,2) by simp
  moreover have "brace_span t = CHR 0x7B # m"
    using brace_first(3) [OF r(2,3) m] r(1) by simp
  ultimately show ?thesis by (simp add: regex_attempt_def)
qed

lemma first_fence_Some:
  "first_fence tx = Some (pre, b, g0) \<Longrightarrow>
     \<exists>ws ws' post. tx = pre @ g0 @ post \<and> g0 = fence @ ''json'' @ ws @ b @ ws' @ fence
        \<and> (\<forall>c\<in>set (ws @ ws'). is_space c)"
proof (induction tx arbitrary: pre)
  case Nil
  then show ?case by simp
next
  case (Cons c cs)
  show ?case
  proof (cases "match_fence (c # cs)")
    case None
    with Cons.prems obtain pre' where f: "first_fence cs = Some (pre', b, g0)"
      and p: "pre = c # pre'"
      by (auto split: option.splits)
    from Cons.IH [OF f] obtain ws ws' post where
      r: "cs = pre' @ g0 @ post" "g0 = fence @ ''json'' @ ws @ b @ ws' @ fence"
         "\<forall>c\<in>set (ws @ ws'). is_space c" by blast
    from r(1) p have "c # cs = pre @ g0 @ post" by simp
    with r(2,3) show ?thesis by blast
  next
    case (Some m)
    obtain g1 g0' where m: "m = (g1, g0')" by (cases m)
    from match_fence_Some [of "c # cs" g1 g0'] Some m obtain b' ws ws' post where
      r: "g1 = Some b'" "g0' = fence @ ''json'' @ ws @ b' @ ws' @ fence" "c # cs = g0' @ post"
         "\<forall>c\<in>set (ws @ ws'). is_space c" by auto
    from Some m r(1) Cons.prems have e: "pre = []" "b' = b" "g0' = g0" by simp_all
    from r(3) e have "c # cs = pre @ g0 @ post" by simp
    moreover from r(2) e have "g0 = fence @ ''json'' @ ws @ b @ ws' @ fence" by simp
    ultimately show ?thesis using r(4) by blast
  qed
qed

subsection \<open>The attempts of the parser\<close>

text \<open>
  Claim C1, as the code has it by design. \<^verbatim>\<open>safe_json_parse\<close> makes its attempts in
  order, and the first value that \<^verbatim>\<open>json.loads\<close> returns is the result; when no attempt
  returns a value the result is \<^verbatim>\<open>None\<close>. The first attempt is the regular-expression
  search. For a response whose first fence labelled \<^verbatim>\<open>json\<close> has no opening brace before
  it, the contents of the fence, without the white space around them, are parsed (the
  whole fenced block when the contents are empty). For a response without such a fence,
  the text from the first opening brace to the last closing brace is parsed: a greedy
  span, not the first balanced one. Without a fence and without braces nothing is parsed.
  The second attempt parses the text from the first opening brace to the last closing
  brace. For every non-empty response \<^verbatim>\<open>parse_llm_response\<close> returns
  \<^verbatim>\<open>(None, None, None, error)\<close> with the error "Could not parse LLM response as JSON."
  when the result is \<^verbatim>\<open>None\<close> or another falsy value, and goes on with the parsed value
  otherwise. A response in which an opening brace stands before the fence is not covered.
\<close>

theorem safe_json_parse_attempts:
  "(regex_attempt loads resp = Some v \<longrightarrow> safe_json_parse loads resp = v)
   \<and> (regex_attempt loads resp = None \<and> brace_attempt loads resp = Some v
        \<longrightarrow> safe_json_parse loads resp = v)
   \<and> (regex_attempt loads resp = None \<and> brace_attempt loads resp = None
        \<longrightarrow> safe_json_parse loads resp = JNull)
   \<and> (first_fence resp = Some (pre, b, g0) \<longrightarrow>
        (\<exists>ws ws' post. resp = pre @ g0 @ post \<and> g0 = fence @ ''json'' @ ws @ b @ ws' @ fence
            \<and> (\<forall>c\<in>set (ws @ ws'). is_space c)))
   \<and> (first_fence resp = Some (pre, b, g0) \<and> CHR 0x7B \<notin> set pre
        \<longrightarrow> regex_attempt loads resp = loads (if b \<noteq> [] then b else g0))
   \<and> (first_fence resp = None \<and> brace_pair resp
        \<longrightarrow> regex_attempt loads resp = loads (brace_span resp))
   \<and> (first_fence resp = None \<and> \<not> brace_pair resp \<longrightarrow> regex_attempt loads resp = None)
   \<and> brace_attempt loads resp = (if brace_pair resp then loads (brace_span resp) else None)
   \<and> (resp \<noteq> [] \<and> \<not> truthy (safe_json_parse loads resp)
        \<longrightarrow> parse_llm_response loads resp
              = (JNull, JNull, JNull, Some ''Could not parse LLM response as JSON.''))
   \<and> (truthy (safe_json_parse loads resp)
        \<longrightarrow> parse_llm_response loads resp = interpret_parsed (safe_json_parse loads resp))"
proof (intro conjI impI)
  assume "regex_attempt loads resp = Some v"
  then show "safe_json_parse loads resp = v" by (simp add: safe_json_parse_def)
next
  assume "regex_attempt loads resp = None \<and> brace_attempt loads resp = Some v"
  then show "safe_json_parse loads resp = v" by (simp add: safe_json_parse_def)
next
  assume "regex_attempt loads resp = None \<and> brace_attempt loads resp = None"
  then show "safe_json_parse loads resp = JNull" by (simp add: safe_json_parse_def)
next
  assume "first_fence resp = Some (pre, b, g0)"
  then show "\<exists>ws ws' post. resp = pre @ g0 @ post \<and> g0 = fence @ ''json'' @ ws @ b @ ws' @ fence
      \<and> (\<forall>c\<in>set (ws @ ws'). is_space c)"
    by (rule first_fence_Some)
next
  assume "first_fence resp = Some (pre, b, g0) \<and> CHR 0x7B \<notin> set pre"
  then have "re_search resp = Some (Some b, g0)" by (simp add: re_search_first_fence)
  then show "regex_attempt loads resp = loads (if b \<noteq> [] then b else g0)"
    by (simp add: regex_attempt_def)
next
  assume "first_fence resp = None \<and> brace_pair resp"
  then show "regex_attempt loads resp = loads (brace_span resp)"
    by (simp add: regex_attempt_pair)
next
  assume "first_fence resp = None \<and> \<not> brace_pair resp"
  then have "re_search resp = None" by (simp add: re_search_nothing)
  then show "regex_attempt loads resp = None" by (simp add: regex_attempt_def)
next
  show "brace_attempt loads resp = (if brace_pair resp then loads (brace_span resp) else None)"
    by (simp add: brace_attempt_pair brace_attempt_no_pair)
next
  assume "resp \<noteq> [] \<and> \<not> truthy (safe_json_parse loads resp)"
  then show "parse_llm_response loads resp
      = (JNull, JNull, JNull, Some ''Could not parse LLM response as JSON.'')"
    by (simp add: parse_llm_response_def failure_def)
next
  assume t: "truthy (safe_json_parse loads resp)"
  have "re_search [] = None" by (simp add: match_here_def match_fence_nil match_braces_def)
  then have "safe_json_parse loads [] = JNull"
    by (simp add: safe_json_parse_def regex_attempt_def brace_attempt_def py_find_def)
  with t have "resp \<noteq> []" by auto
  with t show "parse_llm_response loads resp = interpret_parsed (safe_json_parse loads resp)"
    by (simp add: parse_llm_response_def)
qed

lemma ex_prose_then_fence:
  "first_fence prose_then_fence
     = Some (''Sure: '', summarize_json, fence @ ''json'' @ [CHR 0x0A] @ summarize_json @ [CHR 0x0A] @ fence)"
  "summarize_json \<noteq> []"
  "json_loads summarize_json = Some summarize_value"
  "truthy summarize_value"
  by code_simp+

lemma ex_fence_then_object:
  "regex_attempt json_loads fence_then_object = None"
  "brace_attempt json_loads fence_then_object = Some summarize_value"
  by code_simp+

lemma ex_action_then_object:
  "first_fence action_then_object = None"
  "brace_pair action_then_object"
  "json_loads (brace_span action_then_object) = None"
  "action_then_object \<noteq> []"
  by code_simp+

lemma ex_no_braces:
  "first_fence no_braces = None" "\<not> brace_pair no_braces"
  by code_simp+

text \<open>
  The theorem at four responses: prose around a fenced block (the contents of the fence
  are the result); a fence without JSON and the action after it (the first attempt
  fails, the second succeeds); the action followed by a second object (the greedy span
  does not parse, the error is returned); no braces at all (neither attempt has
  anything to parse).
\<close>

theorem safe_json_parse_attempts_witness:
  "first_fence prose_then_fence
     = Some (''Sure: '', summarize_json, fence @ ''json'' @ [CHR 0x0A] @ summarize_json @ [CHR 0x0A] @ fence)
   \<and> CHR 0x7B \<notin> set ''Sure: ''
   \<and> regex_attempt json_loads prose_then_fence = Some summarize_value
   \<and> safe_json_parse json_loads prose_then_fence = summarize_value
   \<and> parse_llm_response json_loads prose_then_fence = interpret_parsed summarize_value
   \<and> regex_attempt json_loads fence_then_object = None
   \<and> brace_attempt json_loads fence_then_object = Some summarize_value
   \<and> safe_json_parse json_loads fence_then_object = summarize_value
   \<and> first_fence action_then_object = None \<and> brace_pair action_then_object
   \<and> regex_attempt json_loads action_then_object = None
   \<and> brace_attempt json_loads action_then_object = None
   \<and> safe_json_parse json_loads action_then_object = JNull
   \<and> action_then_object \<noteq> []
   \<and> parse_llm_response json_loads action_then_object
       = (JNull, JNull, JNull, Some ''Could not parse LLM response as JSON.'')
   \<and> first_fence no_braces = None \<and> \<not> brace_pair no_braces
   \<and> regex_attempt json_loads no_braces = None
   \<and> brace_attempt json_loads no_braces = None"
proof -
  note t1 = safe_json_parse_attempts [of json_loads prose_then_fence summarize_value "''Sure: ''"
      summarize_json "fence @ ''json'' @ [CHR 0x0A] @ summarize_json @ [CHR 0x0A] @ fence"]
  have n: "CHR 0x7B \<notin> set ''Sure: ''" by simp
  have a1: "regex_attempt json_loads prose_then_fence = Some summarize_value"
    using t1 ex_prose_then_fence(1,2,3) n by simp
  have a2: "safe_json_parse json_loads prose_then_fence = summarize_value"
    using t1 a1 by blast
  have a3: "parse_llm_response json_loads prose_then_fence = interpret_parsed summarize_value"
    using t1 a2 ex_prose_then_fence(4) by simp
  note t2 = safe_json_parse_attempts [of json_loads fence_then_object summarize_value]
  have b: "safe_json_parse json_loads fence_then_object = summarize_value"
    using t2 ex_fence_then_object by blast
  note t3 = safe_json_parse_attempts [of json_loads action_then_object]
  have c1: "regex_attempt json_loads action_then_object = None"
    using t3 ex_action_then_object(1,2,3) by simp
  have c2: "brace_attempt json_loads action_then_object = None"
    using t3 ex_action_then_object(2,3) by simp
  have c3: "safe_json_parse json_loads action_then_object = JNull"
    using t3 c1 c2 by blast
  have c4: "parse_llm_response json_loads action_then_object
       = (JNull, JNull, JNull, Some ''Could not parse LLM response as JSON.'')"
    using t3 c3 ex_action_then_object(4) by simp
  note t4 = safe_json_parse_attempts [of json_loads no_braces]
  have d1: "regex_attempt json_loads no_braces = None"
    using t4 ex_no_braces by blast
  have d2: "brace_attempt json_loads no_braces = None"
    using t4 ex_no_braces(2) by simp
  show ?thesis
    using ex_prose_then_fence(1) n a1 a2 a3 ex_fence_then_object b ex_action_then_object(1,2,4)
      c1 c2 c3 c4 ex_no_braces d1 d2
    by blast
qed

text \<open>
  Claim C1 as stated fails on its second strategy. \<open>action_then_object\<close> has no fence, and
  its first balanced span is the action, which is valid JSON; the code parses the greedy
  span, which is no JSON, and returns the parse error.
\<close>

theorem balanced_span_not_parsed:
  "first_fence action_then_object = None
   \<and> spec_balanced_span action_then_object = Some summarize_json
   \<and> json_loads summarize_json = Some summarize_value
   \<and> safe_json_parse json_loads action_then_object = JNull
   \<and> parse_llm_response json_loads action_then_object
       = (JNull, JNull, JNull, Some ''Could not parse LLM response as JSON.'')"
  by code_simp

text \<open>
  A defect of the code, which the theorem above leaves aside. The regular expression
  lists the fence first and the prompt asks for a fenced block, but the search returns
  the leftmost match: in \<open>object_then_fence\<close> the fenced block holds the action, the object
  before it makes the brace alternative the match, and the response is reported as
  impossible to parse.
\<close>

lemma object_before_fence_hides_fence:
  "first_fence object_then_fence
     = Some (''{\"x\": 1} '', summarize_json, fence @ ''json '' @ summarize_json @ '' '' @ fence)
   \<and> json_loads summarize_json = Some summarize_value
   \<and> parse_llm_response json_loads object_then_fence
       = (JNull, JNull, JNull, Some ''Could not parse LLM response as JSON.'')"
  by code_simp


subsection \<open>Input validation and the shape of the parser's result\<close>

text \<open>
  Claim C10. \<^verbatim>\<open>validate_data\<close> returns \<^verbatim>\<open>False\<close> with a message exactly when the frame
  is \<^verbatim>\<open>None\<close> or empty; it never returns the message of its third branch, "The
  uploaded file contains no columns.", because a frame without columns is empty and is
  caught by the second branch.
\<close>

theorem validate_data_rejects_exactly_empty:
  "(fst (validate_data d) = False \<longleftrightarrow> d = None \<or> (\<exists>df. d = Some df \<and> df_empty df))
   \<and> snd (validate_data d) \<noteq> ''The uploaded file contains no columns.''
   \<and> (case d of None \<Rightarrow> True | Some df \<Rightarrow> n_columns df < 1 \<longrightarrow> df_empty df)"
  by (auto simp: validate_data_def df_empty_def n_columns_def split: option.splits)

text \<open>The frame without columns: it is empty, and the message is that of the second branch.\<close>

theorem validate_data_rejects_exactly_empty_witness:
  "n_columns no_columns_frame < 1 \<and> df_empty no_columns_frame
   \<and> validate_data (Some no_columns_frame) = (False, ''The uploaded file contains no data.'')"
proof -
  have n: "n_columns no_columns_frame < 1"
    by (simp add: n_columns_def no_columns_frame_def)
  have e: "df_empty no_columns_frame"
    using validate_data_rejects_exactly_empty [of "Some no_columns_frame"] n by simp
  then have "validate_data (Some no_columns_frame) = (False, ''The uploaded file contains no data.'')"
    by (simp add: validate_data_def)
  with n e show ?thesis by simp
qed

lemma failure_shape: "failure m = (JNull, JNull, JNull, Some m)"
  by (simp add: failure_def)

lemma check_conditions_nonempty: "check_conditions cs = Some m \<Longrightarrow> m \<noteq> []"
  by (induction cs) (auto split: json.splits if_splits simp: Let_def)

lemma check_filter_nonempty: "check_filter f = Some m \<Longrightarrow> m \<noteq> []"
  by (auto simp: check_filter_def split: if_splits json.splits dest: check_conditions_nonempty)

lemma check_type_nonempty: "check_type t a = Some m \<Longrightarrow> m \<noteq> []"
  by (auto simp: check_type_def split: if_splits)

lemma interpret_parsed_shape: "parse_shape (interpret_parsed parsed)"
  unfolding interpret_parsed_def parse_shape_def
  by (auto simp: failure_def Let_def split: json.splits option.splits
      dest: check_filter_nonempty check_type_nonempty)

lemma parse_llm_response_shape: "parse_shape (parse_llm_response loads resp)"
proof -
  have "parse_shape (failure ''No response received from the LLM.'')"
    "parse_shape (failure ''Could not parse LLM response as JSON.'')"
    by (simp_all add: parse_shape_def failure_def)
  then show ?thesis
    using interpret_parsed_shape by (simp add: parse_llm_response_def Let_def)
qed

subsection \<open>The shape of the results\<close>

lemma shape_value: "result_shape (Some v, None)"
  by (simp add: result_shape_def)

lemma shape_error: "m \<noteq> [] \<Longrightarrow> result_shape (None, Some m)"
  by (simp add: result_shape_def)

lemma missing_xy_nonempty: "missing_xy df x y = Inr (Some m) \<Longrightarrow> m \<noteq> []"
  by (auto simp: missing_xy_def Let_def split: option.splits if_splits)

lemma first_missing_nonempty: "first_missing df cols = Inr (Some m) \<Longrightarrow> m \<noteq> []"
  by (induction cols) (auto split: option.splits bool.splits)

lemma prepare_histogram_shape: "result_shape (snd (prepare_histogram pd h r action))"
  by (auto simp: prepare_histogram_def Let_def preparing_error_def not_found_def not_numeric_def
      intro!: shape_value shape_error split: option.splits bool.splits)

lemma prepare_bar_shape: "result_shape (snd (prepare_bar pd h r action))"
  by (auto simp: prepare_bar_def Let_def preparing_error_def not_found_def not_numeric_def
      intro!: shape_value shape_error split: option.splits bool.splits)

lemma prepare_scatter_shape: "result_shape (snd (prepare_scatter pd h r action))"
  by (auto simp: prepare_scatter_def Let_def preparing_error_def
      intro!: shape_value shape_error dest: missing_xy_nonempty split: option.splits sum.splits)

lemma prepare_line_shape: "result_shape (snd (prepare_line pd h r action))"
  by (auto simp: prepare_line_def Let_def preparing_error_def not_numeric_def
      intro!: shape_value shape_error dest: missing_xy_nonempty split: option.splits sum.splits)

lemma prepare_summarize_shape: "result_shape (snd (prepare_summarize h r action))"
  by (auto simp: prepare_summarize_def preparing_error_def
      intro!: shape_value shape_error dest: first_missing_nonempty split: option.splits sum.splits)

lemma prepare_shape:
  "prepare_data_for_visualization pd h r action = (h', Returns res) \<Longrightarrow> result_shape res"
  unfolding prepare_data_for_visualization_def
  using prepare_histogram_shape [of pd h r action] prepare_bar_shape [of pd h r action]
    prepare_scatter_shape [of pd h r action] prepare_line_shape [of pd h r action]
    prepare_summarize_shape [of h r action]
  by (auto split: outcome.splits if_splits prod.splits intro!: shape_error)

lemma prepare_raises:
  "prepare_data_for_visualization pd h r action = (h', Raises e) \<Longrightarrow> get_action_type action = Raises e"
  unfolding prepare_data_for_visualization_def
  by (auto split: outcome.splits prod.splits)

lemma plot_shape: "result_shape (plot px call)"
  by (auto simp: plot_def intro!: shape_value shape_error split: sum.splits)

lemma visualization_shape:
  "generate_visualization pd px df action description = Returns res \<Longrightarrow> result_shape res"
  unfolding generate_visualization_def
  by (auto simp: Let_def plot_shape split: outcome.splits if_splits sum.splits prod.splits
      intro!: shape_error)

lemma visualization_raises:
  "generate_visualization pd px df action description = Raises e \<Longrightarrow> get_action_type action = Raises e"
  unfolding generate_visualization_def by (auto split: outcome.splits)

lemma summary_shape: "result_shape (generate_summary_statistics pd df action)"
  by (auto simp: generate_summary_statistics_def intro!: shape_value shape_error split: sum.splits)

text \<open>
  Claim C5. Every stage returns a result with no error or no result with an error
  message, never both and never neither: \<^verbatim>\<open>parse_llm_response\<close> returns
  \<^verbatim>\<open>(None, None, None, error)\<close> or \<^verbatim>\<open>(action, description, filters, None)\<close> with the action
  a dict, and \<^verbatim>\<open>generate_summary_statistics\<close>, \<^verbatim>\<open>prepare_data_for_visualization\<close> and
  \<^verbatim>\<open>generate_visualization\<close> return \<^verbatim>\<open>(result, None)\<close> or \<^verbatim>\<open>(None, message)\<close>. The last
  two return for every action whose type is a string; the only exception that escapes
  them is the \<^verbatim>\<open>AttributeError\<close> of a type that is no string.
\<close>

theorem stages_result_or_error:
  "parse_shape (parse_llm_response loads resp)
   \<and> result_shape (generate_summary_statistics pd df action)
   \<and> (case prepare_data_for_visualization pd h r action of
        (h', Raises e) \<Rightarrow> get_action_type action = Raises e
      | (h', Returns res) \<Rightarrow> result_shape res)
   \<and> (case generate_visualization pd px dfo action description of
        Raises e \<Rightarrow> get_action_type action = Raises e
      | Returns res \<Rightarrow> result_shape res)
   \<and> (\<forall>ty. dict_get action ''type'' (JStr []) = JStr ty
         \<longrightarrow> get_action_type action = Returns (str_lower ty))"
proof (intro conjI)
  show "parse_shape (parse_llm_response loads resp)" by (rule parse_llm_response_shape)
  show "result_shape (generate_summary_statistics pd df action)" by (rule summary_shape)
  show "case prepare_data_for_visualization pd h r action of
        (h', Raises e) \<Rightarrow> get_action_type action = Raises e
      | (h', Returns res) \<Rightarrow> result_shape res"
    using prepare_shape [of pd h r action] prepare_raises [of pd h r action]
    by (auto split: prod.splits outcome.splits)
  show "case generate_visualization pd px dfo action description of
        Raises e \<Rightarrow> get_action_type action = Raises e
      | Returns res \<Rightarrow> result_shape res"
    using visualization_shape [of pd px dfo action description]
      visualization_raises [of pd px dfo action description]
    by (auto split: outcome.splits)
  show "\<forall>ty. dict_get action ''type'' (JStr []) = JStr ty
         \<longrightarrow> get_action_type action = Returns (str_lower ty)"
    by (simp add: get_action_type_def)
qed

lemma ex_prepare_histogram:
  "prepare_data_for_visualization ex_pandas [people] 0 histogram_of_score
     = ([\<lparr>columns = [(''sex'', Object), (''age'', Int64), (''score'', Float64)],
          rows = [[CStr ''male'', CNum 30, CNum 7], [CStr ''female'', CNum 25, CNaN],
                  [CStr ''male'', CNum 12, CNum 9], [CStr ''male'', CNum 18, CNaN]]\<rparr>],
        Returns (Some 0, None))"
  by code_simp

lemma ex_visualize_histogram:
  "generate_visualization ex_pandas ex_px (Some people) histogram_of_score (JStr ''scores'')
     = Returns (Some (PxHistogram (Some people) (JStr ''score'')), None)"
  by code_simp

lemma ex_parse_object_then_fence:
  "parse_llm_response json_loads object_then_fence
     = (JNull, JNull, JNull, Some ''Could not parse LLM response as JSON.'')"
  by code_simp

text \<open>
  The stages on the example: a response that does not parse, and a histogram of the
  scores, prepared and drawn.
\<close>

theorem stages_result_or_error_witness:
  "parse_llm_response json_loads object_then_fence
     = (JNull, JNull, JNull, Some ''Could not parse LLM response as JSON.'')
   \<and> parse_shape (parse_llm_response json_loads object_then_fence)
   \<and> dict_get histogram_of_score ''type'' (JStr []) = JStr ''histogram''
   \<and> get_action_type histogram_of_score = Returns (str_lower ''histogram'')
   \<and> snd (prepare_data_for_visualization ex_pandas [people] 0 histogram_of_score)
       = Returns (Some 0, None)
   \<and> result_shape (Some (0::nat), None)
   \<and> generate_visualization ex_pandas ex_px (Some people) histogram_of_score (JStr ''scores'')
       = Returns (Some (PxHistogram (Some people) (JStr ''score'')), None)
   \<and> result_shape (Some (PxHistogram (Some people) (JStr ''score'')), None)
   \<and> result_shape (generate_summary_statistics ex_pandas people histogram_of_score)"
proof -
  note t = stages_result_or_error [of json_loads object_then_fence ex_pandas people
      histogram_of_score "[people]" 0 ex_px "Some people" "JStr ''scores''"]
  have ty: "dict_get histogram_of_score ''type'' (JStr []) = JStr ''histogram''"
    by code_simp
  have g: "get_action_type histogram_of_score = Returns (str_lower ''histogram'')"
    using t ty by blast
  have p: "result_shape (Some (0::nat), None)"
    using t ex_prepare_histogram by simp
  have v: "result_shape (Some (PxHistogram (Some people) (JStr ''score'')), None)"
    using t ex_visualize_histogram by simp
  show ?thesis
    using t ty g p v ex_prepare_histogram ex_visualize_histogram ex_parse_object_then_fence
    by simp
qed

subsection \<open>The filter check of the parser\<close>

lemma safe_json_parse_empty: "safe_json_parse loads [] = JNull"
  by (simp add: safe_json_parse_def regex_attempt_def brace_attempt_def match_here_def
      match_fence_def match_braces_def py_find_def py_rfind_def fence_def)

lemma reads_as_interpret:
  assumes "reads_as loads resp p a ty"
  shows "parse_llm_response loads resp = interpret_parsed (JObj p)"
proof -
  from assms have sp: "safe_json_parse loads resp = JObj p"
    and a: "dict_get p ''action'' (JObj []) = JObj a" and k: "has_key a ''type''"
    by (simp_all add: reads_as_def)
  have "resp \<noteq> []" using sp safe_json_parse_empty [of loads] by auto
  moreover have "p \<noteq> []"
  proof
    assume "p = []"
    with a have "a = []" by (simp add: dict_get_def)
    with k show False by (simp add: has_key_def)
  qed
  ultimately show ?thesis using sp by (simp add: parse_llm_response_def)
qed

lemma interpret_with_filter:
  assumes "reads_as loads resp p a ty"
  shows "parse_llm_response loads resp =
     (case check_filter (dict_get a ''filter'' JNull) of
        Some msg \<Rightarrow> failure msg
      | None \<Rightarrow>
          (case check_type (str_lower ty) a of
             Some msg \<Rightarrow> failure msg
           | None \<Rightarrow> (JObj a, dict_get p ''description'' (JStr ''No description provided.''),
                       dict_get a ''filter'' JNull, None)))"
  using assms reads_as_interpret [OF assms]
  by (simp add: reads_as_def interpret_parsed_def Let_def)

lemma check_conditions_first_invalid:
  assumes "\<forall>c\<in>set pre. well_formed_condition c \<and> condition_operator c \<in> set valid_operators"
    and "well_formed_condition c" and "condition_operator c \<notin> set valid_operators"
  shows "check_conditions (pre @ c # post)
           = Some (''Invalid filter operator: '' @ py_str (condition_operator c))"
  using assms(1)
proof (induction pre)
  case Nil
  from assms(2,3) show ?case
    by (auto simp: well_formed_condition_def condition_operator_def Let_def split: json.splits)
next
  case (Cons x pre)
  then show ?case
    by (auto simp: well_formed_condition_def condition_operator_def Let_def split: json.splits)
qed

lemma check_conditions_rejects:
  "c \<in> set cs \<Longrightarrow> condition_operator c \<notin> set valid_operators \<Longrightarrow> check_conditions cs \<noteq> None"
  by (induction cs) (auto simp: condition_operator_def Let_def split: json.splits)

lemma default_operator_lookup:
  assumes "\<not> has_key d ''operator''"
  shows "dict_get (d @ [(''operator'', JStr ''=='')]) ''operator'' (JStr ''=='') = dict_get d ''operator'' (JStr ''=='')"
    and "map_of (d @ [(''operator'', JStr ''=='')]) ''column'' = map_of d ''column''"
    and "map_of (d @ [(''operator'', JStr ''=='')]) ''value'' = map_of d ''value''"
  using assms by (auto simp: dict_get_def has_key_def map_add_def split: option.splits)

text \<open>
  Claim C6, as the code has it. In a response that reads as a dict with an action of
  string type, when the filter is a list whose conditions up to and including the first
  one with an operator outside \<^verbatim>\<open>==, >=, <=, >, <\<close> are dicts with a column and a value,
  \<^verbatim>\<open>parse_llm_response\<close> returns \<^verbatim>\<open>(None, None, None, error)\<close> with the error "Invalid
  filter operator: " followed by that operator. Whatever the shape of the other
  conditions, a filter list that holds a condition with such an operator is rejected
  with an error and no action, so no filter is applied. A condition without the key
  \<^verbatim>\<open>operator\<close> is checked, and later applied, as the same condition with the operator
  \<^verbatim>\<open>==\<close>.
\<close>

theorem invalid_operator_rejected:
  "(reads_as loads resp p a ty \<and> dict_get a ''filter'' JNull = JArr (pre @ c # post)
      \<and> (\<forall>x\<in>set pre. well_formed_condition x \<and> condition_operator x \<in> set valid_operators)
      \<and> well_formed_condition c \<and> condition_operator c \<notin> set valid_operators
    \<longrightarrow> parse_llm_response loads resp
          = (JNull, JNull, JNull,
             Some (''Invalid filter operator: '' @ py_str (condition_operator c))))
   \<and> (reads_as loads resp p a ty \<and> dict_get a ''filter'' JNull = JArr conds \<and> c \<in> set conds
      \<and> condition_operator c \<notin> set valid_operators
    \<longrightarrow> (\<exists>m. m \<noteq> [] \<and> parse_llm_response loads resp = (JNull, JNull, JNull, Some m)))
   \<and> (\<not> has_key d ''operator''
    \<longrightarrow> condition_operator (JObj d) = JStr ''==''
        \<and> check_conditions (JObj d # rest)
            = check_conditions (JObj (d @ [(''operator'', JStr ''=='')]) # rest)
        \<and> filter_loop pd h r (JObj d # rest)
            = filter_loop pd h r (JObj (d @ [(''operator'', JStr ''=='')]) # rest))"
proof (intro conjI impI)
  assume a: "reads_as loads resp p a ty \<and> dict_get a ''filter'' JNull = JArr (pre @ c # post)
      \<and> (\<forall>x\<in>set pre. well_formed_condition x \<and> condition_operator x \<in> set valid_operators)
      \<and> well_formed_condition c \<and> condition_operator c \<notin> set valid_operators"
  then have "check_filter (dict_get a ''filter'' JNull)
      = Some (''Invalid filter operator: '' @ py_str (condition_operator c))"
    using check_conditions_first_invalid [of pre c post] by (simp add: check_filter_def)
  with a show "parse_llm_response loads resp
          = (JNull, JNull, JNull,
             Some (''Invalid filter operator: '' @ py_str (condition_operator c)))"
    using interpret_with_filter [of loads resp p a ty] by (simp add: failure_def)
next
  assume a: "reads_as loads resp p a ty \<and> dict_get a ''filter'' JNull = JArr conds \<and> c \<in> set conds
      \<and> condition_operator c \<notin> set valid_operators"
  then have "conds \<noteq> []" by auto
  moreover from a obtain m where m: "check_conditions conds = Some m"
    using check_conditions_rejects [of c conds] by auto
  ultimately have "check_filter (dict_get a ''filter'' JNull) = Some m"
    using a by (simp add: check_filter_def)
  moreover have "m \<noteq> []" using m by (rule check_conditions_nonempty)
  ultimately show "\<exists>m. m \<noteq> [] \<and> parse_llm_response loads resp = (JNull, JNull, JNull, Some m)"
    using a interpret_with_filter [of loads resp p a ty] by (simp add: failure_def)
next
  assume a: "\<not> has_key d ''operator''"
  then show "condition_operator (JObj d) = JStr ''==''"
    by (simp add: condition_operator_def dict_get_def has_key_def)
  note l = default_operator_lookup [OF a]
  show "check_conditions (JObj d # rest)
            = check_conditions (JObj (d @ [(''operator'', JStr ''=='')]) # rest)"
    by (simp del: map_of_append add: l has_key_def)
  show "filter_loop pd h r (JObj d # rest)
            = filter_loop pd h r (JObj (d @ [(''operator'', JStr ''=='')]) # rest)"
    by (simp del: map_of_append add: l cong: option.case_cong)
qed

lemma ex_bad_operator_reads:
  "reads_as json_loads bad_operator_response
     [(''action'', JObj (summarize_with [sex_is_male, age_differs]))]
     (summarize_with [sex_is_male, age_differs]) ''summarize''"
  by code_simp

lemma ex_bad_operator_conditions:
  "dict_get (summarize_with [sex_is_male, age_differs]) ''filter'' JNull
     = JArr ([sex_is_male] @ age_differs # [])"
  "\<forall>x\<in>set [sex_is_male]. well_formed_condition x \<and> condition_operator x \<in> set valid_operators"
  "well_formed_condition age_differs" "condition_operator age_differs \<notin> set valid_operators"
  "py_str (condition_operator age_differs) = ''!=''"
  "\<not> has_key [(''column'', JStr ''sex''), (''value'', JStr ''male'')] ''operator''"
  by code_simp+

text \<open>
  The theorem on a response with two conditions: the first has no operator and passes as
  \<^verbatim>\<open>==\<close>, the second has the operator \<^verbatim>\<open>!=\<close> and is named in the error.
\<close>

theorem invalid_operator_rejected_witness:
  "reads_as json_loads bad_operator_response
     [(''action'', JObj (summarize_with [sex_is_male, age_differs]))]
     (summarize_with [sex_is_male, age_differs]) ''summarize''
   \<and> well_formed_condition age_differs \<and> condition_operator age_differs \<notin> set valid_operators
   \<and> parse_llm_response json_loads bad_operator_response
       = (JNull, JNull, JNull, Some ''Invalid filter operator: !='')
   \<and> \<not> has_key [(''column'', JStr ''sex''), (''value'', JStr ''male'')] ''operator''
   \<and> condition_operator sex_is_male = JStr ''==''"
proof -
  note t = invalid_operator_rejected [where loads = json_loads and resp = bad_operator_response
      and p = "[(''action'', JObj (summarize_with [sex_is_male, age_differs]))]"
      and a = "summarize_with [sex_is_male, age_differs]" and ty = "''summarize''"
      and pre = "[sex_is_male]" and c = age_differs and post = "[]"
      and conds = "[sex_is_male, age_differs]"
      and d = "[(''column'', JStr ''sex''), (''value'', JStr ''male'')]" and rest = "[]"
      and pd = ex_pandas and h = "[people]" and r = 0]
  have "parse_llm_response json_loads bad_operator_response
       = (JNull, JNull, JNull, Some (''Invalid filter operator: '' @ py_str (condition_operator age_differs)))"
    using t ex_bad_operator_reads ex_bad_operator_conditions(1-4) by blast
  then have p: "parse_llm_response json_loads bad_operator_response
       = (JNull, JNull, JNull, Some ''Invalid filter operator: !='')"
    by (simp add: ex_bad_operator_conditions(5))
  have "condition_operator (JObj [(''column'', JStr ''sex''), (''value'', JStr ''male'')]) = JStr ''==''"
    using t ex_bad_operator_conditions(6) by blast
  then have d: "condition_operator sex_is_male = JStr ''==''"
    by (simp add: sex_is_male_def)
  show ?thesis
    using ex_bad_operator_reads ex_bad_operator_conditions(3,4,6) p d by blast
qed

text \<open>
  Claim C6 as stated fails: the only condition of this response has the operator \<^verbatim>\<open>!=\<close>,
  and the error is the one of the structural check before it, because the condition has
  no value.
\<close>

theorem invalid_operator_not_always_named:
  "reads_as json_loads no_value_response
     [(''action'', JObj (summarize_with [age_differs_no_value]))]
     (summarize_with [age_differs_no_value]) ''summarize''
   \<and> condition_operator age_differs_no_value = JStr ''!=''
   \<and> JStr ''!='' \<notin> set valid_operators
   \<and> parse_llm_response json_loads no_value_response
       = (JNull, JNull, JNull,
          Some (''Filter condition missing '' @ sq @ ''column'' @ sq @ '' or '' @ sq @ ''value''
                @ sq @ '' parameter.''))
   \<and> parse_llm_response json_loads no_value_response
       \<noteq> (JNull, JNull, JNull, Some ''Invalid filter operator: !='')"
  by code_simp

subsection \<open>The dispatch and the summary\<close>

lemma check_type_summarize: "check_type ''summarize'' a = None"
  by (simp add: check_type_def)

lemma prepare_summarize_heap: "fst (prepare_summarize h r action) = h"
  by (auto simp: prepare_summarize_def split: sum.splits option.splits)

lemma prepare_summarize_cases:
  "snd (prepare_summarize h r action) = (Some r, None)
   \<or> (\<exists>m. m \<noteq> [] \<and> snd (prepare_summarize h r action) = (None, Some m))"
  by (auto simp: prepare_summarize_def preparing_error_def split: sum.splits option.splits
      dest: first_missing_nonempty)

lemma dispatch_mixed_case:
  assumes ty: "map_of action ''type'' = Some (JStr ty)" and low: "str_lower ty = ''summarize''"
    and ne: "ty \<noteq> ''summarize''"
  shows "dispatch pd px h r action description
     = (h, Returns (ShowError (case snd (snd (prepare_summarize h r action)) of
                                 Some m \<Rightarrow> m | None \<Rightarrow> not_supported_summarize)))"
proof -
  have g: "get_action_type action = Returns ''summarize''"
    using ty low by (simp add: get_action_type_def dict_get_def)
  have p: "prepare_data_for_visualization pd h r action
      = (h, Returns (snd (prepare_summarize h r action)))"
  proof -
    obtain res where "prepare_summarize h r action = (h, res)"
      using prepare_summarize_heap [of h r action] by (cases "prepare_summarize h r action") auto
    then show ?thesis using g by (simp add: prepare_data_for_visualization_def)
  qed
  have v: "generate_visualization pd px d action description = Returns (None, Some not_supported_summarize)"
    for d
    using g by (simp add: generate_visualization_def not_supported_summarize_def)
  have n: "is_error (Some not_supported_summarize)"
    by (simp add: is_error_def not_supported_summarize_def)
  from prepare_summarize_cases [of h r action] show ?thesis
  proof
    assume ok: "snd (prepare_summarize h r action) = (Some r, None)"
    then show ?thesis
      using ty ne p v n by (simp add: dispatch_def is_error_def error_text_def)
  next
    assume "\<exists>m. m \<noteq> [] \<and> snd (prepare_summarize h r action) = (None, Some m)"
    then obtain m where "m \<noteq> []" "snd (prepare_summarize h r action) = (None, Some m)" by blast
    then show ?thesis
      using ty ne p by (simp add: dispatch_def is_error_def error_text_def)
  qed
qed

lemma summary_cases:
  "(\<exists>s. generate_summary_statistics pd df action = (Some s, None))
   \<or> (\<exists>m. m \<noteq> [] \<and> generate_summary_statistics pd df action = (None, Some m))"
  by (auto simp: generate_summary_statistics_def split: sum.splits)

lemma dispatch_summarize:
  assumes "map_of action ''type'' = Some (JStr ''summarize'')"
  shows "dispatch pd px h r action description
     = (h, Returns (case generate_summary_statistics pd (h ! r) action of
                      (s, None) \<Rightarrow> ShowSummary s description
                    | (s, Some m) \<Rightarrow> ShowError m))"
  using assms summary_cases [of pd "h ! r" action]
  by (auto simp: dispatch_def is_error_def error_text_def)

text \<open>
  Claim C9. The parser lowers the type before its checks, so a response whose action has
  a type that lowers to \<^verbatim>\<open>summarize\<close> and whose filter passes is accepted, and the action
  is returned as it was read, the casing of its type included. The dispatcher compares
  the type with the exact string \<^verbatim>\<open>summarize\<close>: an action whose type only lowers to it goes
  through the preparation of the data and the chart producer, never to the summary
  producer, and the page shows an error, that of a requested column that is missing or
  "Visualization type 'summarize' not supported."; the action with the exact type goes to
  the summary producer.
\<close>

theorem mixed_case_summarize_routed_to_charts:
  "(reads_as loads resp p a ty \<and> str_lower ty = ''summarize''
      \<and> check_filter (dict_get a ''filter'' JNull) = None
    \<longrightarrow> parse_llm_response loads resp
          = (JObj a, dict_get p ''description'' (JStr ''No description provided.''),
             dict_get a ''filter'' JNull, None)
        \<and> dict_get a ''type'' (JStr []) = JStr ty)
   \<and> (map_of action ''type'' = Some (JStr ty) \<and> str_lower ty = ''summarize'' \<and> ty \<noteq> ''summarize''
    \<longrightarrow> dispatch pd px h r action description
          = (h, Returns (ShowError (case snd (snd (prepare_summarize h r action)) of
                                      Some m \<Rightarrow> m | None \<Rightarrow> not_supported_summarize))))
   \<and> (map_of action ''type'' = Some (JStr ''summarize'')
    \<longrightarrow> dispatch pd px h r action description
          = (h, Returns (case generate_summary_statistics pd (h ! r) action of
                           (s, None) \<Rightarrow> ShowSummary s description
                         | (s, Some m) \<Rightarrow> ShowError m)))"
proof (intro conjI impI)
  assume a: "reads_as loads resp p a ty \<and> str_lower ty = ''summarize''
      \<and> check_filter (dict_get a ''filter'' JNull) = None"
  then show "parse_llm_response loads resp
          = (JObj a, dict_get p ''description'' (JStr ''No description provided.''),
             dict_get a ''filter'' JNull, None)"
    using interpret_with_filter [of loads resp p a ty] by (simp add: check_type_summarize)
  from a show "dict_get a ''type'' (JStr []) = JStr ty" by (simp add: reads_as_def)
next
  assume "map_of action ''type'' = Some (JStr ty) \<and> str_lower ty = ''summarize'' \<and> ty \<noteq> ''summarize''"
  then show "dispatch pd px h r action description
          = (h, Returns (ShowError (case snd (snd (prepare_summarize h r action)) of
                                      Some m \<Rightarrow> m | None \<Rightarrow> not_supported_summarize)))"
    using dispatch_mixed_case [of action ty pd px h r description] by blast
next
  assume "map_of action ''type'' = Some (JStr ''summarize'')"
  then show "dispatch pd px h r action description
          = (h, Returns (case generate_summary_statistics pd (h ! r) action of
                           (s, None) \<Rightarrow> ShowSummary s description
                         | (s, Some m) \<Rightarrow> ShowError m))"
    by (rule dispatch_summarize)
qed

lemma ex_mixed_case:
  "reads_as json_loads mixed_case_response [(''action'', JObj mixed_case_action)]
     mixed_case_action ''Summarize''"
  "str_lower ''Summarize'' = ''summarize''"
  "check_filter (dict_get mixed_case_action ''filter'' JNull) = None"
  "map_of mixed_case_action ''type'' = Some (JStr ''Summarize'')"
  "''Summarize'' \<noteq> ''summarize''"
  "snd (snd (prepare_summarize [people] 0 mixed_case_action)) = None"
  "dict_get [(''action'', JObj mixed_case_action)] ''description'' (JStr ''No description provided.'')
     = JStr ''No description provided.''"
  "dict_get mixed_case_action ''filter'' JNull = JNull"
  by code_simp+

text \<open>
  The response with the type \<^verbatim>\<open>Summarize\<close> is accepted with its casing, and the action run
  on the dataset ends in the error of the chart producer.
\<close>

theorem mixed_case_summarize_routed_to_charts_witness:
  "reads_as json_loads mixed_case_response [(''action'', JObj mixed_case_action)]
     mixed_case_action ''Summarize''
   \<and> str_lower ''Summarize'' = ''summarize'' \<and> ''Summarize'' \<noteq> ''summarize''
   \<and> parse_llm_response json_loads mixed_case_response
       = (JObj [(''type'', JStr ''Summarize'')], JStr ''No description provided.'', JNull, None)
   \<and> dispatch ex_pandas ex_px [people] 0 mixed_case_action (JStr ''No description provided.'')
       = ([people], Returns (ShowError not_supported_summarize))"
proof -
  note t = mixed_case_summarize_routed_to_charts [where loads = json_loads
      and resp = mixed_case_response and p = "[(''action'', JObj mixed_case_action)]"
      and a = mixed_case_action and ty = "''Summarize''" and action = mixed_case_action
      and pd = ex_pandas and px = ex_px and h = "[people]" and r = 0
      and description = "JStr ''No description provided.''"]
  have "parse_llm_response json_loads mixed_case_response
       = (JObj mixed_case_action,
          dict_get [(''action'', JObj mixed_case_action)] ''description'' (JStr ''No description provided.''),
          dict_get mixed_case_action ''filter'' JNull, None)"
    using t ex_mixed_case(1,2,3) by blast
  then have p: "parse_llm_response json_loads mixed_case_response
       = (JObj [(''type'', JStr ''Summarize'')], JStr ''No description provided.'', JNull, None)"
    unfolding ex_mixed_case(7,8) unfolding mixed_case_action_def .
  have "dispatch ex_pandas ex_px [people] 0 mixed_case_action (JStr ''No description provided.'')
       = ([people], Returns (ShowError (case snd (snd (prepare_summarize [people] 0 mixed_case_action)) of
                                      Some m \<Rightarrow> m | None \<Rightarrow> not_supported_summarize)))"
    using t ex_mixed_case(2,4,5) by blast
  then have d: "dispatch ex_pandas ex_px [people] 0 mixed_case_action (JStr ''No description provided.'')
       = ([people], Returns (ShowError not_supported_summarize))"
    by (simp add: ex_mixed_case(6))
  show ?thesis using ex_mixed_case(1,2,5) p d by blast
qed

lemma summary_data_strings:
  "summary_data pd df (map JStr names)
     = Inr (map (summary_row pd df) (filter (\<lambda>c. c \<in> set (column_names df)) names))"
  by (induction names) (auto simp: py_str_def)

lemma first_missing_strings:
  "\<exists>c\<in>set names. c \<notin> set (column_names df) \<Longrightarrow>
     \<exists>c\<in>set names. c \<notin> set (column_names df)
        \<and> first_missing df (map JStr names)
            = Inr (Some (''Column '' @ sq @ c @ sq
                         @ '' specified for summary not found in the dataset.''))"
proof (induction names)
  case Nil
  then show ?case by simp
next
  case (Cons n names)
  show ?case
  proof (cases "n \<in> set (column_names df)")
    case True
    with Cons.prems have "\<exists>c\<in>set names. c \<notin> set (column_names df)" by auto
    from Cons.IH [OF this] True show ?thesis by auto
  next
    case False
    then show ?thesis by (auto simp: py_str_def)
  qed
qed

text \<open>
  Claim C8. For a summarize action whose requested columns are a list of names (or are
  left out, which requests every column), \<^verbatim>\<open>generate_summary_statistics\<close> returns, with
  no error, one row for each requested name that is a column of the frame, in the order
  of the request; a requested name that is not a column adds no row and no error. The
  validation stage is strict on the same action: when a requested name is not a column,
  \<^verbatim>\<open>prepare_data_for_visualization\<close> returns no frame and an error that names it.
\<close>

theorem summary_skips_absent_columns:
  "dict_get action ''columns'' (JArr (map JStr (column_names (h ! r)))) = JArr (map JStr names)
   \<longrightarrow> generate_summary_statistics pd (h ! r) action
         = (Some (map (summary_row pd (h ! r))
                    (filter (\<lambda>c. c \<in> set (column_names (h ! r))) names)), None)
       \<and> ((\<exists>c\<in>set names. c \<notin> set (column_names (h ! r)))
          \<longrightarrow> (\<exists>c\<in>set names. c \<notin> set (column_names (h ! r))
                \<and> prepare_summarize h r action
                    = (h, None, Some (''Column '' @ sq @ c @ sq
                                      @ '' specified for summary not found in the dataset.''))))"
proof (intro impI conjI)
  assume a: "dict_get action ''columns'' (JArr (map JStr (column_names (h ! r)))) = JArr (map JStr names)"
  then show "generate_summary_statistics pd (h ! r) action
         = (Some (map (summary_row pd (h ! r))
                    (filter (\<lambda>c. c \<in> set (column_names (h ! r))) names)), None)"
    by (simp add: generate_summary_statistics_def summary_data_strings)
  assume "\<exists>c\<in>set names. c \<notin> set (column_names (h ! r))"
  from first_missing_strings [OF this] obtain c where
    "c \<in> set names" "c \<notin> set (column_names (h ! r))"
    "first_missing (h ! r) (map JStr names)
       = Inr (Some (''Column '' @ sq @ c @ sq @ '' specified for summary not found in the dataset.''))"
    by blast
  then show "\<exists>c\<in>set names. c \<notin> set (column_names (h ! r))
                \<and> prepare_summarize h r action
                    = (h, None, Some (''Column '' @ sq @ c @ sq
                                      @ '' specified for summary not found in the dataset.''))"
    using a by (auto simp: prepare_summarize_def)
qed

lemma ex_summary_of_three:
  "dict_get summary_of_three ''columns'' (JArr (map JStr (column_names ([people] ! 0))))
     = JArr (map JStr [''age'', ''height'', ''sex''])"
  "filter (\<lambda>c. c \<in> set (column_names ([people] ! 0))) [''age'', ''height'', ''sex''] = [''age'', ''sex'']"
  "''height'' \<notin> set (column_names ([people] ! 0))"
  by code_simp+

text \<open>
  Age, height and sex requested of the dataset, which has no height: the summary has the
  rows of age and sex and no error.
\<close>

theorem summary_skips_absent_columns_witness:
  "dict_get summary_of_three ''columns'' (JArr (map JStr (column_names ([people] ! 0))))
     = JArr (map JStr [''age'', ''height'', ''sex''])
   \<and> ''height'' \<notin> set (column_names ([people] ! 0))
   \<and> generate_summary_statistics ex_pandas ([people] ! 0) summary_of_three
       = (Some [summary_row ex_pandas ([people] ! 0) ''age'',
                summary_row ex_pandas ([people] ! 0) ''sex''], None)"
proof -
  note t = summary_skips_absent_columns [where action = summary_of_three and h = "[people]"
      and r = 0 and names = "[''age'', ''height'', ''sex'']" and pd = ex_pandas]
  have "generate_summary_statistics ex_pandas ([people] ! 0) summary_of_three
         = (Some (map (summary_row ex_pandas ([people] ! 0))
                    (filter (\<lambda>c. c \<in> set (column_names ([people] ! 0))) [''age'', ''height'', ''sex''])), None)"
    using t ex_summary_of_three(1) by blast
  then have "generate_summary_statistics ex_pandas ([people] ! 0) summary_of_three
       = (Some [summary_row ex_pandas ([people] ! 0) ''age'',
                summary_row ex_pandas ([people] ! 0) ''sex''], None)"
    by (simp only: ex_summary_of_three(2) list.map)
  with ex_summary_of_three(1,3) show ?thesis by blast
qed

subsection \<open>The validation of chart actions\<close>

lemma is_name_get: "is_name action k \<Longrightarrow> dict_get action k JNull = JStr (name_of action k)"
  by (auto simp: is_name_def name_of_def dict_get_def py_str_def split: option.splits json.splits)

lemma names_columnI: "m = u @ sq @ c @ sq @ v \<Longrightarrow> names_column m c"
  by (auto simp: names_column_def)

lemma not_found_names: "names_column (not_found (JStr c)) c"
  by (rule names_columnI [where u = "''Column ''" and v = "'' not found in the dataset.''"])
     (simp add: not_found_def py_str_def)

lemma coerce_numeric_total:
  assumes "coercions_total pd"
  shows "\<exists>h'. coerce_numeric pd h r c = Some h'"
proof -
  from assms have "to_numeric pd (get_series (h ! r) c) \<noteq> None"
    unfolding coercions_total_def by blast
  then show ?thesis by (auto simp: coerce_numeric_def Let_def split: option.splits)
qed

lemma coerce_datetime_total:
  assumes "coercions_total pd"
  shows "\<exists>h'. coerce_datetime pd h r c = Some h'"
proof -
  from assms have "to_datetime pd (get_series (h ! r) c) \<noteq> None"
    unfolding coercions_total_def by blast
  then show ?thesis by (auto simp: coerce_datetime_def Let_def split: option.splits)
qed

lemma histogram_claim:
  assumes "coercions_total pd" and "get_action_type action = Returns ''histogram''"
    and "is_name action ''column''"
  shows "chart_claim pd h r action"
proof -
  let ?c = "name_of action ''column''"
  have c: "dict_get action ''column'' JNull = JStr ?c" using assms(3) by (rule is_name_get)
  have refs: "referenced_columns action = [?c]" using assms(2) by (simp add: referenced_columns_def)
  show ?thesis
  proof (cases "?c \<in> set (column_names (h ! r))")
    case True
    obtain h' where "coerce_numeric pd h r ?c = Some h'"
      using coerce_numeric_total [OF assms(1), of h r ?c] by blast
    then have "prepared pd h r action = Returns (Some r, None)"
      using assms(2) c True
      by (simp add: prepared_def prepare_data_for_visualization_def prepare_histogram_def py_str_def)
    then show ?thesis using refs True by (simp add: chart_claim_def)
  next
    case False
    then have "prepared pd h r action = Returns (None, Some (not_found (JStr ?c)))"
      using assms(2) c
      by (simp add: prepared_def prepare_data_for_visualization_def prepare_histogram_def)
    then show ?thesis using refs False not_found_names [of ?c] by (simp add: chart_claim_def)
  qed
qed

lemma bar_claim:
  assumes "coercions_total pd" and "get_action_type action = Returns ''bar''"
    and "is_name action ''x''" and "has_key action ''y'' \<longrightarrow> is_name action ''y''"
  shows "chart_claim pd h r action"
proof -
  let ?x = "name_of action ''x''" and ?y = "name_of action ''y''"
  let ?cols = "set (column_names (h ! r))"
  have x: "dict_get action ''x'' JNull = JStr ?x" using assms(3) by (rule is_name_get)
  have p: "prepared pd h r action = Returns (snd (prepare_bar pd h r action))"
    using assms(2) by (simp add: prepared_def prepare_data_for_visualization_def split: prod.splits)
  show ?thesis
  proof (cases "truthy (dict_get action ''y'' JNull)")
    case False
    then have refs: "referenced_columns action = [?x]"
      using assms(2) by (simp add: referenced_columns_def)
    show ?thesis
    proof (cases "?x \<in> ?cols")
      case True
      then have "snd (prepare_bar pd h r action) = (Some r, None)"
        using x False by (simp add: prepare_bar_def)
      then show ?thesis using p refs True by (simp add: chart_claim_def)
    next
      case nx: False
      then have "snd (prepare_bar pd h r action) = (None, Some (not_found (JStr ?x)))"
        using x by (simp add: prepare_bar_def)
      then show ?thesis using p refs nx not_found_names [of ?x] by (simp add: chart_claim_def)
    qed
  next
    case True
    then have "has_key action ''y''" by (auto simp: dict_get_def has_key_def split: option.splits)
    with assms(4) have "is_name action ''y''" by simp
    then have y: "dict_get action ''y'' JNull = JStr ?y" by (rule is_name_get)
    have refs: "referenced_columns action = [?x, ?y]"
      using assms(2) True by (simp add: referenced_columns_def)
    show ?thesis
    proof (cases "?x \<in> ?cols")
      case nx: False
      then have "snd (prepare_bar pd h r action) = (None, Some (not_found (JStr ?x)))"
        using x by (simp add: prepare_bar_def)
      then show ?thesis using p refs nx not_found_names [of ?x] by (simp add: chart_claim_def)
    next
      case xin: True
      show ?thesis
      proof (cases "?y \<in> ?cols")
        case ny: False
        then have "snd (prepare_bar pd h r action) = (None, Some (not_found (JStr ?y)))"
          using x y xin True by (simp add: prepare_bar_def Let_def)
        then show ?thesis using p refs ny not_found_names [of ?y] by (simp add: chart_claim_def)
      next
        case yin: True
        obtain h' where "coerce_numeric pd h r ?y = Some h'"
          using coerce_numeric_total [OF assms(1), of h r ?y] by blast
        then have "snd (prepare_bar pd h r action) = (Some r, None)"
          using x y xin yin True by (simp add: prepare_bar_def Let_def py_str_def)
        then show ?thesis using p refs xin yin by (simp add: chart_claim_def)
      qed
    qed
  qed
qed

lemma sq_nonempty: "sq \<noteq> []"
  by (simp add: sq_def)

lemma missing_xy_present:
  "x \<in> set (column_names df) \<Longrightarrow> y \<in> set (column_names df) \<Longrightarrow>
     missing_xy df (JStr x) (JStr y) = Inr None"
  by (simp add: missing_xy_def)

lemma missing_xy_absent:
  assumes "x \<notin> set (column_names df) \<or> y \<notin> set (column_names df)"
  shows "\<exists>m. missing_xy df (JStr x) (JStr y) = Inr (Some m)
           \<and> (x \<notin> set (column_names df) \<longrightarrow> names_column m x)
           \<and> (y \<notin> set (column_names df) \<longrightarrow> names_column m y)"
proof -
  let ?end = "'' not found in the dataset.''"
  consider (both) "x \<notin> set (column_names df)" "y \<notin> set (column_names df)"
    | (x) "x \<notin> set (column_names df)" "y \<in> set (column_names df)"
    | (y) "x \<in> set (column_names df)" "y \<notin> set (column_names df)"
    using assms by blast
  then show ?thesis
  proof cases
    case both
    then have m: "missing_xy df (JStr x) (JStr y)
        = Inr (Some (''Columns '' @ sq @ x @ sq @ '' and '' @ sq @ y @ sq @ ?end))"
      by (simp add: missing_xy_def Let_def py_str_def sq_nonempty)
    have "names_column (''Columns '' @ sq @ x @ sq @ '' and '' @ sq @ y @ sq @ ?end) x"
      by (rule names_columnI [where u = "''Columns ''" and v = "'' and '' @ sq @ y @ sq @ ?end"]) simp
    moreover have "names_column (''Columns '' @ sq @ x @ sq @ '' and '' @ sq @ y @ sq @ ?end) y"
      by (rule names_columnI [where u = "''Columns '' @ sq @ x @ sq @ '' and ''" and v = ?end]) simp
    ultimately show ?thesis using m by blast
  next
    case x
    then have m: "missing_xy df (JStr x) (JStr y) = Inr (Some (''Columns '' @ sq @ x @ sq @ ?end))"
      by (simp add: missing_xy_def Let_def py_str_def sq_nonempty)
    have "names_column (''Columns '' @ sq @ x @ sq @ ?end) x"
      by (rule names_columnI [where u = "''Columns ''" and v = ?end]) simp
    then show ?thesis using m x by blast
  next
    case y
    then have m: "missing_xy df (JStr x) (JStr y) = Inr (Some (''Columns '' @ sq @ y @ sq @ ?end))"
      by (simp add: missing_xy_def Let_def py_str_def sq_nonempty)
    have "names_column (''Columns '' @ sq @ y @ sq @ ?end) y"
      by (rule names_columnI [where u = "''Columns ''" and v = ?end]) simp
    then show ?thesis using m y by blast
  qed
qed

lemma xy_claim:
  assumes "get_action_type action = Returns t" and "t = ''scatter'' \<or> t = ''line''"
    and "is_name action ''x''" and "is_name action ''y''"
    and absent: "\<And>m. missing_xy (h ! r) (dict_get action ''x'' JNull) (dict_get action ''y'' JNull)
          = Inr (Some m) \<Longrightarrow> prepared pd h r action = Returns (None, Some m)"
    and present: "missing_xy (h ! r) (dict_get action ''x'' JNull) (dict_get action ''y'' JNull)
          = Inr None \<Longrightarrow> prepared pd h r action = Returns (Some r, None)"
  shows "chart_claim pd h r action"
proof -
  let ?x = "name_of action ''x''" and ?y = "name_of action ''y''"
  let ?cols = "set (column_names (h ! r))"
  have x: "dict_get action ''x'' JNull = JStr ?x" using assms(3) by (rule is_name_get)
  have y: "dict_get action ''y'' JNull = JStr ?y" using assms(4) by (rule is_name_get)
  have refs: "referenced_columns action = [?x, ?y]"
    using assms(1,2) by (auto simp: referenced_columns_def)
  show ?thesis
  proof (cases "?x \<in> ?cols \<and> ?y \<in> ?cols")
    case True
    then have "prepared pd h r action = Returns (Some r, None)"
      using present missing_xy_present [of ?x "h ! r" ?y] x y by simp
    then show ?thesis using refs True by (simp add: chart_claim_def)
  next
    case False
    then have "?x \<notin> ?cols \<or> ?y \<notin> ?cols" by blast
    from missing_xy_absent [OF this] obtain m where
      m: "missing_xy (h ! r) (JStr ?x) (JStr ?y) = Inr (Some m)"
      and nx: "?x \<notin> ?cols \<longrightarrow> names_column m ?x" and ny: "?y \<notin> ?cols \<longrightarrow> names_column m ?y"
      by blast
    have "prepared pd h r action = Returns (None, Some m)" using absent m x y by simp
    then show ?thesis using refs False nx ny by (auto simp: chart_claim_def)
  qed
qed

lemma scatter_claim:
  assumes "coercions_total pd" and "get_action_type action = Returns ''scatter''"
    and "is_name action ''x''" and "is_name action ''y''"
  shows "chart_claim pd h r action"
proof (rule xy_claim [OF assms(2) _ assms(3,4)])
  show "''scatter'' = ''scatter'' \<or> ''scatter'' = ''line''" by simp
  have p: "prepared pd h r action = Returns (snd (prepare_scatter pd h r action))"
    using assms(2) by (simp add: prepared_def prepare_data_for_visualization_def split: prod.splits)
  fix m
  assume "missing_xy (h ! r) (dict_get action ''x'' JNull) (dict_get action ''y'' JNull) = Inr (Some m)"
  then show "prepared pd h r action = Returns (None, Some m)"
    using p by (simp add: prepare_scatter_def)
next
  have p: "prepared pd h r action = Returns (snd (prepare_scatter pd h r action))"
    using assms(2) by (simp add: prepared_def prepare_data_for_visualization_def split: prod.splits)
  assume a: "missing_xy (h ! r) (dict_get action ''x'' JNull) (dict_get action ''y'' JNull) = Inr None"
  obtain h1 where h1: "coerce_numeric pd h r (py_str (dict_get action ''x'' JNull)) = Some h1"
    using coerce_numeric_total [OF assms(1)] by blast
  obtain h2 where h2: "coerce_numeric pd h1 r (py_str (dict_get action ''y'' JNull)) = Some h2"
    using coerce_numeric_total [OF assms(1)] by blast
  show "prepared pd h r action = Returns (Some r, None)"
    using p a h1 h2 by (simp add: prepare_scatter_def)
qed

lemma line_claim:
  assumes "coercions_total pd" and "get_action_type action = Returns ''line''"
    and "is_name action ''x''" and "is_name action ''y''"
  shows "chart_claim pd h r action"
proof (rule xy_claim [OF assms(2) _ assms(3,4)])
  show "''line'' = ''scatter'' \<or> ''line'' = ''line''" by simp
  have p: "prepared pd h r action = Returns (snd (prepare_line pd h r action))"
    using assms(2) by (simp add: prepared_def prepare_data_for_visualization_def split: prod.splits)
  fix m
  assume "missing_xy (h ! r) (dict_get action ''x'' JNull) (dict_get action ''y'' JNull) = Inr (Some m)"
  then show "prepared pd h r action = Returns (None, Some m)"
    using p by (simp add: prepare_line_def)
next
  have p: "prepared pd h r action = Returns (snd (prepare_line pd h r action))"
    using assms(2) by (simp add: prepared_def prepare_data_for_visualization_def split: prod.splits)
  assume a: "missing_xy (h ! r) (dict_get action ''x'' JNull) (dict_get action ''y'' JNull) = Inr None"
  obtain h1 where h1: "coerce_datetime pd h r (py_str (dict_get action ''x'' JNull)) = Some h1"
    using coerce_datetime_total [OF assms(1)] by blast
  obtain h2 where h2: "coerce_numeric pd h1 r (py_str (dict_get action ''y'' JNull)) = Some h2"
    using coerce_numeric_total [OF assms(1)] by blast
  show "prepared pd h r action = Returns (Some r, None)"
    using p a h1 h2 by (simp add: prepare_line_def)
qed

text \<open>
  Claim C2. For a well-formed action of type histogram, bar, scatter or line, and a
  library whose coercions do not raise, \<^verbatim>\<open>prepare_data_for_visualization\<close> returns an error
  exactly when a referenced column is not in the frame; the error comes with no frame,
  and its message holds, between quotes, the name of a referenced column that is
  missing; when every referenced column is in the frame it returns the frame it was
  given, with no error.
\<close>

theorem prepare_error_iff_column_absent:
  "well_formed_chart_action action \<and> coercions_total pd \<longrightarrow>
     (\<exists>p e. prepared pd h r action = Returns (p, e)
        \<and> (e \<noteq> None \<longleftrightarrow> (\<exists>c\<in>set (referenced_columns action). c \<notin> set (column_names (h ! r))))
        \<and> (\<forall>m. e = Some m \<longrightarrow>
              p = None \<and> (\<exists>c\<in>set (referenced_columns action).
                             c \<notin> set (column_names (h ! r)) \<and> names_column m c))
        \<and> (e = None \<longrightarrow> p = Some r))"
proof
  assume a: "well_formed_chart_action action \<and> coercions_total pd"
  then obtain t where t: "get_action_type action = Returns t"
    by (auto simp: well_formed_chart_action_def split: outcome.splits)
  with a consider "t = ''histogram''" | "t = ''bar''" | "t = ''scatter''" | "t = ''line''"
    by (auto simp: well_formed_chart_action_def split: if_splits)
  then have "chart_claim pd h r action"
  proof cases
    case 1
    with a t show ?thesis by (intro histogram_claim) (auto simp: well_formed_chart_action_def)
  next
    case 2
    with a t show ?thesis by (intro bar_claim) (auto simp: well_formed_chart_action_def)
  next
    case 3
    with a t show ?thesis by (intro scatter_claim) (auto simp: well_formed_chart_action_def)
  next
    case 4
    with a t show ?thesis by (intro line_claim) (auto simp: well_formed_chart_action_def)
  qed
  then show "\<exists>p e. prepared pd h r action = Returns (p, e)
        \<and> (e \<noteq> None \<longleftrightarrow> (\<exists>c\<in>set (referenced_columns action). c \<notin> set (column_names (h ! r))))
        \<and> (\<forall>m. e = Some m \<longrightarrow>
              p = None \<and> (\<exists>c\<in>set (referenced_columns action).
                             c \<notin> set (column_names (h ! r)) \<and> names_column m c))
        \<and> (e = None \<longrightarrow> p = Some r)"
    by (simp add: chart_claim_def)
qed

lemma ex_coercions_total: "coercions_total ex_pandas"
  by (simp add: coercions_total_def ex_pandas_def ex_to_numeric_def ex_to_datetime_def Let_def)

lemma ex_chart_actions:
  "well_formed_chart_action histogram_of_score"
  "referenced_columns histogram_of_score = [''score'']"
  "''score'' \<in> set (column_names ([people] ! 0))"
  "well_formed_chart_action scatter_height_age"
  "referenced_columns scatter_height_age = [''height'', ''age'']"
  "''height'' \<notin> set (column_names ([people] ! 0))"
  "''age'' \<in> set (column_names ([people] ! 0))"
  by code_simp+

lemma ex_prepare_scatter:
  "prepared ex_pandas [people] 0 scatter_height_age
     = Returns (None, Some (''Columns '' @ sq @ ''height'' @ sq @ '' not found in the dataset.''))"
  by code_simp

text \<open>
  The histogram of the scores, whose column is in the dataset, is prepared with no error;
  the scatter plot of height and age is refused with a message that names the height.
\<close>

theorem prepare_error_iff_column_absent_witness:
  "well_formed_chart_action histogram_of_score \<and> coercions_total ex_pandas
   \<and> prepared ex_pandas [people] 0 histogram_of_score = Returns (Some 0, None)
   \<and> well_formed_chart_action scatter_height_age
   \<and> ''height'' \<in> set (referenced_columns scatter_height_age)
   \<and> ''height'' \<notin> set (column_names ([people] ! 0))
   \<and> prepared ex_pandas [people] 0 scatter_height_age
       = Returns (None, Some (''Columns '' @ sq @ ''height'' @ sq @ '' not found in the dataset.''))
   \<and> names_column (''Columns '' @ sq @ ''height'' @ sq @ '' not found in the dataset.'') ''height''"
proof -
  from prepare_error_iff_column_absent [of histogram_of_score ex_pandas "[people]" 0]
    ex_chart_actions(1) ex_coercions_total
  obtain p e where pe: "prepared ex_pandas [people] 0 histogram_of_score = Returns (p, e)"
    and iff: "e \<noteq> None \<longleftrightarrow> (\<exists>c\<in>set (referenced_columns histogram_of_score).
                 c \<notin> set (column_names ([people] ! 0)))"
    and ok: "e = None \<longrightarrow> p = Some 0"
    by blast
  have "e = None" using iff ex_chart_actions(2,3) by simp
  with ok pe have h: "prepared ex_pandas [people] 0 histogram_of_score = Returns (Some 0, None)"
    by simp
  from prepare_error_iff_column_absent [of scatter_height_age ex_pandas "[people]" 0]
    ex_chart_actions(4) ex_coercions_total
  obtain p' e' where pe': "prepared ex_pandas [people] 0 scatter_height_age = Returns (p', e')"
    and named: "\<forall>m. e' = Some m \<longrightarrow> p' = None
        \<and> (\<exists>c\<in>set (referenced_columns scatter_height_age).
              c \<notin> set (column_names ([people] ! 0)) \<and> names_column m c)"
    by blast
  from pe' ex_prepare_scatter
  have "e' = Some (''Columns '' @ sq @ ''height'' @ sq @ '' not found in the dataset.'')" by simp
  with named obtain c where "c \<in> set (referenced_columns scatter_height_age)"
    "c \<notin> set (column_names ([people] ! 0))"
    "names_column (''Columns '' @ sq @ ''height'' @ sq @ '' not found in the dataset.'') c"
    by blast
  then have n: "names_column (''Columns '' @ sq @ ''height'' @ sq @ '' not found in the dataset.'') ''height''"
    using ex_chart_actions(5,7) by auto
  show ?thesis
    using ex_chart_actions(1,4,5,6) ex_coercions_total h ex_prepare_scatter n by simp
qed

subsection \<open>The manual action builder\<close>

lemma builder_histogram:
  assumes "selectbox st ''Visualization Type'' viz_types = Some ''histogram''"
  shows "\<exists>action description. create_action_from_ui st pd df = (Some action, Some description)
           \<and> map_of action ''type'' = Some (JStr ''histogram'') \<and> has_required_parameters action"
  using assms
  by (simp add: create_action_from_ui_def Let_def opt_json_def has_required_parameters_def has_key_def)

lemma builder_bar:
  assumes "selectbox st ''Visualization Type'' viz_types = Some ''bar''"
  shows "\<exists>action description. create_action_from_ui st pd df = (Some action, Some description)
           \<and> map_of action ''type'' = Some (JStr ''bar'') \<and> has_required_parameters action"
  using assms
  by (simp add: create_action_from_ui_def Let_def opt_json_def has_required_parameters_def has_key_def)

lemma builder_summarize:
  assumes "selectbox st ''Visualization Type'' viz_types = Some ''summarize''"
  shows "\<exists>action description. create_action_from_ui st pd df = (Some action, Some description)
           \<and> map_of action ''type'' = Some (JStr ''summarize'') \<and> has_required_parameters action"
  using assms
  by (simp add: create_action_from_ui_def Let_def opt_json_def has_required_parameters_def has_key_def)

lemma builder_scatter:
  assumes "selectbox st ''Visualization Type'' viz_types = Some ''scatter''"
  shows "(length (numeric_columns df) < 2 \<longrightarrow> create_action_from_ui st pd df = (None, None))
     \<and> (\<not> length (numeric_columns df) < 2 \<longrightarrow>
          (\<exists>action description. create_action_from_ui st pd df = (Some action, Some description)
           \<and> map_of action ''type'' = Some (JStr ''scatter'') \<and> has_required_parameters action))"
  using assms
  by (simp add: create_action_from_ui_def Let_def opt_json_def has_required_parameters_def has_key_def)

lemma builder_line:
  assumes "selectbox st ''Visualization Type'' viz_types = Some ''line''"
  shows "(numeric_columns df = [] \<longrightarrow> create_action_from_ui st pd df = (None, None))
     \<and> (numeric_columns df \<noteq> [] \<longrightarrow>
          (\<exists>action description. create_action_from_ui st pd df = (Some action, Some description)
           \<and> map_of action ''type'' = Some (JStr ''line'') \<and> has_required_parameters action))"
  using assms
  by (simp add: create_action_from_ui_def Let_def opt_json_def has_required_parameters_def has_key_def)

lemma builder_claim_action:
  assumes "res = (Some action, Some description)" and "map_of action ''type'' = Some (JStr v)"
    and "has_required_parameters action" and "\<not> cond"
  shows "(res = (None, None) \<longleftrightarrow> cond)
     \<and> (res \<noteq> (None, None) \<longrightarrow>
          (\<exists>action description. res = (Some action, Some description)
             \<and> map_of action ''type'' = Some (JStr v) \<and> has_required_parameters action))"
  using assms by blast

lemma builder_claim_none:
  assumes "res = (None, None)" and "cond"
  shows "(res = (None, None) \<longleftrightarrow> cond)
     \<and> (res \<noteq> (None, None) \<longrightarrow>
          (\<exists>action description. res = (Some action, Some description)
             \<and> map_of action ''type'' = Some (JStr v) \<and> has_required_parameters action))"
  using assms by blast

text \<open>
  Claim C7, as the code has it. When the type chosen is one of the five, the builder
  returns \<^verbatim>\<open>(None, None)\<close> exactly when the type is scatter and the dataset has fewer than
  two numeric columns, or the type is line and the dataset has no numeric column; a
  time-like column is not required, the choice of \<^verbatim>\<open>x\<close> falls back to all the columns.
  In every other case it returns an action of the chosen type with its required
  parameters, and a description.
\<close>

theorem builder_none_iff_too_few_numeric:
  "selectbox st ''Visualization Type'' viz_types = Some v \<and> v \<in> set viz_types \<longrightarrow>
     (create_action_from_ui st pd df = (None, None)
        \<longleftrightarrow> (v = ''scatter'' \<and> length (numeric_columns df) < 2)
            \<or> (v = ''line'' \<and> numeric_columns df = []))
     \<and> (create_action_from_ui st pd df \<noteq> (None, None) \<longrightarrow>
          (\<exists>action description. create_action_from_ui st pd df = (Some action, Some description)
             \<and> map_of action ''type'' = Some (JStr v) \<and> has_required_parameters action))"
proof
  assume a: "selectbox st ''Visualization Type'' viz_types = Some v \<and> v \<in> set viz_types"
  let ?cond = "(v = ''scatter'' \<and> length (numeric_columns df) < 2)
            \<or> (v = ''line'' \<and> numeric_columns df = [])"
  let ?goal = "(create_action_from_ui st pd df = (None, None) \<longleftrightarrow> ?cond)
     \<and> (create_action_from_ui st pd df \<noteq> (None, None) \<longrightarrow>
          (\<exists>action description. create_action_from_ui st pd df = (Some action, Some description)
             \<and> map_of action ''type'' = Some (JStr v) \<and> has_required_parameters action))"
  from a have "v = ''histogram'' \<or> v = ''bar'' \<or> v = ''scatter'' \<or> v = ''line'' \<or> v = ''summarize''"
    by (simp add: viz_types_def)
  then consider (histogram) "v = ''histogram''" | (bar) "v = ''bar''" | (scatter) "v = ''scatter''"
    | (line) "v = ''line''" | (summarize) "v = ''summarize''"
    by blast
  then show ?goal
  proof cases
    case histogram
    with a have s: "selectbox st ''Visualization Type'' viz_types = Some ''histogram''" by simp
    from builder_histogram [OF s, of pd df] obtain action description where
      "create_action_from_ui st pd df = (Some action, Some description)"
      "map_of action ''type'' = Some (JStr v)" "has_required_parameters action"
      using histogram by blast
    moreover have "\<not> ?cond" using histogram by simp
    ultimately show ?goal by (rule builder_claim_action)
  next
    case bar
    with a have s: "selectbox st ''Visualization Type'' viz_types = Some ''bar''" by simp
    from builder_bar [OF s, of pd df] obtain action description where
      "create_action_from_ui st pd df = (Some action, Some description)"
      "map_of action ''type'' = Some (JStr v)" "has_required_parameters action"
      using bar by blast
    moreover have "\<not> ?cond" using bar by simp
    ultimately show ?goal by (rule builder_claim_action)
  next
    case summarize
    with a have s: "selectbox st ''Visualization Type'' viz_types = Some ''summarize''" by simp
    from builder_summarize [OF s, of pd df] obtain action description where
      "create_action_from_ui st pd df = (Some action, Some description)"
      "map_of action ''type'' = Some (JStr v)" "has_required_parameters action"
      using summarize by blast
    moreover have "\<not> ?cond" using summarize by simp
    ultimately show ?goal by (rule builder_claim_action)
  next
    case scatter
    with a have s: "selectbox st ''Visualization Type'' viz_types = Some ''scatter''" by simp
    note b = builder_scatter [OF s, of df pd]
    show ?goal
    proof (cases "length (numeric_columns df) < 2")
      case True
      with b have "create_action_from_ui st pd df = (None, None)" by blast
      moreover have ?cond using scatter True by simp
      ultimately show ?goal by (rule builder_claim_none)
    next
      case False
      with b obtain action description where
        "create_action_from_ui st pd df = (Some action, Some description)"
        "map_of action ''type'' = Some (JStr v)" "has_required_parameters action"
        using scatter by blast
      moreover have "\<not> ?cond" using scatter False by simp
      ultimately show ?goal by (rule builder_claim_action)
    qed
  next
    case line
    with a have s: "selectbox st ''Visualization Type'' viz_types = Some ''line''" by simp
    note b = builder_line [OF s, of df pd]
    show ?goal
    proof (cases "numeric_columns df = []")
      case True
      with b have "create_action_from_ui st pd df = (None, None)" by blast
      moreover have ?cond using line True by simp
      ultimately show ?goal by (rule builder_claim_none)
    next
      case False
      with b obtain action description where
        "create_action_from_ui st pd df = (Some action, Some description)"
        "map_of action ''type'' = Some (JStr v)" "has_required_parameters action"
        using line by blast
      moreover have "\<not> ?cond" using line False by simp
      ultimately show ?goal by (rule builder_claim_action)
    qed
  qed
qed

lemma ex_builder:
  "selectbox (leaves_defaults ''scatter'') ''Visualization Type'' viz_types = Some ''scatter''"
  "''scatter'' \<in> set viz_types"
  "length (numeric_columns people) < 2"
  by code_simp+

text \<open>A scatter plot asked of the dataset, which has one numeric column: no action.\<close>

theorem builder_none_iff_too_few_numeric_witness:
  "selectbox (leaves_defaults ''scatter'') ''Visualization Type'' viz_types = Some ''scatter''
   \<and> ''scatter'' \<in> set viz_types \<and> length (numeric_columns people) < 2
   \<and> create_action_from_ui (leaves_defaults ''scatter'') ex_pandas people = (None, None)"
  using builder_none_iff_too_few_numeric [of "leaves_defaults ''scatter''" "''scatter''" ex_pandas people]
    ex_builder
  by blast

text \<open>
  Claim C7 as stated fails for a line chart: the dataset has a numeric column and no
  time-like column, and the builder returns an action, with the first column as \<^verbatim>\<open>x\<close>.
\<close>

theorem line_needs_no_time_column:
  "numeric_columns people = [''age''] \<and> detect_time_columns ex_pandas people = []
   \<and> create_action_from_ui (leaves_defaults ''line'') ex_pandas people
       = (Some [(''type'', JStr ''line''), (''x'', JStr ''sex''), (''y'', JStr ''age'')],
          Some ''Line chart showing age over sex'')"
  by code_simp

subsection \<open>The filter loop\<close>

lemma select_rows_map:
  "map fst (filter snd (zip xs (map p xs))) = filter p xs"
  by (induction xs) auto

lemma select_rows_filter: "select_rows (map q (rows df)) df = df\<lparr>rows := filter q (rows df)\<rparr>"
  by (simp add: select_rows_def select_rows_map)

lemma filter_condition_parts:
  assumes "filter_condition c"
  obtains d col v op where "c = JObj d" "map_of d ''column'' = Some (JStr col)"
    "map_of d ''value'' = Some v" "dict_get d ''operator'' (JStr ''=='') = JStr op"
    "op \<in> set filter_operators"
    "condition_column c = col" "condition_value c = v" "operator_name c = op"
proof -
  from assms obtain d where d: "c = JObj d" and n: "is_name d ''column''"
    and v: "has_key d ''value''" and o: "dict_get d ''operator'' (JStr ''=='') \<in> set valid_operators"
    by (auto simp: filter_condition_def split: json.splits)
  have 1: "map_of d ''column'' = Some (JStr (condition_column c))"
    using n d by (auto simp: is_name_def condition_column_def name_of_def dict_get_def py_str_def
        split: option.splits json.splits)
  have 2: "map_of d ''value'' = Some (condition_value c)"
    using v d by (auto simp: has_key_def condition_value_def dict_get_def)
  from o obtain op where op: "dict_get d ''operator'' (JStr ''=='') = JStr op" "op \<in> set filter_operators"
    by (auto simp: valid_operators_def filter_operators_def)
  then have 3: "operator_name c = op"
    using d by (simp add: operator_name_def condition_operator_def py_str_def)
  from d 1 2 op 3 show ?thesis using that by blast
qed

lemma filter_step_present:
  assumes "filter_condition c" and "condition_column c \<in> set (column_names (h ! r))"
  shows "filter_loop pd h r (c # rest) =
     (case compare pd (operator_name c) (get_series (h ! r) (condition_column c)) (condition_value c) of
        Inl e \<Rightarrow> (h, Returns (Inl (''Error applying filter: '' @ e)))
      | Inr m \<Rightarrow> filter_loop pd (h @ [select_rows m (h ! r)]) (length h) rest)"
proof -
  from assms(1) obtain d col v op where d: "c = JObj d" "map_of d ''column'' = Some (JStr col)"
    "map_of d ''value'' = Some v" "dict_get d ''operator'' (JStr ''=='') = JStr op"
    "op \<in> set filter_operators"
    and e: "condition_column c = col" "condition_value c = v" "operator_name c = op"
    by (rule filter_condition_parts)
  have "col \<in> set (column_names (h ! r))" using assms(2) e(1) by simp
  then have "filter_loop pd h r (JObj d # rest) =
     (case compare pd op (get_series (h ! r) col) v of
        Inl e \<Rightarrow> (h, Returns (Inl (''Error applying filter: '' @ e)))
      | Inr m \<Rightarrow> filter_loop pd (h @ [select_rows m (h ! r)]) (length h) rest)"
    using d(2-5) by (simp add: apply_operator_def py_str_def split: sum.splits)
  then show ?thesis unfolding e using d(1) by simp
qed

lemma filter_step_absent:
  assumes "filter_condition c" and "condition_column c \<notin> set (column_names (h ! r))"
  shows "filter_loop pd h r (c # rest) = (h, Returns (Inl (column_missing (condition_column c))))"
proof -
  from assms(1) obtain d col v op where d: "c = JObj d" "map_of d ''column'' = Some (JStr col)"
    "map_of d ''value'' = Some v" "dict_get d ''operator'' (JStr ''=='') = JStr op"
    "op \<in> set filter_operators"
    and e: "condition_column c = col" "condition_value c = v" "operator_name c = op"
    by (rule filter_condition_parts)
  have "col \<notin> set (column_names (h ! r))" using assms(2) e(1) by simp
  then have "filter_loop pd h r (JObj d # rest) = (h, Returns (Inl (column_missing col)))"
    using d(2-5) by (simp add: column_missing_def py_str_def)
  then show ?thesis unfolding e using d(1) by simp
qed

lemma nth_append_new: "(h @ [x]) ! length h = x"
  by simp

lemma filter_step_mask:
  assumes "elementwise pd sat"
    and "compare pd (operator_name c) (get_series df (condition_column c)) (condition_value c) = Inr m"
  shows "select_rows m df = df\<lparr>rows := filter (\<lambda>row. satisfies sat df row c) (rows df)\<rparr>"
proof -
  let ?i = "index_of (condition_column c) (column_names df)"
  from assms have "m = map (\<lambda>x. sat (operator_name c) x (condition_value c))
      (snd (get_series df (condition_column c)))"
    unfolding elementwise_def by blast
  then have "m = map (\<lambda>row. satisfies sat df row c) (rows df)"
    by (simp add: get_series_def Let_def satisfies_def)
  then show ?thesis by (simp only: select_rows_filter)
qed

lemma filter_loop_rows:
  assumes "elementwise pd sat" and "\<forall>c\<in>set conds. filter_condition c"
    and "filter_loop pd h r conds = (h', Returns (Inr r'))"
  shows "columns (h' ! r') = columns (h ! r)
     \<and> rows (h' ! r') = filter (\<lambda>row. \<forall>c\<in>set conds. satisfies sat (h ! r) row c) (rows (h ! r))
     \<and> (\<forall>c\<in>set conds. condition_column c \<in> set (column_names (h ! r)))"
  using assms(2,3)
proof (induction conds arbitrary: h r)
  case Nil
  then show ?case by simp
next
  case (Cons c conds)
  from Cons.prems(1) have fc: "filter_condition c" and rest: "\<forall>c\<in>set conds. filter_condition c"
    by simp_all
  have present: "condition_column c \<in> set (column_names (h ! r))"
  proof (rule ccontr)
    assume "condition_column c \<notin> set (column_names (h ! r))"
    from filter_step_absent [OF fc this] Cons.prems(2) show False by simp
  qed
  let ?cmp = "compare pd (operator_name c) (get_series (h ! r) (condition_column c)) (condition_value c)"
  from filter_step_present [OF fc present, of pd conds] Cons.prems(2)
  obtain m where m: "?cmp = Inr m"
    and loop: "filter_loop pd (h @ [select_rows m (h ! r)]) (length h) conds = (h', Returns (Inr r'))"
    by (cases ?cmp) auto
  let ?df1 = "select_rows m (h ! r)"
  have df1: "?df1 = (h ! r)\<lparr>rows := filter (\<lambda>row. satisfies sat (h ! r) row c) (rows (h ! r))\<rparr>"
    using assms(1) m by (rule filter_step_mask)
  have cols1: "column_names ?df1 = column_names (h ! r)" by (simp add: df1 column_names_def)
  have sat1: "satisfies sat ?df1 row x = satisfies sat (h ! r) row x" for row x
    by (simp add: satisfies_def cols1)
  from Cons.IH [OF rest loop]
  have ih: "columns (h' ! r') = columns ?df1"
    "rows (h' ! r') = filter (\<lambda>row. \<forall>c\<in>set conds. satisfies sat ?df1 row c) (rows ?df1)"
    "\<forall>c\<in>set conds. condition_column c \<in> set (column_names ?df1)"
    unfolding nth_append_new by blast+
  have "columns (h' ! r') = columns (h ! r)" using ih(1) by (simp add: df1)
  moreover have "rows (h' ! r')
      = filter (\<lambda>row. \<forall>x\<in>set (c # conds). satisfies sat (h ! r) row x) (rows (h ! r))"
  proof -
    have "rows (h' ! r') = filter (\<lambda>row. \<forall>x\<in>set conds. satisfies sat (h ! r) row x)
        (filter (\<lambda>row. satisfies sat (h ! r) row c) (rows (h ! r)))"
      using ih(2) by (simp add: sat1) (simp add: df1)
    also have "\<dots> = filter (\<lambda>row. \<forall>x\<in>set (c # conds). satisfies sat (h ! r) row x) (rows (h ! r))"
      by (auto intro: filter_cong)
    finally show ?thesis .
  qed
  moreover have "\<forall>x\<in>set (c # conds). condition_column x \<in> set (column_names (h ! r))"
    using ih(3) present by (simp add: cols1)
  ultimately show ?case by blast
qed

lemma select_rows_names: "column_names (select_rows m df) = column_names df"
  by (simp add: select_rows_def column_names_def)

lemma filter_loop_outcomes:
  assumes "\<forall>c\<in>set conds. filter_condition c \<and> condition_column c \<in> set (column_names (h ! r))"
  shows "(\<exists>h' r'. filter_loop pd h r conds = (h', Returns (Inr r')))
     \<or> applying_error pd (filter_loop pd h r conds)"
  using assms
proof (induction conds arbitrary: h r)
  case Nil
  then show ?case by simp
next
  case (Cons c conds)
  then have fc: "filter_condition c" and present: "condition_column c \<in> set (column_names (h ! r))"
    by simp_all
  let ?cmp = "compare pd (operator_name c) (get_series (h ! r) (condition_column c)) (condition_value c)"
  note step = filter_step_present [OF fc present, of pd conds]
  show ?case
  proof (cases ?cmp)
    case (Inl e)
    then have "filter_loop pd h r (c # conds) = (h, Returns (Inl (''Error applying filter: '' @ e)))"
      using step by simp
    with Inl have "applying_error pd (filter_loop pd h r (c # conds))"
      unfolding applying_error_def by blast
    then show ?thesis by blast
  next
    case (Inr m)
    let ?h1 = "h @ [select_rows m (h ! r)]"
    have eq: "filter_loop pd h r (c # conds) = filter_loop pd ?h1 (length h) conds"
      using step Inr by simp
    have "\<forall>c\<in>set conds. filter_condition c
        \<and> condition_column c \<in> set (column_names (?h1 ! length h))"
      using Cons.prems by (simp add: select_rows_names)
    from Cons.IH [OF this] show ?thesis unfolding eq .
  qed
qed

lemma filter_loop_missing:
  assumes "\<forall>x\<in>set pre. filter_condition x \<and> condition_column x \<in> set (column_names (h ! r))"
    and "filter_condition c" and "condition_column c \<notin> set (column_names (h ! r))"
  shows "filter_loop pd h r (pre @ c # post) = filter_loop pd h r (pre @ [c])
     \<and> ((\<exists>h'. filter_loop pd h r (pre @ c # post)
                 = (h', Returns (Inl (column_missing (condition_column c)))))
        \<or> applying_error pd (filter_loop pd h r (pre @ c # post)))"
  using assms(1,3)
proof (induction pre arbitrary: h r)
  case Nil
  then show ?case
    using filter_step_absent [OF assms(2), of h r pd] by simp
next
  case (Cons x pre)
  then have fx: "filter_condition x" and present: "condition_column x \<in> set (column_names (h ! r))"
    by simp_all
  let ?cmp = "compare pd (operator_name x) (get_series (h ! r) (condition_column x)) (condition_value x)"
  note step = filter_step_present [OF fx present, of pd]
  show ?case
  proof (cases ?cmp)
    case (Inl e)
    then have r: "filter_loop pd h r (x # rest) = (h, Returns (Inl (''Error applying filter: '' @ e)))"
      for rest using step [of rest] by simp
    have e1: "filter_loop pd h r ((x # pre) @ c # post)
        = (h, Returns (Inl (''Error applying filter: '' @ e)))"
      by (simp only: append_Cons r)
    have e2: "filter_loop pd h r ((x # pre) @ [c])
        = (h, Returns (Inl (''Error applying filter: '' @ e)))"
      by (simp only: append_Cons r)
    have "applying_error pd (filter_loop pd h r ((x # pre) @ c # post))"
      unfolding applying_error_def e1 using Inl by blast
    moreover have "filter_loop pd h r ((x # pre) @ c # post) = filter_loop pd h r ((x # pre) @ [c])"
      unfolding e1 e2 by (rule refl)
    ultimately show ?thesis by blast
  next
    case (Inr m)
    let ?h1 = "h @ [select_rows m (h ! r)]"
    have eq: "filter_loop pd h r (x # rest) = filter_loop pd ?h1 (length h) rest" for rest
      using step [of rest] Inr by simp
    have "\<forall>x\<in>set pre. filter_condition x \<and> condition_column x \<in> set (column_names (?h1 ! length h))"
      and "condition_column c \<notin> set (column_names (?h1 ! length h))"
      using Cons.prems by (simp_all add: select_rows_names)
    from Cons.IH [OF this] show ?thesis
      unfolding append_Cons eq .
  qed
qed

text \<open>
  Claim C3, as the code has it. The conditions are filter conditions of the data model
  (the column a name, the operator one of the five or left out), and the comparison of
  the library is cell by cell. When the loop runs to its end, the
  working frame has the columns of the dataset and exactly its rows that satisfy every
  condition, in their order. When every column of the list is in the dataset, the loop
  runs to its end or stops with "Error applying filter: " and the text of an exception
  that a comparison raised. When a condition names a column that is not in the dataset
  and the columns of the conditions before it are, the conditions after it play no part:
  the loop stops with the error that names the column, or earlier with the error of a
  comparison.
\<close>

theorem filter_loop_conjunction:
  "(elementwise pd sat \<and> (\<forall>c\<in>set conds. filter_condition c)
      \<and> filter_loop pd h r conds = (h', Returns (Inr r'))
    \<longrightarrow> columns (h' ! r') = columns (h ! r)
        \<and> rows (h' ! r')
            = filter (\<lambda>row. \<forall>c\<in>set conds. satisfies sat (h ! r) row c) (rows (h ! r)))
   \<and> ((\<forall>c\<in>set conds. filter_condition c \<and> condition_column c \<in> set (column_names (h ! r)))
    \<longrightarrow> (\<exists>h' r'. filter_loop pd h r conds = (h', Returns (Inr r')))
        \<or> applying_error pd (filter_loop pd h r conds))
   \<and> ((\<forall>x\<in>set pre. filter_condition x \<and> condition_column x \<in> set (column_names (h ! r)))
      \<and> filter_condition c \<and> condition_column c \<notin> set (column_names (h ! r))
    \<longrightarrow> filter_loop pd h r (pre @ c # post) = filter_loop pd h r (pre @ [c])
        \<and> ((\<exists>h'. filter_loop pd h r (pre @ c # post)
                    = (h', Returns (Inl (column_missing (condition_column c)))))
           \<or> applying_error pd (filter_loop pd h r (pre @ c # post))))"
proof (intro conjI impI)
  assume a: "elementwise pd sat \<and> (\<forall>c\<in>set conds. filter_condition c)
      \<and> filter_loop pd h r conds = (h', Returns (Inr r'))"
  then have "columns (h' ! r') = columns (h ! r)
     \<and> rows (h' ! r') = filter (\<lambda>row. \<forall>c\<in>set conds. satisfies sat (h ! r) row c) (rows (h ! r))
     \<and> (\<forall>c\<in>set conds. condition_column c \<in> set (column_names (h ! r)))"
    using filter_loop_rows [of pd sat conds h r h' r'] by blast
  then show "columns (h' ! r') = columns (h ! r)"
    and "rows (h' ! r')
            = filter (\<lambda>row. \<forall>c\<in>set conds. satisfies sat (h ! r) row c) (rows (h ! r))"
    by blast+
next
  assume "\<forall>c\<in>set conds. filter_condition c \<and> condition_column c \<in> set (column_names (h ! r))"
  then show "(\<exists>h' r'. filter_loop pd h r conds = (h', Returns (Inr r')))
        \<or> applying_error pd (filter_loop pd h r conds)"
    by (rule filter_loop_outcomes)
next
  assume a: "(\<forall>x\<in>set pre. filter_condition x \<and> condition_column x \<in> set (column_names (h ! r)))
      \<and> filter_condition c \<and> condition_column c \<notin> set (column_names (h ! r))"
  then have "filter_loop pd h r (pre @ c # post) = filter_loop pd h r (pre @ [c])
     \<and> ((\<exists>h'. filter_loop pd h r (pre @ c # post)
                 = (h', Returns (Inl (column_missing (condition_column c)))))
        \<or> applying_error pd (filter_loop pd h r (pre @ c # post)))"
    using filter_loop_missing [of pre h r c pd post] by blast
  then show "filter_loop pd h r (pre @ c # post) = filter_loop pd h r (pre @ [c])"
    and "(\<exists>h'. filter_loop pd h r (pre @ c # post)
                    = (h', Returns (Inl (column_missing (condition_column c)))))
           \<or> applying_error pd (filter_loop pd h r (pre @ c # post))"
    by blast+
qed

lemma collect_Inr:
  "collect xs = Inr vs \<Longrightarrow> vs = map (\<lambda>x. case x of Inr b \<Rightarrow> b | Inl e \<Rightarrow> False) xs"
  by (induction xs arbitrary: vs) (auto split: sum.splits)

lemma ex_elementwise: "elementwise ex_pandas ex_satisfies"
  unfolding elementwise_def
proof (intro allI impI)
  fix op s v m
  assume "compare ex_pandas op s v = Inr m"
  then have "collect (map (\<lambda>c. cell_compare op c v) (snd s)) = Inr m"
    by (simp add: ex_pandas_def ex_compare_def)
  from collect_Inr [OF this] show "m = map (\<lambda>c. ex_satisfies op c v) (snd s)"
    by (simp add: ex_satisfies_def comp_def)
qed

lemma ex_filter_loop:
  "\<forall>c\<in>set [adults, sex_is_male]. filter_condition c"
  "filter_loop ex_pandas [people] 0 [adults, sex_is_male]
     = ([people, adult_people, adult_males], Returns (Inr 2))"
  "filter (\<lambda>row. \<forall>c\<in>set [adults, sex_is_male]. satisfies ex_satisfies ([people] ! 0) row c)
     (rows ([people] ! 0))
     = [[CStr ''male'', CNum 30, CStr ''7''], [CStr ''male'', CNum 18, CNaN]]"
  "\<forall>x\<in>set [adults]. filter_condition x \<and> condition_column x \<in> set (column_names ([people] ! 0))"
  "filter_condition tall" "condition_column tall \<notin> set (column_names ([people] ! 0))"
  "filter_loop ex_pandas [people] 0 ([adults] @ [tall])
     = ([people, adult_people], Returns (Inl (column_missing ''height'')))"
  by code_simp+

text \<open>
  The adults, then the males: the loop ends with the two adult males. The adults, a
  height, then the males: the loop stops at the height, whatever comes after it.
\<close>

theorem filter_loop_conjunction_witness:
  "elementwise ex_pandas ex_satisfies \<and> filter_condition adults \<and> filter_condition sex_is_male
   \<and> filter_loop ex_pandas [people] 0 [adults, sex_is_male]
       = ([people, adult_people, adult_males], Returns (Inr 2))
   \<and> rows ([people, adult_people, adult_males] ! 2)
       = [[CStr ''male'', CNum 30, CStr ''7''], [CStr ''male'', CNum 18, CNaN]]
   \<and> filter_condition tall \<and> condition_column tall \<notin> set (column_names ([people] ! 0))
   \<and> filter_loop ex_pandas [people] 0 ([adults] @ tall # [sex_is_male])
       = ([people, adult_people], Returns (Inl (column_missing ''height'')))"
proof -
  note t = filter_loop_conjunction [where pd = ex_pandas and sat = ex_satisfies
      and conds = "[adults, sex_is_male]" and h = "[people]" and r = 0
      and h' = "[people, adult_people, adult_males]" and r' = 2
      and pre = "[adults]" and c = tall and post = "[sex_is_male]"]
  have "rows ([people, adult_people, adult_males] ! 2)
      = filter (\<lambda>row. \<forall>c\<in>set [adults, sex_is_male]. satisfies ex_satisfies ([people] ! 0) row c)
          (rows ([people] ! 0))"
    using t ex_elementwise ex_filter_loop(1,2) by blast
  then have a: "rows ([people, adult_people, adult_males] ! 2)
       = [[CStr ''male'', CNum 30, CStr ''7''], [CStr ''male'', CNum 18, CNaN]]"
    by (simp only: ex_filter_loop(3))
  have "filter_loop ex_pandas [people] 0 ([adults] @ tall # [sex_is_male])
      = filter_loop ex_pandas [people] 0 ([adults] @ [tall])"
    using t ex_filter_loop(4,5,6) by blast
  then have b: "filter_loop ex_pandas [people] 0 ([adults] @ tall # [sex_is_male])
       = ([people, adult_people], Returns (Inl (column_missing ''height'')))"
    by (simp only: ex_filter_loop(7))
  have c: "filter_condition adults" "filter_condition sex_is_male"
    using ex_filter_loop(1) by simp_all
  show ?thesis using ex_elementwise c ex_filter_loop(2,5,6) a b by blast
qed

text \<open>
  Claim C3 as stated fails: the column of the condition is in the dataset, and the loop
  yields no rows at all, it stops with the error of the comparison of a text with a
  number.
\<close>

theorem type_mismatch_stops_filter:
  "filter_condition sex_at_least_18
   \<and> condition_column sex_at_least_18 \<in> set (column_names people)
   \<and> filter_loop ex_pandas [people] 0 [sex_at_least_18]
       = ([people], Returns (Inl (''Error applying filter: '' @ not_supported ''>='' ''str'' ''int'')))
   \<and> run_action ex_pandas ex_px [people] 0 [(''type'', JStr ''summarize'')] (JStr ''adults'')
        (JArr [sex_at_least_18])
       = ([people, people],
          Returns (ShowError (''Error applying filter: '' @ not_supported ''>='' ''str'' ''int'')))"
  by code_simp

subsection \<open>The dataset of the session\<close>

lemma only_changes_refl: "only_changes r h h"
  by (simp add: only_changes_def)

lemma only_changes_trans: "only_changes r h h1 \<Longrightarrow> only_changes r h1 h2 \<Longrightarrow> only_changes r h h2"
  by (simp add: only_changes_def)

lemma coerce_numeric_changes: "coerce_numeric pd h r c = Some h' \<Longrightarrow> only_changes r h h'"
  by (auto simp: coerce_numeric_def Let_def only_changes_def split: if_splits option.splits)

lemma coerce_datetime_changes: "coerce_datetime pd h r c = Some h' \<Longrightarrow> only_changes r h h'"
  by (auto simp: coerce_datetime_def Let_def only_changes_def split: if_splits option.splits)

lemma prepare_histogram_changes:
  "prepare_histogram pd h r action = (h', res) \<Longrightarrow> only_changes r h h' \<and> (\<forall>p. fst res = Some p \<longrightarrow> p = r)"
  by (auto simp: prepare_histogram_def Let_def only_changes_refl
      dest: coerce_numeric_changes split: option.splits bool.splits)

lemma prepare_bar_changes:
  "prepare_bar pd h r action = (h', res) \<Longrightarrow> only_changes r h h' \<and> (\<forall>p. fst res = Some p \<longrightarrow> p = r)"
  by (auto simp: prepare_bar_def Let_def only_changes_refl
      dest: coerce_numeric_changes split: option.splits bool.splits if_splits)

lemma prepare_scatter_changes:
  "prepare_scatter pd h r action = (h', res) \<Longrightarrow> only_changes r h h' \<and> (\<forall>p. fst res = Some p \<longrightarrow> p = r)"
  by (auto simp: prepare_scatter_def Let_def only_changes_refl
      dest: coerce_numeric_changes only_changes_trans split: option.splits sum.splits)

lemma prepare_line_changes:
  "prepare_line pd h r action = (h', res) \<Longrightarrow> only_changes r h h' \<and> (\<forall>p. fst res = Some p \<longrightarrow> p = r)"
  by (auto simp: prepare_line_def Let_def only_changes_refl
      dest: coerce_numeric_changes coerce_datetime_changes only_changes_trans
      split: option.splits sum.splits)

lemma prepare_summarize_changes:
  "prepare_summarize h r action = (h', res) \<Longrightarrow> only_changes r h h' \<and> (\<forall>p. fst res = Some p \<longrightarrow> p = r)"
  by (auto simp: prepare_summarize_def only_changes_refl split: option.splits sum.splits)

lemma prepare_changes:
  assumes "prepare_data_for_visualization pd h r action = (h', out)"
  shows "only_changes r h h' \<and> (\<forall>p e. out = Returns (Some p, e) \<longrightarrow> p = r)"
proof (cases "get_action_type action")
  case (Raises e)
  with assms show ?thesis
    by (auto simp: prepare_data_for_visualization_def only_changes_refl)
next
  case (Returns t)
  let ?branch = "if t = ''histogram'' then prepare_histogram pd h r action
              else if t = ''bar'' then prepare_bar pd h r action
              else if t = ''scatter'' then prepare_scatter pd h r action
              else if t = ''line'' then prepare_line pd h r action
              else if t = ''summarize'' then prepare_summarize h r action
              else (h, None, Some (''Unknown action type: '' @ t))"
  obtain h1 res where b: "?branch = (h1, res)" by (cases ?branch) auto
  have "only_changes r h h1 \<and> (\<forall>p. fst res = Some p \<longrightarrow> p = r)"
    using b prepare_histogram_changes [of pd h r action h1 res]
      prepare_bar_changes [of pd h r action h1 res] prepare_scatter_changes [of pd h r action h1 res]
      prepare_line_changes [of pd h r action h1 res] prepare_summarize_changes [of h r action h1 res]
    by (auto simp: only_changes_refl split: if_splits)
  moreover have "h' = h1" "out = Returns res"
    using assms Returns b by (simp_all add: prepare_data_for_visualization_def)
  ultimately show ?thesis by auto
qed

lemma extends_refl: "extends h h"
  by (simp add: extends_def)

lemma extends_trans: "extends h h1 \<Longrightarrow> extends h1 h2 \<Longrightarrow> extends h h2"
  by (auto simp: extends_def)

lemma extends_append: "extends h (h @ xs)"
  by (simp add: extends_def nth_append)

lemma apply_operator_extends:
  "apply_operator pd h r col op v = Inr (h', r') \<Longrightarrow>
     extends h h' \<and> (r' = r \<or> length h \<le> r')"
  by (auto simp: apply_operator_def extends_refl extends_append split: json.splits if_splits sum.splits)

lemma filter_loop_extends:
  "filter_loop pd h r conds = (h', out) \<Longrightarrow>
     extends h h' \<and> (\<forall>r'. out = Returns (Inr r') \<longrightarrow> r' = r \<or> length h \<le> r')"
proof (induction conds arbitrary: h r)
  case Nil
  then show ?case by (auto simp: extends_refl)
next
  case (Cons c conds)
  show ?case
  proof (cases "\<exists>d fc fv h1 r1. c = JObj d \<and> map_of d ''column'' = Some fc \<and> map_of d ''value'' = Some fv
      \<and> in_columns fc (h ! r) = Some True
      \<and> apply_operator pd h r (py_str fc) (dict_get d ''operator'' (JStr ''=='')) fv = Inr (h1, r1)")
    case True
    then obtain d fc fv h1 r1 where c: "c = JObj d" "map_of d ''column'' = Some fc"
      "map_of d ''value'' = Some fv" "in_columns fc (h ! r) = Some True"
      and ap: "apply_operator pd h r (py_str fc) (dict_get d ''operator'' (JStr ''=='')) fv = Inr (h1, r1)"
      by blast
    have "filter_loop pd h r (c # conds) = filter_loop pd h1 r1 conds"
      using c ap by simp
    with Cons.prems have l: "filter_loop pd h1 r1 conds = (h', out)" by simp
    from apply_operator_extends [OF ap] have e: "extends h h1" "r1 = r \<or> length h \<le> r1" by simp_all
    from Cons.IH [OF l] have ih: "extends h1 h'"
      "\<forall>r'. out = Returns (Inr r') \<longrightarrow> r' = r1 \<or> length h1 \<le> r'" by simp_all
    have "extends h h'" using e(1) ih(1) by (rule extends_trans)
    moreover have "\<forall>r'. out = Returns (Inr r') \<longrightarrow> r' = r \<or> length h \<le> r'"
      using e ih(2) by (auto simp: extends_def)
    ultimately show ?thesis by simp
  next
    case False
    then have "h' = h \<and> (\<forall>r'. out \<noteq> Returns (Inr r'))"
      using Cons.prems
      by (auto simp: Let_def split: json.splits option.splits bool.splits sum.splits)
    then show ?thesis by (simp add: extends_refl)
  qed
qed

lemma dispatch_changes:
  assumes "dispatch pd px h f action description = (h', out)"
  shows "only_changes f h h'"
proof (cases "map_of action ''type''")
  case None
  with assms show ?thesis by (simp add: dispatch_def only_changes_refl)
next
  case (Some ty)
  show ?thesis
  proof (cases "ty = JStr ''summarize''")
    case True
    with assms Some show ?thesis
      by (auto simp: dispatch_def only_changes_refl split: prod.splits if_splits)
  next
    case False
    obtain h1 o1 where p: "prepare_data_for_visualization pd h f action = (h1, o1)"
      by (cases "prepare_data_for_visualization pd h f action") auto
    from prepare_changes [OF p] have c: "only_changes f h h1" by simp
    have "h' = h1"
      using assms Some False p
      by (auto simp: dispatch_def split: outcome.splits prod.splits if_splits)
    with c show ?thesis by simp
  qed
qed

lemma run_action_keeps:
  assumes "run_action pd px h df action description filter_conditions = (h', out)"
  shows "extends h h'"
proof -
  let ?h0 = "h @ [h ! df]"
  let ?loop = "if truthy filter_conditions then
                 (case py_iter filter_conditions of
                    Inl e \<Rightarrow> (?h0, Raises (''TypeError: '' @ e))
                  | Inr conditions \<Rightarrow> filter_loop pd ?h0 (length h) conditions)
               else (?h0, Returns (Inr (length h)))"
  obtain h1 o1 where l: "?loop = (h1, o1)" by (cases ?loop) auto
  have e1r1: "extends ?h0 h1 \<and> (\<forall>r'. o1 = Returns (Inr r') \<longrightarrow> length h \<le> r')"
  proof (cases "truthy filter_conditions")
    case False
    with l have "h1 = ?h0" "o1 = Returns (Inr (length h))" by simp_all
    then show ?thesis by (simp add: extends_refl)
  next
    case True
    show ?thesis
    proof (cases "py_iter filter_conditions")
      case (Inl e)
      with True l have "h1 = ?h0" "o1 = Raises (''TypeError: '' @ e)" by simp_all
      then show ?thesis by (simp add: extends_refl)
    next
      case (Inr conditions)
      with True l have fl: "filter_loop pd ?h0 (length h) conditions = (h1, o1)" by simp
      from filter_loop_extends [OF fl] show ?thesis by auto
    qed
  qed
  then have e1: "extends ?h0 h1" and r1: "\<forall>r'. o1 = Returns (Inr r') \<longrightarrow> length h \<le> r'"
    by blast+
  have e0: "extends h h1" using extends_append [of h "[h ! df]"] e1 by (rule extends_trans)
  have run: "run_action pd px h df action description filter_conditions =
      (case (h1, o1) of
         (h1, Raises e) \<Rightarrow> (h1, Raises e)
       | (h1, Returns (Inl msg)) \<Rightarrow> (h1, Returns (ShowError msg))
       | (h1, Returns (Inr r)) \<Rightarrow> dispatch pd px h1 r action description)"
    unfolding run_action_def df_copy_def using l by simp
  show ?thesis
  proof (cases "\<exists>r. o1 = Returns (Inr r)")
    case True
    then obtain r where o1: "o1 = Returns (Inr r)" by blast
    with r1 have r: "length h \<le> r" by simp
    from run o1 assms have "dispatch pd px h1 r action description = (h', out)" by simp
    from dispatch_changes [OF this] have "only_changes r h1 h'" .
    with e0 r show ?thesis by (auto simp: extends_def only_changes_def)
  next
    case False
    then have "h' = h1"
      using run assms by (auto split: outcome.splits sum.splits)
    with e0 show ?thesis by simp
  qed
qed

text \<open>
  Claim C4, as the code has it. The pipeline of \<^verbatim>\<open>main\<close> leaves every object that was in
  the store before the run as it was, the dataset of the session among them: it works on
  a copy, and each filter makes a new frame. \<^verbatim>\<open>prepare_data_for_visualization\<close> itself
  does not copy: the frame it returns is the object it was passed, its coercions are
  assignments into that object, and no other object changes; the dataset is safe from
  them because \<^verbatim>\<open>main\<close> passes the working copy.
\<close>

theorem original_dataset_unchanged:
  "(run_action pd px h df action description filter_conditions = (h', out) \<and> i < length h
      \<longrightarrow> h' ! i = h ! i)
   \<and> (filter_loop pd h r conds = (h', res) \<and> i < length h \<longrightarrow> h' ! i = h ! i)
   \<and> (prepare_data_for_visualization pd h r action = (h', Returns (Some p, e))
      \<longrightarrow> p = r \<and> length h' = length h \<and> (\<forall>j. j \<noteq> r \<longrightarrow> h' ! j = h ! j))"
proof (intro conjI impI)
  assume "run_action pd px h df action description filter_conditions = (h', out) \<and> i < length h"
  then show "h' ! i = h ! i"
    using run_action_keeps [of pd px h df action description filter_conditions h' out]
    by (simp add: extends_def)
next
  assume "filter_loop pd h r conds = (h', res) \<and> i < length h"
  then show "h' ! i = h ! i"
    using filter_loop_extends [of pd h r conds h' res] by (simp add: extends_def)
next
  assume a: "prepare_data_for_visualization pd h r action = (h', Returns (Some p, e))"
  from prepare_changes [OF a] show "p = r" by simp
  from prepare_changes [OF a] show "length h' = length h" by (simp add: only_changes_def)
  from prepare_changes [OF a] show "\<forall>j. j \<noteq> r \<longrightarrow> h' ! j = h ! j" by (simp add: only_changes_def)
qed

lemma ex_run_histogram:
  "run_action ex_pandas ex_px [people] 0 histogram_of_score (JStr ''scores'') JNull
     = ([people, scored_people],
        Returns (ShowChart (Some (PxHistogram (Some scored_people) (JStr ''score''))) (JStr ''scores'')))"
  by code_simp

lemma ex_prepare_in_place:
  "prepare_data_for_visualization ex_pandas [people] 0 histogram_of_score
     = ([scored_people], Returns (Some 0, None))"
  by code_simp

lemma ex_scored_differs: "scored_people \<noteq> people"
  by (simp add: scored_people_def people_def)

text \<open>
  The histogram of the scores run on the dataset: the copy has its scores turned into
  numbers, the dataset at its reference is as before.
\<close>

theorem original_dataset_unchanged_witness:
  "run_action ex_pandas ex_px [people] 0 histogram_of_score (JStr ''scores'') JNull
     = ([people, scored_people],
        Returns (ShowChart (Some (PxHistogram (Some scored_people) (JStr ''score''))) (JStr ''scores'')))
   \<and> (0::nat) < length [people]
   \<and> [people, scored_people] ! 0 = [people] ! 0
   \<and> scored_people \<noteq> people"
proof -
  note t = original_dataset_unchanged [where pd = ex_pandas and px = ex_px and h = "[people]"
      and df = 0 and action = histogram_of_score and description = "JStr ''scores''"
      and filter_conditions = JNull and h' = "[people, scored_people]"
      and out = "Returns (ShowChart (Some (PxHistogram (Some scored_people) (JStr ''score''))) (JStr ''scores''))"
      and i = 0]
  have l: "(0::nat) < length [people]" by simp
  have "[people, scored_people] ! 0 = [people] ! 0"
    using t ex_run_histogram l by blast
  with ex_run_histogram l ex_scored_differs show ?thesis by blast
qed

text \<open>
  Claim C4 as stated fails for \<^verbatim>\<open>prepare_data_for_visualization\<close>: the frame passed in is
  the object at 0, and after the call its column of scores holds numbers.
\<close>

theorem prepare_coerces_in_place:
  "prepare_data_for_visualization ex_pandas [people] 0 histogram_of_score
     = ([scored_people], Returns (Some 0, None))
   \<and> get_series ([people] ! 0) ''score'' = (Object, [CStr ''7'', CStr ''x'', CStr ''9'', CNaN])
   \<and> get_series ([scored_people] ! 0) ''score'' = (Float64, [CNum 7, CNaN, CNum 9, CNaN])"
  by code_simp


end
